(* ===== verification/FSSH_Prelude.thy ===== *)
theory FSSH_Prelude
  imports Complex_Main
begin

text \<open>
  Shared vocabulary of the FSSH development. The Python sources hold every quantity in
  numpy arrays of shape (2,) or (2,2); here they are the records \<open>'a vec2\<close> and
  \<open>'a mat2\<close>, with one field per array cell (\<open>v0\<close> is \<open>x[0]\<close>, \<open>m01\<close> is
  \<open>x[0, 1]\<close>). Floating-point numbers are modelled by \<open>real\<close> and \<open>complex\<close>
  (exact arithmetic): the development is about the algorithm the code computes, not about
  rounding. The theory also holds the products \<open>np.dot\<close> computes, the
  selection \<open>x[nstate-1]\<close> by a 1-based state index, and the lemmas on them that the
  component theories share: linearity and associativity of the products, and a rule for
  the derivative of a function defined by cases on the sign of its argument, which the
  potentials at \<open>p = 0\<close> need. The Python exceptions the programs can raise are the
  constructors of \<open>py_error\<close>; a fallible operation returns \<open>py_error + 'a\<close>.
  \<open>NameError\<close> stands for a read of an unassigned name, which CPython reports as
  \<open>NameError\<close> from inside a comprehension before version 3.12 and as its subclass
  \<open>UnboundLocalError\<close> from 3.12 on.
\<close>

named_theorems mat2_defs "unfolding rules of the 2x2 array operations"

record 'a vec2 =
  v0 :: 'a
  v1 :: 'a

record 'a mat2 =
  m00 :: 'a
  m01 :: 'a
  m10 :: 'a
  m11 :: 'a

type_synonym rvec = "real vec2"
type_synonym cvec = "complex vec2"
type_synonym rmat = "real mat2"
type_synonym cmat = "complex mat2"

datatype py_error = ZeroDivisionError | TypeError | NameError | IndexError

text \<open>\<open>np.dot\<close> of two (2,2) arrays.\<close>

definition mmul :: "'a::{plus,times} mat2 \<Rightarrow> 'a mat2 \<Rightarrow> 'a mat2" where
  [mat2_defs]: "mmul A B =
     \<lparr>m00 = m00 A * m00 B + m01 A * m10 B, m01 = m00 A * m01 B + m01 A * m11 B,
      m10 = m10 A * m00 B + m11 A * m10 B, m11 = m10 A * m01 B + m11 A * m11 B\<rparr>"

text \<open>\<open>np.dot\<close> of a (2,) array with a (2,2) array: the row vector times the matrix.\<close>

definition vmul :: "'a::{plus,times} vec2 \<Rightarrow> 'a mat2 \<Rightarrow> 'a vec2" where
  [mat2_defs]: "vmul c M =
     \<lparr>v0 = v0 c * m00 M + v1 c * m10 M, v1 = v0 c * m01 M + v1 c * m11 M\<rparr>"

definition mtrans :: "'a mat2 \<Rightarrow> 'a mat2" where
  [mat2_defs]: "mtrans A = \<lparr>m00 = m00 A, m01 = m10 A, m10 = m01 A, m11 = m11 A\<rparr>"

definition mid :: "'a::{zero,one} mat2" where
  [mat2_defs]: "mid = \<lparr>m00 = 1, m01 = 0, m10 = 0, m11 = 1\<rparr>"

definition mdiag :: "'a::zero vec2 \<Rightarrow> 'a mat2" where
  [mat2_defs]: "mdiag e = \<lparr>m00 = v0 e, m01 = 0, m10 = 0, m11 = v1 e\<rparr>"

text \<open>Elementwise \<open>+\<close>, multiplication by a scalar and division by a scalar of (2,) arrays.\<close>

definition vadd :: "'a::plus vec2 \<Rightarrow> 'a vec2 \<Rightarrow> 'a vec2" where
  [mat2_defs]: "vadd a b = \<lparr>v0 = v0 a + v0 b, v1 = v1 a + v1 b\<rparr>"

definition vscale :: "'a::times \<Rightarrow> 'a vec2 \<Rightarrow> 'a vec2" where
  [mat2_defs]: "vscale s a = \<lparr>v0 = s * v0 a, v1 = s * v1 a\<rparr>"

definition vdiv :: "'a::inverse vec2 \<Rightarrow> 'a \<Rightarrow> 'a vec2" where
  [mat2_defs]: "vdiv a s = \<lparr>v0 = v0 a / s, v1 = v1 a / s\<rparr>"

text \<open>
  \<open>x[nstate-1]\<close> for the active-state index \<open>nstate\<close>, which the program keeps in
  \<open>{1, 2}\<close>. Index 0 reads \<open>x[-1] = x[1]\<close> as numpy does; an index above 2 would raise in
  Python and is never reached (\<open>Trajectory.reachable_state_valid\<close> proves the range).
\<close>

definition sel :: "'a vec2 \<Rightarrow> nat \<Rightarrow> 'a" where
  [mat2_defs]: "sel x k = (if k = 1 then v0 x else v1 x)"

definition symmetric2 :: "'a mat2 \<Rightarrow> bool" where
  "symmetric2 A \<longleftrightarrow> m01 A = m10 A"

definition antisymmetric2 :: "'a::{zero,uminus} mat2 \<Rightarrow> bool" where
  "antisymmetric2 A \<longleftrightarrow> m00 A = 0 \<and> m11 A = 0 \<and> m10 A = - m01 A"

text \<open>\<open>F'\<close> is, cell by cell, the derivative at \<open>p\<close> of the matrix-valued \<open>F\<close>.\<close>

definition has_mat2_derivative :: "(real \<Rightarrow> rmat) \<Rightarrow> rmat \<Rightarrow> real \<Rightarrow> bool" where
  "has_mat2_derivative F F' p \<longleftrightarrow>
     ((\<lambda>q. m00 (F q)) has_real_derivative m00 F') (at p) \<and>
     ((\<lambda>q. m01 (F q)) has_real_derivative m01 F') (at p) \<and>
     ((\<lambda>q. m10 (F q)) has_real_derivative m10 F') (at p) \<and>
     ((\<lambda>q. m11 (F q)) has_real_derivative m11 F') (at p)"

definition mat2_continuous :: "(real \<Rightarrow> real mat2) \<Rightarrow> real \<Rightarrow> bool" where
  "mat2_continuous f p \<longleftrightarrow>
     isCont (\<lambda>q. m00 (f q)) p \<and> isCont (\<lambda>q. m01 (f q)) p \<and>
     isCont (\<lambda>q. m10 (f q)) p \<and> isCont (\<lambda>q. m11 (f q)) p"

subsection \<open>Algebra of the array operations\<close>

lemma vmul_vadd [simp]:
  "vmul (vadd a b) (M :: 'a::comm_semiring mat2) = vadd (vmul a M) (vmul b M)"
  by (simp add: mat2_defs algebra_simps)

lemma vmul_vscale [simp]:
  "vmul (vscale s a) (M :: 'a::comm_semiring mat2) = vscale s (vmul a M)"
  by (simp add: mat2_defs algebra_simps)

lemma vmul_vdiv [simp]:
  "vmul (vdiv a s) (M :: 'a::field mat2) = vdiv (vmul a M) s"
  by (simp add: mat2_defs algebra_simps add_divide_distrib)

lemma vmul_mmul:
  "vmul (vmul a M) (N :: 'a::comm_semiring mat2) = vmul a (mmul M N)"
  by (simp add: mat2_defs algebra_simps)

lemma mmul_assoc:
  "mmul (mmul A B) (C :: 'a::comm_semiring mat2) = mmul A (mmul B C)"
  by (simp add: mat2_defs algebra_simps)

lemma mtrans_mmul:
  "mtrans (mmul A B) = mmul (mtrans B) (mtrans (A :: 'a::comm_semiring mat2))"
  by (simp add: mat2_defs algebra_simps)

lemma mtrans_mtrans [simp]: "mtrans (mtrans A) = A"
  by (simp add: mat2_defs)

lemma mmul_mid [simp]:
  "mmul A (mid :: 'a::comm_semiring_1 mat2) = A" "mmul mid A = A"
  by (simp_all add: mat2_defs)

lemma vec2_eqI: "v0 a = v0 b \<Longrightarrow> v1 a = v1 b \<Longrightarrow> a = b" for a b :: "'a vec2"
  by (cases a, cases b) simp

lemma mat2_eqI:
  "m00 A = m00 B \<Longrightarrow> m01 A = m01 B \<Longrightarrow> m10 A = m10 B \<Longrightarrow> m11 A = m11 B \<Longrightarrow> A = B"
  for A B :: "'a mat2"
  by (cases A, cases B) simp

subsection \<open>Derivatives of functions defined by cases on the sign\<close>

text \<open>
  The potentials are written \<open>if p > 0 \<dots> elif p == 0 \<dots> else \<dots>\<close>. If both
  branches are differentiable everywhere, agree at 0 with the middle value, and their
  derivatives agree at 0, the whole function is differentiable everywhere, with the
  derivative written by the same cases.
\<close>

lemma DERIV_if_sign:
  fixes gr gl dr dl :: "real \<Rightarrow> real"
  assumes r: "\<And>q. (gr has_real_derivative dr q) (at q)"
    and l: "\<And>q. (gl has_real_derivative dl q) (at q)"
    and c: "gr 0 = c" "gl 0 = c" and d: "dr 0 = d0" "dl 0 = d0"
  shows "((\<lambda>q. if 0 < q then gr q else if q = 0 then c else gl q) has_real_derivative
          (if 0 < p then dr p else if p = 0 then d0 else dl p)) (at p)"
proof -
  let ?f = "\<lambda>q. if 0 < q then gr q else if q = 0 then c else gl q"
  consider "0 < p" | "p = 0" | "p < 0" by linarith
  then show ?thesis
  proof cases
    case 1
    have "(?f has_real_derivative dr p) (at p)"
      by (rule has_field_derivative_transform_within_open [OF r, of "{0<..}"]) (use 1 in auto)
    with 1 show ?thesis by simp
  next
    case 2
    have fr: "\<forall>\<^sub>F q in at_right 0. ?f q = gr q"
      by (rule eventually_mono [OF eventually_at_right_less]) auto
    have fl: "\<forall>\<^sub>F q in at_left 0. ?f q = gl q"
      by (rule eventually_mono [OF eventually_at_left_real [of "-1" 0]]) auto
    have qr: "((\<lambda>q. (gr q - gr 0) / (q - 0)) \<longlongrightarrow> d0) (at_right 0)"
      using r [of 0] d by (simp add: has_field_derivative_iff filterlim_at_split)
    have ql: "((\<lambda>q. (gl q - gl 0) / (q - 0)) \<longlongrightarrow> d0) (at_left 0)"
      using l [of 0] d by (simp add: has_field_derivative_iff filterlim_at_split)
    have "((\<lambda>q. (?f q - ?f 0) / (q - 0)) \<longlongrightarrow> d0) (at_right 0)"
      using qr by (rule tendsto_cong [THEN iffD1, rotated])
        (use fr c in \<open>auto elim: eventually_mono\<close>)
    moreover have "((\<lambda>q. (?f q - ?f 0) / (q - 0)) \<longlongrightarrow> d0) (at_left 0)"
      using ql by (rule tendsto_cong [THEN iffD1, rotated])
        (use fl c in \<open>auto elim: eventually_mono\<close>)
    ultimately have "(?f has_real_derivative d0) (at 0)"
      by (simp add: has_field_derivative_iff filterlim_at_split)
    with 2 show ?thesis by simp
  next
    case 3
    have "(?f has_real_derivative dl p) (at p)"
      by (rule has_field_derivative_transform_within_open [OF l, of "{..<0}"]) (use 3 in auto)
    with 3 show ?thesis by simp
  qed
qed

lemma isCont_if_sign:
  fixes gr gl :: "real \<Rightarrow> real"
  assumes r: "\<And>q. isCont gr q" and l: "\<And>q. isCont gl q" and c: "gr 0 = c" "gl 0 = c"
  shows "isCont (\<lambda>q. if 0 < q then gr q else if q = 0 then c else gl q) p"
proof -
  have e: "(\<lambda>q. if 0 < q then gr q else if q = 0 then c else gl q) = (\<lambda>q. if q \<le> 0 then gl q else gr q)"
    using c by (auto simp: fun_eq_iff)
  have "continuous_on ({..0} \<union> {0..}) (\<lambda>q. if q \<le> 0 then gl q else gr q)"
    by (rule continuous_on_cases) (use c in \<open>auto intro!: continuous_at_imp_continuous_on l r\<close>)
  moreover have "{..0} \<union> {0..} = (UNIV :: real set)" by auto
  ultimately have "continuous_on UNIV (\<lambda>q. if q \<le> 0 then gl q else gr q)" by simp
  then show ?thesis unfolding e by (simp add: continuous_on_eq_continuous_at)
qed

lemma mat2_continuous_deriv:
  "has_mat2_derivative f d p \<Longrightarrow> mat2_continuous f p"
  by (auto simp: has_mat2_derivative_def mat2_continuous_def DERIV_isCont)

subsection \<open>Bounds on real numbers\<close>

lemma abs_le_one_unit:
  assumes "a * a + c * c = (1::real)"
  shows "\<bar>a\<bar> \<le> 1"
proof -
  have "a\<^sup>2 \<le> 1" using assms zero_le_square [of c] unfolding power2_eq_square by linarith
  then show ?thesis by (simp add: abs_square_le_1)
qed

lemma abs_prod_le:
  fixes x w y :: real
  assumes "\<bar>x\<bar> \<le> 1" "\<bar>y\<bar> \<le> 1"
  shows "\<bar>x * w * y\<bar> \<le> \<bar>w\<bar>"
proof -
  have "\<bar>x\<bar> * \<bar>w\<bar> * \<bar>y\<bar> \<le> 1 * \<bar>w\<bar> * 1"
    using assms by (intro mult_mono) simp_all
  then show ?thesis by (simp add: abs_mult)
qed

lemma abs_exp_neg_sq: "\<bar>x\<bar> * exp (- (x\<^sup>2)) \<le> (1::real)"
proof -
  have "0 \<le> (\<bar>x\<bar> - 1)\<^sup>2" by simp
  then have "2 * \<bar>x\<bar> \<le> 1 + x\<^sup>2" by (simp add: power2_diff power2_abs)
  then have "\<bar>x\<bar> \<le> 1 + x\<^sup>2" by linarith
  also have "\<dots> \<le> exp (x\<^sup>2)" by (rule exp_ge_add_one_self)
  finally show ?thesis by (simp add: exp_minus field_simps)
qed

lemma exp_le_half: "x \<le> -1 \<Longrightarrow> exp x \<le> (1/2::real)"
proof -
  assume "x \<le> -1"
  then have "exp x \<le> exp (-1)" by simp
  also have "exp (-1::real) \<le> 1/2"
    using exp_ge_add_one_self [of "1::real"] by (simp add: exp_minus field_simps)
  finally show ?thesis .
qed

end
