(* ===== verification/Fourth_RungeKutta.thy ===== *)
theory Fourth_RungeKutta
  imports FSSH_Prelude
begin

text \<open>
  The electronic propagator of \<open>src/FSSH.py/run/Fourth_RungeKutta.py\<close>.
  \<open>Coefficient_DiffEqu\<close> is the right-hand side \<open>c\<^sup>. = -i c \<cdot> combine\<close> of the amplitude
  equation with the frozen matrix \<open>combine\<close> (diagonal \<open>Eig\<close>, off-diagonal
  \<open>-i R_dot d\<close>); \<open>Fourth_RungeKutta\<close> is one classical Runge-Kutta step of size
  \<open>t_step\<close>, each stage a fresh value (the slice \<open>cstate[:]\<close> of the source is a numpy view, not a
  copy, which is harmless because no stage writes into it).
  The lemmas show that the right-hand side is the two-state equation of the docstring,
  that the step is exactly the fourth-order Taylor polynomial of the flow of this linear
  equation, whose exact solution is the exponential series \<open>exact_flow\<close>, how far one
  step is from that solution (order five), and how one step and \<open>n\<close> steps change the
  norm of the amplitude vector, in terms of \<open>coeff_bound\<close>, the size of the coefficient
  matrix, while the exact solution keeps that norm for an antisymmetric coupling (its
  derivative vanishes, \<open>flow_cnorm2_deriv\<close>).
\<close>

definition Coefficient_DiffEqu :: "real \<Rightarrow> cvec \<Rightarrow> rvec \<Rightarrow> rmat \<Rightarrow> cvec" where
  "Coefficient_DiffEqu R_dot cstate Eig dij =
     (let combine = \<lparr>m00 = complex_of_real (v0 Eig),
                     m01 = -\<i> * complex_of_real R_dot * complex_of_real (m10 dij),
                     m10 = -\<i> * complex_of_real R_dot * complex_of_real (m01 dij),
                     m11 = complex_of_real (v1 Eig)\<rparr>
      in vscale (-\<i>) (vmul cstate combine))"

definition Fourth_RungeKutta :: "real \<Rightarrow> cvec \<Rightarrow> rvec \<Rightarrow> rmat \<Rightarrow> real \<Rightarrow> cvec" where
  "Fourth_RungeKutta R_dot cstate Eig dij t_step =
     (let h = complex_of_real t_step;
          cstate_1 = cstate;
          K_1 = vscale h (Coefficient_DiffEqu R_dot cstate_1 Eig dij);
          cstate_2 = vadd cstate_1 (vdiv K_1 2);
          K_2 = vscale h (Coefficient_DiffEqu R_dot cstate_2 Eig dij);
          cstate_3 = vadd cstate_1 (vdiv K_2 2);
          K_3 = vscale h (Coefficient_DiffEqu R_dot cstate_3 Eig dij);
          cstate_4 = vadd cstate_1 K_3;
          K_4 = vscale h (Coefficient_DiffEqu R_dot cstate_4 Eig dij)
      in vadd cstate_1 (vdiv (vadd (vadd (vadd K_1 (vscale 2 K_2)) (vscale 2 K_3)) K_4) 6))"

definition taylor4 :: "(cvec \<Rightarrow> cvec) \<Rightarrow> complex \<Rightarrow> cvec \<Rightarrow> cvec" where
  "taylor4 F h c =
     vadd c (vadd (vscale h (F c)) (vadd (vscale (h\<^sup>2 / 2) (F (F c)))
       (vadd (vscale (h ^ 3 / 6) (F (F (F c)))) (vscale (h ^ 4 / 24) (F (F (F (F c))))))))"

definition cinner :: "cvec \<Rightarrow> cvec \<Rightarrow> complex" where
  "cinner u v = v0 u * cnj (v0 v) + v1 u * cnj (v1 v)"

definition cnorm2 :: "cvec \<Rightarrow> real" where
  "cnorm2 c = (cmod (v0 c))\<^sup>2 + (cmod (v1 c))\<^sup>2"

definition coeff_bound :: "real \<Rightarrow> rvec \<Rightarrow> rmat \<Rightarrow> real" where
  "coeff_bound R_dot Eig dij = (v0 Eig)\<^sup>2 + (v1 Eig)\<^sup>2 + R_dot\<^sup>2 * ((m01 dij)\<^sup>2 + (m10 dij)\<^sup>2)"

definition exact_flow :: "real \<Rightarrow> rvec \<Rightarrow> rmat \<Rightarrow> real \<Rightarrow> cvec \<Rightarrow> cvec" where
  "exact_flow R_dot Eig dij t c =
     \<lparr>v0 = (\<Sum>k. complex_of_real t ^ k / fact k * v0 (((\<lambda>x. Coefficient_DiffEqu R_dot x Eig dij) ^^ k) c)),
      v1 = (\<Sum>k. complex_of_real t ^ k / fact k * v1 (((\<lambda>x. Coefficient_DiffEqu R_dot x Eig dij) ^^ k) c))\<rparr>"

lemma Coefficient_DiffEqu_cells:
  "v0 (Coefficient_DiffEqu R c E d) =
     - \<i> * complex_of_real (v0 E) * v0 c - complex_of_real (R * m01 d) * v1 c"
  "v1 (Coefficient_DiffEqu R c E d) =
     - \<i> * complex_of_real (v1 E) * v1 c - complex_of_real (R * m10 d) * v0 c"
  by (simp_all add: Coefficient_DiffEqu_def mat2_defs Let_def algebra_simps)

lemma Coefficient_DiffEqu_vadd:
  "Coefficient_DiffEqu R (vadd a b) E d = vadd (Coefficient_DiffEqu R a E d) (Coefficient_DiffEqu R b E d)"
  by (rule vec2_eqI) (simp_all add: Coefficient_DiffEqu_cells mat2_defs algebra_simps)

lemma Coefficient_DiffEqu_vscale:
  "Coefficient_DiffEqu R (vscale s a) E d = vscale s (Coefficient_DiffEqu R a E d)"
  by (rule vec2_eqI) (simp_all add: Coefficient_DiffEqu_cells mat2_defs algebra_simps)

lemma vdiv_vscale: "vdiv a s = vscale (inverse s) (a :: 'a::field vec2)"
  by (simp add: mat2_defs field_simps)


lemma cinner_self: "cinner c c = complex_of_real (cnorm2 c)"
  by (simp add: cinner_def cnorm2_def complex_norm_square [symmetric] del: of_real_power)

lemma cinner_vadd: "cinner (vadd a b) c = cinner a c + cinner b c"
  "cinner c (vadd a b) = cinner c a + cinner c b"
  by (simp_all add: cinner_def mat2_defs algebra_simps)

lemma cinner_vscale: "cinner (vscale s a) c = s * cinner a c"
  "cinner c (vscale s a) = cnj s * cinner c a"
  by (simp_all add: cinner_def mat2_defs algebra_simps)

lemma taylor4_norm:
  fixes F :: "cvec \<Rightarrow> cvec"
  assumes add: "\<And>a b. F (vadd a b) = vadd (F a) (F b)"
    and scale: "\<And>s a. F (vscale s a) = vscale s (F a)"
    and skew: "\<And>a b. cinner (F a) b = - cinner a (F b)"
  shows "cnorm2 (taylor4 F (complex_of_real t) c) =
     cnorm2 c - t ^ 6 / 72 * cnorm2 (F (F (F c))) + t ^ 8 / 576 * cnorm2 (F (F (F (F c))))"
proof -
  let ?h = "complex_of_real t"
  let ?z = "\<lambda>x. cinner c x"
  have e: "cinner (taylor4 F ?h c) (taylor4 F ?h c) =
      ?z c + ?h ^ 6 / 72 * ?z (F (F (F (F (F (F c)))))) + ?h ^ 8 / 576 * ?z (F (F (F (F (F (F (F (F c))))))))"
    unfolding taylor4_def cinner_vadd cinner_vscale skew
    by (simp add: algebra_simps eval_nat_numeral)
  have z6: "?z (F (F (F (F (F (F c)))))) = - complex_of_real (cnorm2 (F (F (F c))))"
    unfolding cinner_self [symmetric] skew by simp
  have z8: "?z (F (F (F (F (F (F (F (F c)))))))) = complex_of_real (cnorm2 (F (F (F (F c)))))"
    unfolding cinner_self [symmetric] skew by simp
  have "complex_of_real (cnorm2 (taylor4 F ?h c)) =
      complex_of_real (cnorm2 c - t ^ 6 / 72 * cnorm2 (F (F (F c))) + t ^ 8 / 576 * cnorm2 (F (F (F (F c)))))"
    unfolding cinner_self [symmetric] e z6 z8 by (simp add: cinner_self)
  then show ?thesis by (simp only: of_real_eq_iff)
qed

lemma rk4_taylor_eq:
  "Fourth_RungeKutta R_dot c Eig dij t_step =
     taylor4 (\<lambda>x. Coefficient_DiffEqu R_dot x Eig dij) (complex_of_real t_step) c"
  unfolding Fourth_RungeKutta_def taylor4_def Let_def vdiv_vscale
    Coefficient_DiffEqu_vadd Coefficient_DiffEqu_vscale
  by (rule vec2_eqI)
     (simp_all add: mat2_defs algebra_simps power2_eq_square power3_eq_cube power4_eq_xxxx)

lemma Coefficient_DiffEqu_skew:
  assumes "m10 d = - m01 d"
  shows "cinner (Coefficient_DiffEqu R a E d) b = - cinner a (Coefficient_DiffEqu R b E d)"
  using assms by (simp add: cinner_def Coefficient_DiffEqu_cells algebra_simps)

lemma cmod_lin2_sq:
  "(cmod (a * x + b * y))\<^sup>2 \<le> ((cmod a)\<^sup>2 + (cmod b)\<^sup>2) * ((cmod x)\<^sup>2 + (cmod y)\<^sup>2)"
proof -
  have "cmod (a * x + b * y) \<le> cmod a * cmod x + cmod b * cmod y"
    using norm_triangle_ineq [of "a * x" "b * y"] by (simp add: norm_mult)
  then have "(cmod (a * x + b * y))\<^sup>2 \<le> (cmod a * cmod x + cmod b * cmod y)\<^sup>2"
    by (simp add: power_mono)
  also have "\<dots> \<le> ((cmod a)\<^sup>2 + (cmod b)\<^sup>2) * ((cmod x)\<^sup>2 + (cmod y)\<^sup>2)"
  proof -
    have "0 \<le> (cmod a * cmod y - cmod b * cmod x)\<^sup>2" by simp
    then show ?thesis by (simp add: power2_eq_square algebra_simps)
  qed
  finally show ?thesis .
qed

lemma coeff_bound_nonneg: "0 \<le> coeff_bound R E d"
  by (simp add: coeff_bound_def)

lemma Coefficient_DiffEqu_bound:
  "cnorm2 (Coefficient_DiffEqu R c E d) \<le> coeff_bound R E d * cnorm2 c"
proof -
  have e0: "v0 (Coefficient_DiffEqu R c E d) =
      (- \<i> * complex_of_real (v0 E)) * v0 c + (- complex_of_real (R * m01 d)) * v1 c"
    and e1: "v1 (Coefficient_DiffEqu R c E d) =
      (- \<i> * complex_of_real (v1 E)) * v1 c + (- complex_of_real (R * m10 d)) * v0 c"
    by (simp_all add: Coefficient_DiffEqu_cells)
  have b0: "(cmod (v0 (Coefficient_DiffEqu R c E d)))\<^sup>2 \<le>
      ((v0 E)\<^sup>2 + (R * m01 d)\<^sup>2) * cnorm2 c"
    using cmod_lin2_sq [of "- \<i> * complex_of_real (v0 E)" "v0 c" "- complex_of_real (R * m01 d)" "v1 c"]
    unfolding e0 cnorm2_def by (simp add: norm_mult power_mult_distrib)
  have b1: "(cmod (v1 (Coefficient_DiffEqu R c E d)))\<^sup>2 \<le>
      ((v1 E)\<^sup>2 + (R * m10 d)\<^sup>2) * cnorm2 c"
    using cmod_lin2_sq [of "- \<i> * complex_of_real (v1 E)" "v1 c" "- complex_of_real (R * m10 d)" "v0 c"]
    unfolding e1 cnorm2_def by (simp add: norm_mult power_mult_distrib add.commute)
  have "((v0 E)\<^sup>2 + (R * m01 d)\<^sup>2) * cnorm2 c + ((v1 E)\<^sup>2 + (R * m10 d)\<^sup>2) * cnorm2 c =
      coeff_bound R E d * cnorm2 c"
    by (simp add: coeff_bound_def algebra_simps power_mult_distrib)
  with b0 b1 show ?thesis unfolding cnorm2_def [of "Coefficient_DiffEqu R c E d"] by linarith
qed

lemma Coefficient_DiffEqu_pow_bound:
  "cnorm2 (Coefficient_DiffEqu R (Coefficient_DiffEqu R (Coefficient_DiffEqu R c E d) E d) E d)
     \<le> (coeff_bound R E d) ^ 3 * cnorm2 c"
  "cnorm2 (Coefficient_DiffEqu R (Coefficient_DiffEqu R (Coefficient_DiffEqu R
       (Coefficient_DiffEqu R c E d) E d) E d) E d) \<le> (coeff_bound R E d) ^ 4 * cnorm2 c"
proof -
  let ?F = "\<lambda>x. Coefficient_DiffEqu R x E d" and ?K = "coeff_bound R E d"
  have k: "0 \<le> ?K" by (rule coeff_bound_nonneg)
  have step: "cnorm2 (?F x) \<le> ?K * b" if "cnorm2 x \<le> b" for x b
    using Coefficient_DiffEqu_bound [of R x E d] mult_left_mono [OF that k] by linarith
  have f1: "cnorm2 (?F c) \<le> ?K * cnorm2 c" by (rule step) simp
  have f3: "cnorm2 (?F (?F (?F c))) \<le> ?K * (?K * (?K * cnorm2 c))"
    by (intro step f1)
  then show "cnorm2 (?F (?F (?F c))) \<le> ?K ^ 3 * cnorm2 c"
    by (simp add: power3_eq_cube mult.assoc)
  have "cnorm2 (?F (?F (?F (?F c)))) \<le> ?K * (?K * (?K * (?K * cnorm2 c)))"
    by (intro step f1)
  then show "cnorm2 (?F (?F (?F (?F c)))) \<le> ?K ^ 4 * cnorm2 c"
    by (simp add: power4_eq_xxxx mult.assoc)
qed

lemma rk4_norm_identity:
  assumes "m10 dij = - m01 dij"
  shows "cnorm2 (Fourth_RungeKutta R_dot c Eig dij t_step) =
     cnorm2 c - t_step ^ 6 / 72 * cnorm2 (Coefficient_DiffEqu R_dot (Coefficient_DiffEqu R_dot
         (Coefficient_DiffEqu R_dot c Eig dij) Eig dij) Eig dij)
     + t_step ^ 8 / 576 * cnorm2 (Coefficient_DiffEqu R_dot (Coefficient_DiffEqu R_dot
         (Coefficient_DiffEqu R_dot (Coefficient_DiffEqu R_dot c Eig dij) Eig dij) Eig dij) Eig dij)"
  unfolding rk4_taylor_eq
  by (rule taylor4_norm) (simp_all add: Coefficient_DiffEqu_vadd Coefficient_DiffEqu_vscale
      Coefficient_DiffEqu_skew [OF assms])

lemma rk4_step_bounds:
  assumes "m10 dij = - m01 dij"
  shows "(1 - t_step ^ 6 * (coeff_bound R_dot Eig dij) ^ 3 / 72) * cnorm2 c
           \<le> cnorm2 (Fourth_RungeKutta R_dot c Eig dij t_step)"
    and "cnorm2 (Fourth_RungeKutta R_dot c Eig dij t_step)
           \<le> (1 + t_step ^ 8 * (coeff_bound R_dot Eig dij) ^ 4 / 576) * cnorm2 c"
proof -
  note b = Coefficient_DiffEqu_pow_bound [of R_dot c Eig dij]
  have t6: "0 \<le> t_step ^ 6 / 72" and t8: "0 \<le> t_step ^ 8 / 576"
    by (simp_all add: zero_le_even_power)
  have n4: "0 \<le> cnorm2 (Coefficient_DiffEqu R_dot (Coefficient_DiffEqu R_dot (Coefficient_DiffEqu R_dot
       (Coefficient_DiffEqu R_dot c Eig dij) Eig dij) Eig dij) Eig dij)"
    by (simp add: cnorm2_def)
  have n3: "0 \<le> cnorm2 (Coefficient_DiffEqu R_dot (Coefficient_DiffEqu R_dot
       (Coefficient_DiffEqu R_dot c Eig dij) Eig dij) Eig dij)"
    by (simp add: cnorm2_def)
  show "(1 - t_step ^ 6 * (coeff_bound R_dot Eig dij) ^ 3 / 72) * cnorm2 c
           \<le> cnorm2 (Fourth_RungeKutta R_dot c Eig dij t_step)"
    using mult_left_mono [OF b(1) t6] mult_nonneg_nonneg [OF t8 n4]
    unfolding rk4_norm_identity [OF assms] by (simp add: algebra_simps)
  show "cnorm2 (Fourth_RungeKutta R_dot c Eig dij t_step)
           \<le> (1 + t_step ^ 8 * (coeff_bound R_dot Eig dij) ^ 4 / 576) * cnorm2 c"
    using mult_left_mono [OF b(2) t8] mult_nonneg_nonneg [OF t6 n3]
    unfolding rk4_norm_identity [OF assms] by (simp add: algebra_simps)
qed

lemma cnorm2_nonneg [simp]: "0 \<le> cnorm2 c"
  by (simp add: cnorm2_def)

lemma rk4_iter_lower:
  assumes "m10 dij = - m01 dij"
  shows "(1 - real n * (t_step ^ 6 * (coeff_bound R_dot Eig dij) ^ 3 / 72)) * cnorm2 c
           \<le> cnorm2 (((\<lambda>x. Fourth_RungeKutta R_dot x Eig dij t_step) ^^ n) c)"
proof (induction n)
  case 0
  then show ?case by simp
next
  case (Suc n)
  let ?x = "t_step ^ 6 * (coeff_bound R_dot Eig dij) ^ 3 / 72"
  let ?N = "cnorm2 (((\<lambda>x. Fourth_RungeKutta R_dot x Eig dij t_step) ^^ n) c)"
  have x: "0 \<le> ?x" by (simp add: coeff_bound_nonneg zero_le_even_power)
  have st: "(1 - ?x) * ?N \<le> cnorm2 (((\<lambda>x. Fourth_RungeKutta R_dot x Eig dij t_step) ^^ Suc n) c)"
    using rk4_step_bounds(1) [OF assms] by simp
  show ?case
  proof (cases "?x \<le> 1")
    case True
    have "(1 - real (Suc n) * ?x) * cnorm2 c \<le> (1 - ?x) * ((1 - real n * ?x) * cnorm2 c)"
      using x by (simp add: algebra_simps)
    also have "\<dots> \<le> (1 - ?x) * ?N"
      using Suc.IH True by (simp add: mult_left_mono)
    finally show ?thesis using st by linarith
  next
    case False
    have "0 \<le> real n * ?x" using x by simp
    moreover have "1 - real (Suc n) * ?x = (1 - ?x) - real n * ?x" by (simp add: algebra_simps)
    ultimately have "1 - real (Suc n) * ?x \<le> 0" using False by linarith
    then have "(1 - real (Suc n) * ?x) * cnorm2 c \<le> 0"
      by (rule mult_nonpos_nonneg) simp
    then show ?thesis using cnorm2_nonneg order_trans by blast
  qed
qed

lemma rk4_iter_upper:
  assumes "m10 dij = - m01 dij"
  shows "cnorm2 (((\<lambda>x. Fourth_RungeKutta R_dot x Eig dij t_step) ^^ n) c)
           \<le> exp (real n * (t_step ^ 8 * (coeff_bound R_dot Eig dij) ^ 4 / 576)) * cnorm2 c"
proof (induction n)
  case 0
  then show ?case by simp
next
  case (Suc n)
  let ?y = "t_step ^ 8 * (coeff_bound R_dot Eig dij) ^ 4 / 576"
  let ?N = "cnorm2 (((\<lambda>x. Fourth_RungeKutta R_dot x Eig dij t_step) ^^ n) c)"
  have y: "0 \<le> 1 + ?y" by (simp add: coeff_bound_nonneg zero_le_even_power)
  have "cnorm2 (((\<lambda>x. Fourth_RungeKutta R_dot x Eig dij t_step) ^^ Suc n) c) \<le> (1 + ?y) * ?N"
    using rk4_step_bounds(2) [OF assms] by simp
  also have "\<dots> \<le> exp ?y * (exp (real n * ?y) * cnorm2 c)"
    using mult_mono [OF exp_ge_add_one_self Suc.IH] y by simp
  also have "\<dots> = exp (real (Suc n) * ?y) * cnorm2 c"
    by (simp add: algebra_simps exp_add [symmetric])
  finally show ?case .
qed

lemma rk4_step_near_unitary:
  assumes "m10 dij = - m01 dij" and "coeff_bound R_dot Eig dij \<le> 1/100"
  shows "(1 - 1/10^7) * cnorm2 c \<le> cnorm2 (Fourth_RungeKutta R_dot c Eig dij 1)"
    and "cnorm2 (Fourth_RungeKutta R_dot c Eig dij 1) \<le> (1 + 1/10^7) * cnorm2 c"
proof -
  let ?K = "coeff_bound R_dot Eig dij"
  have k: "0 \<le> ?K" by (rule coeff_bound_nonneg)
  have "?K ^ 3 \<le> 1/1000000" using power_mono [OF assms(2) k, of 3] by (simp add: power_divide)
  then have "1 - 1/10^7 \<le> 1 - 1 ^ 6 * ?K ^ 3 / 72" by simp
  then show "(1 - 1/10^7) * cnorm2 c \<le> cnorm2 (Fourth_RungeKutta R_dot c Eig dij 1)"
    using rk4_step_bounds(1) [OF assms(1), where t_step = 1] mult_right_mono [OF _ cnorm2_nonneg]
    by (meson order_trans)
  have "?K ^ 4 \<le> 1/100000000" using power_mono [OF assms(2) k, of 4] by (simp add: power_divide)
  then have "1 + 1 ^ 8 * ?K ^ 4 / 576 \<le> 1 + 1/10^7" by simp
  then show "cnorm2 (Fourth_RungeKutta R_dot c Eig dij 1) \<le> (1 + 1/10^7) * cnorm2 c"
    using rk4_step_bounds(2) [OF assms(1), where t_step = 1] mult_right_mono [OF _ cnorm2_nonneg]
    by (meson order_trans)
qed

lemma Coefficient_DiffEqu_funpow_bound:
  "cnorm2 (((\<lambda>x. Coefficient_DiffEqu R x E d) ^^ k) c) \<le> (coeff_bound R E d) ^ k * cnorm2 c"
proof (induction k)
  case 0
  then show ?case by simp
next
  case (Suc k)
  have "cnorm2 (((\<lambda>x. Coefficient_DiffEqu R x E d) ^^ Suc k) c)
      \<le> coeff_bound R E d * cnorm2 (((\<lambda>x. Coefficient_DiffEqu R x E d) ^^ k) c)"
    using Coefficient_DiffEqu_bound by simp
  also have "\<dots> \<le> coeff_bound R E d * ((coeff_bound R E d) ^ k * cnorm2 c)"
    using Suc.IH by (rule mult_left_mono) (rule coeff_bound_nonneg)
  finally show ?case by (simp add: mult.assoc)
qed

lemma cmod_cells_le:
  "cmod (v0 c) \<le> sqrt (cnorm2 c)" "cmod (v1 c) \<le> sqrt (cnorm2 c)"
  by (simp_all add: cnorm2_def real_le_rsqrt)

lemma fact_shift_le: "fact 5 * fact k \<le> (fact (k + 5) :: real)"
proof -
  have "fact 5 * fact k dvd (fact (k + 5) :: nat)"
    using fact_fact_dvd_fact [of 5 k] by (simp add: add.commute)
  then have "fact 5 * fact k \<le> (fact (k + 5) :: nat)" by (rule dvd_imp_le) simp
  then show ?thesis by (metis of_nat_fact of_nat_le_iff of_nat_mult)
qed

lemma series_tail_bound:
  fixes a :: "nat \<Rightarrow> complex" and x M :: real
  assumes b: "\<And>k. cmod (a k) \<le> x ^ k / fact k * M" and x: "0 \<le> x" and M: "0 \<le> M"
  shows "summable a" and "cmod (suminf a - (\<Sum>k<5. a k)) \<le> x ^ 5 / 120 * exp x * M"
proof -
  have e: "(\<lambda>k. x ^ k / fact k) sums exp x"
    using exp_converges [of x] by (simp add: divide_inverse mult.commute)
  then have se: "summable (\<lambda>k. x ^ k / fact k * M)" by (intro summable_mult2) (rule sums_summable)
  show sa: "summable a"
    by (rule summable_comparison_test' [OF se]) (use b in simp)
  have st: "summable (\<lambda>k. a (k + 5))" using sa by (simp add: summable_iff_shift)
  have "suminf a - (\<Sum>k<5. a k) = (\<Sum>k. a (k + 5))"
    using suminf_split_initial_segment [OF sa, of 5] by simp
  also have "cmod \<dots> \<le> (\<Sum>k. cmod (a (k + 5)))"
    by (rule summable_norm) (rule summable_comparison_test' [OF _ order_refl],
        use summable_iff_shift [of "\<lambda>k. x ^ k / fact k * M" 5] se b in \<open>auto intro: summable_comparison_test'\<close>)
  also have "\<dots> \<le> (\<Sum>k. x ^ 5 / 120 * M * (x ^ k / fact k))"
  proof (rule suminf_le)
    fix k
    have "cmod (a (k + 5)) \<le> x ^ (k + 5) / fact (k + 5) * M" by (rule b)
    also have "\<dots> \<le> x ^ (k + 5) / (fact 5 * fact k) * M"
      using fact_shift_le [of k] x M
      by (intro mult_right_mono divide_left_mono) (simp_all add: zero_le_power)
    also have "\<dots> = x ^ 5 / 120 * M * (x ^ k / fact k)"
      by (simp add: power_add fact_numeral field_simps)
    finally show "cmod (a (k + 5)) \<le> x ^ 5 / 120 * M * (x ^ k / fact k)" .
  next
    show "summable (\<lambda>k. cmod (a (k + 5)))"
      using summable_iff_shift [of "\<lambda>k. x ^ k / fact k * M" 5] se b
      by (auto intro: summable_comparison_test')
    show "summable (\<lambda>k. x ^ 5 / 120 * M * (x ^ k / fact k))"
      using e by (intro summable_mult) (rule sums_summable)
  qed
  also have "\<dots> = x ^ 5 / 120 * M * exp x"
    using sums_unique [OF sums_mult [OF e, of "x ^ 5 / 120 * M"]] by simp
  finally show "cmod (suminf a - (\<Sum>k<5. a k)) \<le> x ^ 5 / 120 * exp x * M" by (simp add: ac_simps)
qed


lemma rk4_partial_sum:
  "v0 (Fourth_RungeKutta R_dot c Eig dij t_step) =
     (\<Sum>k<5. complex_of_real t_step ^ k / fact k * v0 (((\<lambda>x. Coefficient_DiffEqu R_dot x Eig dij) ^^ k) c))"
  "v1 (Fourth_RungeKutta R_dot c Eig dij t_step) =
     (\<Sum>k<5. complex_of_real t_step ^ k / fact k * v1 (((\<lambda>x. Coefficient_DiffEqu R_dot x Eig dij) ^^ k) c))"
  by (simp_all add: rk4_taylor_eq taylor4_def mat2_defs eval_nat_numeral fact_numeral)

lemma flow_term_bound:
  fixes sel :: "cvec \<Rightarrow> complex"
  assumes "\<And>y. cmod (sel y) \<le> sqrt (cnorm2 y)"
  shows "cmod (complex_of_real t ^ k / fact k * sel (((\<lambda>x. Coefficient_DiffEqu R x E d) ^^ k) c))
           \<le> (\<bar>t\<bar> * sqrt (coeff_bound R E d)) ^ k / fact k * sqrt (cnorm2 c)"
proof -
  let ?y = "((\<lambda>x. Coefficient_DiffEqu R x E d) ^^ k) c"
  have "cmod (sel ?y) \<le> sqrt ((coeff_bound R E d) ^ k * cnorm2 c)"
    using assms [of ?y] real_sqrt_le_mono [OF Coefficient_DiffEqu_funpow_bound] order_trans by blast
  also have "\<dots> = sqrt (coeff_bound R E d) ^ k * sqrt (cnorm2 c)"
    by (simp add: real_sqrt_mult real_sqrt_power)
  finally have s: "cmod (sel ?y) \<le> sqrt (coeff_bound R E d) ^ k * sqrt (cnorm2 c)" .
  have "cmod (complex_of_real t ^ k / fact k * sel ?y) = \<bar>t\<bar> ^ k / fact k * cmod (sel ?y)"
    by (simp add: norm_mult norm_divide norm_power)
  also have "\<dots> \<le> \<bar>t\<bar> ^ k / fact k * (sqrt (coeff_bound R E d) ^ k * sqrt (cnorm2 c))"
    using s by (rule mult_left_mono) simp
  also have "\<dots> = (\<bar>t\<bar> * sqrt (coeff_bound R E d)) ^ k / fact k * sqrt (cnorm2 c)"
    by (simp add: power_mult_distrib)
  finally show ?thesis .
qed

lemma flow_series_summable:
  fixes sel :: "cvec \<Rightarrow> complex"
  assumes "\<And>y. cmod (sel y) \<le> sqrt (cnorm2 y)"
  shows "summable (\<lambda>n. sel (((\<lambda>x. Coefficient_DiffEqu R x E d) ^^ n) c) / fact n * y ^ n)"
proof -
  let ?x = "cmod y * sqrt (coeff_bound R E d)"
  have b: "cmod (sel (((\<lambda>x. Coefficient_DiffEqu R x E d) ^^ n) c) / fact n * y ^ n)
      \<le> ?x ^ n / fact n * sqrt (cnorm2 c)" for n
  proof -
    have "cmod (sel (((\<lambda>x. Coefficient_DiffEqu R x E d) ^^ n) c))
        \<le> sqrt (coeff_bound R E d) ^ n * sqrt (cnorm2 c)"
      using assms order_trans real_sqrt_le_mono [OF Coefficient_DiffEqu_funpow_bound]
      by (metis real_sqrt_mult real_sqrt_power)
    then have "cmod (y ^ n) / fact n * cmod (sel (((\<lambda>x. Coefficient_DiffEqu R x E d) ^^ n) c))
        \<le> cmod (y ^ n) / fact n * (sqrt (coeff_bound R E d) ^ n * sqrt (cnorm2 c))"
      by (rule mult_left_mono) simp
    then show ?thesis by (simp add: norm_mult norm_divide norm_power power_mult_distrib field_simps)
  qed
  have "(\<lambda>n. ?x ^ n / fact n) sums exp ?x"
    using exp_converges [of ?x] by (simp add: divide_inverse mult.commute)
  then have "summable (\<lambda>n. ?x ^ n / fact n * sqrt (cnorm2 c))" by (intro summable_mult2) (rule sums_summable)
  then show ?thesis by (rule summable_comparison_test') (rule b)
qed


lemma flow_terms_summable:
  fixes sel :: "cvec \<Rightarrow> complex"
  assumes "\<And>y. cmod (sel y) \<le> sqrt (cnorm2 y)"
  shows "summable (\<lambda>k. z ^ k / fact k * sel (((\<lambda>x. Coefficient_DiffEqu R x E d) ^^ k) c))"
  using flow_series_summable [OF assms, of R E d c z] by (simp add: ac_simps)

lemma flow_component_deriv:
  fixes sel :: "cvec \<Rightarrow> complex"
  assumes "\<And>y. cmod (sel y) \<le> sqrt (cnorm2 y)"
  shows "((\<lambda>t. \<Sum>k. complex_of_real t ^ k / fact k * sel (((\<lambda>x. Coefficient_DiffEqu R x E d) ^^ k) c))
           has_vector_derivative
           (\<Sum>k. complex_of_real t ^ k / fact k *
              sel (((\<lambda>x. Coefficient_DiffEqu R x E d) ^^ k) (Coefficient_DiffEqu R c E d)))) (at t)"
proof -
  let ?F = "\<lambda>x. Coefficient_DiffEqu R x E d"
  let ?a = "\<lambda>n. sel ((?F ^^ n) c) / fact n"
  have D: "((\<lambda>z. \<Sum>n. ?a n * z ^ n) has_field_derivative (\<Sum>n. diffs ?a n * z ^ n)) (at z)" for z
    by (rule termdiffs_strong_converges_everywhere) (rule flow_series_summable [OF assms])
  have d: "diffs ?a n = sel ((?F ^^ n) (?F c)) / fact n" for n
    by (simp add: diffs_def funpow_Suc_right del: funpow.simps of_nat_Suc)
  have "((\<lambda>t. (\<lambda>z. \<Sum>n. ?a n * z ^ n) (complex_of_real t)) has_vector_derivative
      (\<Sum>n. diffs ?a n * complex_of_real t ^ n)) (at t)"
    by (rule has_vector_derivative_real_field) (rule D)
  then show ?thesis by (simp add: d ac_simps)
qed

lemma flow_linear:
  "Coefficient_DiffEqu R (exact_flow R E d t c) E d = exact_flow R E d t (Coefficient_DiffEqu R c E d)"
proof -
  let ?F = "\<lambda>x. Coefficient_DiffEqu R x E d" and ?z = "complex_of_real t"
  have s0: "summable (\<lambda>k. ?z ^ k / fact k * v0 ((?F ^^ k) c))"
    and s1: "summable (\<lambda>k. ?z ^ k / fact k * v1 ((?F ^^ k) c))"
    by (rule flow_terms_summable, rule cmod_cells_le)+
  have sw: "(?F ^^ k) (?F c) = ?F ((?F ^^ k) c)" for k by (rule funpow_swap1 [symmetric])
  have t0: "- \<i> * complex_of_real (v0 E) * v0 ((?F ^^ k) c) - complex_of_real (R * m01 d) * v1 ((?F ^^ k) c)
      = v0 ((?F ^^ k) (?F c))" for k
    by (simp only: sw) (simp add: Coefficient_DiffEqu_cells)
  have t1: "- \<i> * complex_of_real (v1 E) * v1 ((?F ^^ k) c) - complex_of_real (R * m10 d) * v0 ((?F ^^ k) c)
      = v1 ((?F ^^ k) (?F c))" for k
    by (simp only: sw) (simp add: Coefficient_DiffEqu_cells)
  have "v0 (?F (exact_flow R E d t c)) = v0 (exact_flow R E d t (?F c))"
  proof -
    have "v0 (?F (exact_flow R E d t c)) =
        (\<Sum>k. - \<i> * complex_of_real (v0 E) * (?z ^ k / fact k * v0 ((?F ^^ k) c)))
        - (\<Sum>k. complex_of_real (R * m01 d) * (?z ^ k / fact k * v1 ((?F ^^ k) c)))"
      using suminf_mult [OF s0, of "- \<i> * complex_of_real (v0 E)"]
        suminf_mult [OF s1, of "complex_of_real (R * m01 d)"]
      by (simp add: Coefficient_DiffEqu_cells exact_flow_def)
    also have "\<dots> = (\<Sum>k. - \<i> * complex_of_real (v0 E) * (?z ^ k / fact k * v0 ((?F ^^ k) c))
        - complex_of_real (R * m01 d) * (?z ^ k / fact k * v1 ((?F ^^ k) c)))"
      by (intro suminf_diff summable_mult s0 s1)
    also have "\<dots> = (\<Sum>k. ?z ^ k / fact k * v0 ((?F ^^ k) (?F c)))"
      by (rule arg_cong [where f = suminf]) (simp add: fun_eq_iff t0 [symmetric] algebra_simps)
    finally show ?thesis by (simp add: exact_flow_def)
  qed
  moreover have "v1 (?F (exact_flow R E d t c)) = v1 (exact_flow R E d t (?F c))"
  proof -
    have "v1 (?F (exact_flow R E d t c)) =
        (\<Sum>k. - \<i> * complex_of_real (v1 E) * (?z ^ k / fact k * v1 ((?F ^^ k) c)))
        - (\<Sum>k. complex_of_real (R * m10 d) * (?z ^ k / fact k * v0 ((?F ^^ k) c)))"
      using suminf_mult [OF s1, of "- \<i> * complex_of_real (v1 E)"]
        suminf_mult [OF s0, of "complex_of_real (R * m10 d)"]
      by (simp add: Coefficient_DiffEqu_cells exact_flow_def)
    also have "\<dots> = (\<Sum>k. - \<i> * complex_of_real (v1 E) * (?z ^ k / fact k * v1 ((?F ^^ k) c))
        - complex_of_real (R * m10 d) * (?z ^ k / fact k * v0 ((?F ^^ k) c)))"
      by (intro suminf_diff summable_mult s0 s1)
    also have "\<dots> = (\<Sum>k. ?z ^ k / fact k * v1 ((?F ^^ k) (?F c)))"
      by (rule arg_cong [where f = suminf]) (simp add: fun_eq_iff t1 [symmetric] algebra_simps)
    finally show ?thesis by (simp add: exact_flow_def)
  qed
  ultimately show ?thesis by (intro vec2_eqI) simp_all
qed

lemma exact_flow_solves:
  "((\<lambda>t. v0 (exact_flow R E d t c)) has_vector_derivative v0 (Coefficient_DiffEqu R (exact_flow R E d t c) E d)) (at t)"
  "((\<lambda>t. v1 (exact_flow R E d t c)) has_vector_derivative v1 (Coefficient_DiffEqu R (exact_flow R E d t c) E d)) (at t)"
  "exact_flow R E d 0 c = c"
proof -
  show "((\<lambda>t. v0 (exact_flow R E d t c)) has_vector_derivative v0 (Coefficient_DiffEqu R (exact_flow R E d t c) E d)) (at t)"
    unfolding flow_linear using flow_component_deriv [OF cmod_cells_le(1)] by (simp add: exact_flow_def)
  show "((\<lambda>t. v1 (exact_flow R E d t c)) has_vector_derivative v1 (Coefficient_DiffEqu R (exact_flow R E d t c) E d)) (at t)"
    unfolding flow_linear using flow_component_deriv [OF cmod_cells_le(2)] by (simp add: exact_flow_def)
  have "(\<Sum>k. complex_of_real 0 ^ k / fact k * x k) = x 0" for x :: "nat \<Rightarrow> complex"
    by (subst suminf_finite [of "{0}"]) auto
  then show "exact_flow R E d 0 c = c" by (intro vec2_eqI) (simp_all add: exact_flow_def)
qed

lemma cinner_swap: "cinner a b = cnj (cinner b a)"
  by (simp add: cinner_def)

lemma cmod_sq_deriv:
  fixes f :: "real \<Rightarrow> complex"
  assumes "(f has_vector_derivative f') (at t)"
  shows "((\<lambda>t. (cmod (f t))\<^sup>2) has_real_derivative 2 * Re (f' * cnj (f t))) (at t)"
proof -
  have c: "((\<lambda>t. cnj (f t)) has_vector_derivative cnj f') (at t)"
    using has_derivative_cnj [OF assms [unfolded has_vector_derivative_def]]
    by (simp add: has_vector_derivative_def scaleR_conv_of_real)
  have p: "((\<lambda>t. f t * cnj (f t)) has_vector_derivative f t * cnj f' + f' * cnj (f t)) (at t)"
    by (rule has_vector_derivative_mult [OF assms c])
  have r: "((\<lambda>t. Re (f t * cnj (f t))) has_derivative
             (\<lambda>x. Re (x *\<^sub>R (f t * cnj f' + f' * cnj (f t))))) (at t)"
    using has_derivative_Re [OF p [unfolded has_vector_derivative_def]] .
  have e: "\<And>x. Re (x *\<^sub>R (f t * cnj f' + f' * cnj (f t))) = 2 * Re (f' * cnj (f t)) * x"
    by (simp add: algebra_simps)
  have s: "\<And>t. Re (f t * cnj (f t)) = (cmod (f t))\<^sup>2"
    by (simp add: complex_mult_cnj cmod_def)
  show ?thesis
    using r unfolding e s has_field_derivative_def .
qed

lemma flow_cnorm2_deriv:
  assumes "m10 d = - m01 d"
  shows "((\<lambda>t. cnorm2 (exact_flow R E d t c)) has_real_derivative 0) (at t)"
proof -
  let ?x = "exact_flow R E d t c"
  let ?F = "Coefficient_DiffEqu R ?x E d"
  have d: "((\<lambda>t. cnorm2 (exact_flow R E d t c)) has_real_derivative
             2 * Re (v0 ?F * cnj (v0 ?x)) + 2 * Re (v1 ?F * cnj (v1 ?x))) (at t)"
    unfolding cnorm2_def
    by (intro DERIV_add cmod_sq_deriv exact_flow_solves)
  have "cinner ?F ?x = - cnj (cinner ?F ?x)"
    using Coefficient_DiffEqu_skew [OF assms, of R ?x E ?x] cinner_swap [of ?x ?F] by simp
  then have "Re (cinner ?F ?x) = 0"
    by (metis cnj.simps(1) equal_neg_zero uminus_complex.sel(1))
  then have "2 * Re (v0 ?F * cnj (v0 ?x)) + 2 * Re (v1 ?F * cnj (v1 ?x)) = 0"
    by (simp add: cinner_def)
  then show ?thesis using d by simp
qed

subsection \<open>Properties of the propagator\<close>

text \<open>C17: \<open>Coefficient_DiffEqu\<close> computes the two-state amplitude equation of its docstring,
  \<open>c\<^sup>._1 = -i \<epsilon>\<^sub>1 c\<^sub>1 - R_dot d\<^sub>1\<^sub>2 c\<^sub>2\<close> and \<open>c\<^sup>._2 = -i \<epsilon>\<^sub>2 c\<^sub>2 - R_dot d\<^sub>2\<^sub>1 c\<^sub>1\<close>: the row vector
  times \<open>combine\<close> puts \<open>dij[1,0]\<close> and \<open>dij[0,1]\<close> where the equation needs them.\<close>

theorem Coefficient_DiffEqu_equation:
  "Coefficient_DiffEqu R_dot c Eig dij =
     \<lparr>v0 = - \<i> * complex_of_real (v0 Eig) * v0 c - complex_of_real (R_dot * m01 dij) * v1 c,
      v1 = - \<i> * complex_of_real (v1 Eig) * v1 c - complex_of_real (R_dot * m10 dij) * v0 c\<rparr>"
  by (rule vec2_eqI) (simp_all add: Coefficient_DiffEqu_cells)

text \<open>C4: one step of \<open>Fourth_RungeKutta\<close> is exactly the fourth-order Taylor polynomial
  \<open>c + h F c + h\<^sup>2/2 F\<^sup>2 c + h\<^sup>3/6 F\<^sup>3 c + h\<^sup>4/24 F\<^sup>4 c\<close> of the flow of the linear equation
  \<open>c\<^sup>. = F c\<close> with \<open>F = Coefficient_DiffEqu\<close>; with the Hamiltonian frozen, the step agrees with the
  exact solution \<open>exp (h F) c\<close> up to the terms of order five.\<close>

theorem Fourth_RungeKutta_taylor:
  "Fourth_RungeKutta R_dot c Eig dij t_step =
     taylor4 (\<lambda>x. Coefficient_DiffEqu R_dot x Eig dij) (complex_of_real t_step) c"
  by (rule rk4_taylor_eq)

text \<open>C5: local error of the propagator. \<open>exact_flow\<close> is the exact solution
  \<open>exp (t F) c = \<Sum>\<^sub>k t\<^sup>k/k! F\<^sup>k c\<close> of the frozen linear equation \<open>c\<^sup>. = F c\<close> with
  \<open>F = Coefficient_DiffEqu\<close> (\<open>exact_flow_solves\<close>: it starts at \<open>c\<close> and its time
  derivative is \<open>F\<close> applied to it). Each amplitude computed by one step of \<open>Fourth_RungeKutta\<close> differs
  from it by at most \<open>(|h| \<surd>K)\<^sup>5/120 \<cdot> exp (|h| \<surd>K) \<cdot> |c|\<close>, where \<open>K = coeff_bound\<close>:
  the local error is of order five in the step, for every coupling.\<close>

theorem Fourth_RungeKutta_local_error:
  "cmod (v0 (exact_flow R_dot Eig dij t_step c) - v0 (Fourth_RungeKutta R_dot c Eig dij t_step))
     \<le> (\<bar>t_step\<bar> * sqrt (coeff_bound R_dot Eig dij)) ^ 5 / 120
        * exp (\<bar>t_step\<bar> * sqrt (coeff_bound R_dot Eig dij)) * sqrt (cnorm2 c) \<and>
   cmod (v1 (exact_flow R_dot Eig dij t_step c) - v1 (Fourth_RungeKutta R_dot c Eig dij t_step))
     \<le> (\<bar>t_step\<bar> * sqrt (coeff_bound R_dot Eig dij)) ^ 5 / 120
        * exp (\<bar>t_step\<bar> * sqrt (coeff_bound R_dot Eig dij)) * sqrt (cnorm2 c)"
proof -
  have x: "0 \<le> \<bar>t_step\<bar> * sqrt (coeff_bound R_dot Eig dij)" by (simp add: coeff_bound_nonneg)
  have M: "0 \<le> sqrt (cnorm2 c)" by simp
  note t0 = series_tail_bound(2) [OF flow_term_bound [OF cmod_cells_le(1)] x M]
  note t1 = series_tail_bound(2) [OF flow_term_bound [OF cmod_cells_le(2)] x M]
  show ?thesis using t0 t1 by (simp add: exact_flow_def rk4_partial_sum)
qed

text \<open>C13: for an antisymmetric coupling (as \<open>Calc_dij_force\<close> returns), one step of
  \<open>Fourth_RungeKutta\<close> changes the squared norm \<open>|c\<^sub>1|\<^sup>2 + |c\<^sub>2|\<^sup>2\<close> by exactly
  \<open>- h\<^sup>6/72 |F\<^sup>3 c|\<^sup>2 + h\<^sup>8/576 |F\<^sup>4 c|\<^sup>2\<close>: the drift is of order six in the step and is
  not corrected (the code never renormalises).\<close>

theorem Fourth_RungeKutta_norm:
  assumes "m10 dij = - m01 dij"
  shows "cnorm2 (Fourth_RungeKutta R_dot c Eig dij t_step) =
     cnorm2 c - t_step ^ 6 / 72 * cnorm2 (Coefficient_DiffEqu R_dot (Coefficient_DiffEqu R_dot
         (Coefficient_DiffEqu R_dot c Eig dij) Eig dij) Eig dij)
     + t_step ^ 8 / 576 * cnorm2 (Coefficient_DiffEqu R_dot (Coefficient_DiffEqu R_dot
         (Coefficient_DiffEqu R_dot (Coefficient_DiffEqu R_dot c Eig dij) Eig dij) Eig dij) Eig dij)"
  by (rule rk4_norm_identity [OF assms])

theorem Fourth_RungeKutta_norm_witness:
  "m10 (mid :: rmat) = - m01 mid \<and>
   cnorm2 (Fourth_RungeKutta 0 \<lparr>v0 = 1, v1 = 0\<rparr> \<lparr>v0 = 1, v1 = 1\<rparr> mid 1) =
     cnorm2 \<lparr>v0 = 1, v1 = 0\<rparr> - 1 ^ 6 / 72 * cnorm2 (Coefficient_DiffEqu 0 (Coefficient_DiffEqu 0
         (Coefficient_DiffEqu 0 \<lparr>v0 = 1, v1 = 0\<rparr> \<lparr>v0 = 1, v1 = 1\<rparr> mid) \<lparr>v0 = 1, v1 = 1\<rparr> mid) \<lparr>v0 = 1, v1 = 1\<rparr> mid)
     + 1 ^ 8 / 576 * cnorm2 (Coefficient_DiffEqu 0 (Coefficient_DiffEqu 0
         (Coefficient_DiffEqu 0 (Coefficient_DiffEqu 0 \<lparr>v0 = 1, v1 = 0\<rparr> \<lparr>v0 = 1, v1 = 1\<rparr> mid)
           \<lparr>v0 = 1, v1 = 1\<rparr> mid) \<lparr>v0 = 1, v1 = 1\<rparr> mid) \<lparr>v0 = 1, v1 = 1\<rparr> mid)"
  using Fourth_RungeKutta_norm [of mid 0 "\<lparr>v0 = 1, v1 = 0\<rparr>" "\<lparr>v0 = 1, v1 = 1\<rparr>" 1]
  by (simp add: mid_def)

text \<open>C14: over \<open>n\<close> steps with a frozen Hamiltonian and an antisymmetric coupling, the
  squared norm of the amplitudes stays between \<open>(1 - n h\<^sup>6 K\<^sup>3/72) |c|\<^sup>2\<close> and
  \<open>exp (n h\<^sup>8 K\<^sup>4/576) |c|\<^sup>2\<close>, where \<open>K = coeff_bound\<close> bounds the coefficient matrix. For a
  fixed time span \<open>T = n h\<close> both bounds tend to \<open>|c|\<^sup>2\<close> as the step \<open>h\<close> shrinks: the drift the
  code never corrects is bounded and vanishes with the step.\<close>

theorem Fourth_RungeKutta_drift:
  assumes "m10 dij = - m01 dij"
  shows "(1 - real n * (t_step ^ 6 * (coeff_bound R_dot Eig dij) ^ 3 / 72)) * cnorm2 c
           \<le> cnorm2 (((\<lambda>x. Fourth_RungeKutta R_dot x Eig dij t_step) ^^ n) c) \<and>
         cnorm2 (((\<lambda>x. Fourth_RungeKutta R_dot x Eig dij t_step) ^^ n) c)
           \<le> exp (real n * (t_step ^ 8 * (coeff_bound R_dot Eig dij) ^ 4 / 576)) * cnorm2 c"
  using rk4_iter_lower [OF assms] rk4_iter_upper [OF assms] by blast

theorem Fourth_RungeKutta_drift_witness:
  "m10 (mid :: rmat) = - m01 mid \<and>
   (1 - real 2 * (1 ^ 6 * (coeff_bound 0 \<lparr>v0 = 1, v1 = 1\<rparr> mid) ^ 3 / 72)) * cnorm2 \<lparr>v0 = 1, v1 = 0\<rparr>
     \<le> cnorm2 (((\<lambda>x. Fourth_RungeKutta 0 x \<lparr>v0 = 1, v1 = 1\<rparr> mid 1) ^^ 2) \<lparr>v0 = 1, v1 = 0\<rparr>)"
  using Fourth_RungeKutta_drift [where dij = mid and R_dot = 0 and Eig = "\<lparr>v0 = 1, v1 = 1\<rparr>"
      and n = 2 and t_step = 1 and c = "\<lparr>v0 = 1, v1 = 0\<rparr>"]
  by (simp add: mid_def)

text \<open>C12: the equation the propagator integrates conserves population. For an
  antisymmetric coupling (as \<open>Calc_dij_force\<close> returns) the exact solution
  \<open>exact_flow\<close> of \<open>c\<^sup>. = Coefficient_DiffEqu c\<close> keeps \<open>|c\<^sub>1|\<^sup>2 + |c\<^sub>2|\<^sup>2\<close> equal to its
  initial value at every time \<open>t\<close>: the coefficient matrix is anti-Hermitian, so the
  derivative of the norm vanishes. The norm drift of \<open>Fourth_RungeKutta\<close> (C13, C14) is
  therefore the integrator's error alone.\<close>

theorem exact_flow_conserves_population:
  assumes "m10 dij = - m01 dij"
  shows "cnorm2 (exact_flow R_dot Eig dij t c) = cnorm2 c"
proof -
  have "cnorm2 (exact_flow R_dot Eig dij t c) = cnorm2 (exact_flow R_dot Eig dij 0 c)"
    by (rule DERIV_isconst_all) (simp add: flow_cnorm2_deriv [OF assms])
  then show ?thesis by (simp add: exact_flow_solves(3))
qed

theorem exact_flow_conserves_population_witness:
  "m10 (\<lparr>m00 = 0, m01 = 1, m10 = -1, m11 = 0\<rparr> :: rmat) = - m01 (\<lparr>m00 = 0, m01 = 1, m10 = -1, m11 = 0\<rparr> :: rmat) \<and>
   cnorm2 (exact_flow (1 / 2000) \<lparr>v0 = -1, v1 = 1\<rparr> \<lparr>m00 = 0, m01 = 1, m10 = -1, m11 = 0\<rparr> 1 \<lparr>v0 = 1, v1 = 0\<rparr>) = 1"
  using exact_flow_conserves_population [where dij = "\<lparr>m00 = 0, m01 = 1, m10 = -1, m11 = 0\<rparr>"
      and R_dot = "1 / 2000" and Eig = "\<lparr>v0 = -1, v1 = 1\<rparr>" and t = 1 and c = "\<lparr>v0 = 1, v1 = 0\<rparr>"]
  by (simp add: cnorm2_def)

end
