(* ===== verification/PotEig.thy ===== *)
theory PotEig
  imports FSSH_Prelude
begin

text \<open>
  The three two-state model potentials of \<open>src/FSSH.py/PotEig.py\<close>
  (\<open>Potenial_SAC\<close>, \<open>Potenial_DAC\<close>, \<open>Potenial_ECR\<close>, spelled as in the source). Each
  maps a position \<open>p\<close> to the pair \<open>(V, V_der)\<close> of the diabatic potential matrix and
  the matrix the code returns as its derivative. Cells the code never writes keep the
  zero of \<open>np.zeros([2,2])\<close>. The lemmas show that every returned matrix is symmetric,
  that \<open>V_der\<close> is exactly the derivative of \<open>V\<close> at every position (the boundary
  \<open>p = 0\<close> of the piecewise SAC and ECR models included), that every cell of \<open>V\<close> and
  \<open>V_der\<close> is continuous, and bounds on the SAC cells in the incoming region
  \<open>p \<le> -1\<close> that the norm estimates of the propagator use.
\<close>

definition Potenial_SAC :: "real \<Rightarrow> rmat \<times> rmat" where
  "Potenial_SAC p =
     (let A = 0.01; B = 1.6; C = 0.005; D = 1;
          (V00, D00) =
            (if p > 0 then (A * (1 - exp (-B * p)), A * B * exp (-B * p))
             else if p = 0 then (0, A * B)
             else (-A * (1 - exp (B * p)), A * B * exp (B * p)));
          V01 = C * exp (-D * p\<^sup>2);
          D01 = -2 * p * C * D * exp (-D * p\<^sup>2)
      in (\<lparr>m00 = V00, m01 = V01, m10 = V01, m11 = -1 * V00\<rparr>,
          \<lparr>m00 = D00, m01 = D01, m10 = D01, m11 = -1 * D00\<rparr>))"

definition Potenial_DAC :: "real \<Rightarrow> rmat \<times> rmat" where
  "Potenial_DAC p =
     (let A = 0.1; B = 0.28; C = 0.015; D = 0.06; E0 = 0.05;
          V11 = -A * exp (-B * p\<^sup>2) + E0;
          V01 = C * exp (-D * p\<^sup>2);
          D11 = A * B * 2 * p * exp (-B * p\<^sup>2);
          D01 = -2 * p * C * D * exp (-D * p\<^sup>2)
      in (\<lparr>m00 = 0, m01 = V01, m10 = V01, m11 = V11\<rparr>,
          \<lparr>m00 = 0, m01 = D01, m10 = D01, m11 = D11\<rparr>))"

definition Potenial_ECR :: "real \<Rightarrow> rmat \<times> rmat" where
  "Potenial_ECR p =
     (let A = 6 * inverse (10 ^ 4); B = 0.10; C = 0.90;
          (V01, D01) =
            (if p < 0 then (B * exp (C * p), B * C * exp (C * p))
             else if p = 0 then (B, B * C)
             else (B * (2 - exp (-C * p)), B * C * exp (-C * p)))
      in (\<lparr>m00 = A, m01 = V01, m10 = V01, m11 = -A\<rparr>,
          \<lparr>m00 = 0, m01 = D01, m10 = D01, m11 = 0\<rparr>))"

subsection \<open>Cells\<close>

lemma SAC_cells:
  "fst (Potenial_SAC p) =
     \<lparr>m00 = (if 0 < p then 0.01 * (1 - exp (-1.6 * p)) else if p = 0 then 0
             else -0.01 * (1 - exp (1.6 * p))),
      m01 = 0.005 * exp (- (p\<^sup>2)), m10 = 0.005 * exp (- (p\<^sup>2)),
      m11 = - (if 0 < p then 0.01 * (1 - exp (-1.6 * p)) else if p = 0 then 0
               else -0.01 * (1 - exp (1.6 * p)))\<rparr>"
  "snd (Potenial_SAC p) =
     \<lparr>m00 = (if 0 < p then 0.016 * exp (-1.6 * p) else if p = 0 then 0.016
             else 0.016 * exp (1.6 * p)),
      m01 = -0.01 * p * exp (- (p\<^sup>2)), m10 = -0.01 * p * exp (- (p\<^sup>2)),
      m11 = - (if 0 < p then 0.016 * exp (-1.6 * p) else if p = 0 then 0.016
               else 0.016 * exp (1.6 * p))\<rparr>"
  by (simp_all add: Potenial_SAC_def Let_def)

lemma DAC_cells:
  "fst (Potenial_DAC p) =
     \<lparr>m00 = 0, m01 = 0.015 * exp (- (0.06 * p\<^sup>2)), m10 = 0.015 * exp (- (0.06 * p\<^sup>2)),
      m11 = 0.05 - 0.1 * exp (- (0.28 * p\<^sup>2))\<rparr>"
  "snd (Potenial_DAC p) =
     \<lparr>m00 = 0, m01 = -0.0018 * p * exp (- (0.06 * p\<^sup>2)),
      m10 = -0.0018 * p * exp (- (0.06 * p\<^sup>2)), m11 = 0.056 * p * exp (- (0.28 * p\<^sup>2))\<rparr>"
  by (simp_all add: Potenial_DAC_def Let_def)

lemma ECR_cells:
  "fst (Potenial_ECR p) =
     \<lparr>m00 = 0.0006,
      m01 = (if 0 < p then 0.1 * (2 - exp (-0.9 * p)) else if p = 0 then 0.1
             else 0.1 * exp (0.9 * p)),
      m10 = (if 0 < p then 0.1 * (2 - exp (-0.9 * p)) else if p = 0 then 0.1
             else 0.1 * exp (0.9 * p)), m11 = -0.0006\<rparr>"
  "snd (Potenial_ECR p) =
     \<lparr>m00 = 0, m01 = (if 0 < p then 0.09 * exp (-0.9 * p) else if p = 0 then 0.09
                       else 0.09 * exp (0.9 * p)),
      m10 = (if 0 < p then 0.09 * exp (-0.9 * p) else if p = 0 then 0.09
             else 0.09 * exp (0.9 * p)), m11 = 0\<rparr>"
  by (auto simp add: Potenial_ECR_def Let_def)

lemmas potential_cells = SAC_cells DAC_cells ECR_cells

lemma SAC_at_0:
  "Potenial_SAC 0 = (\<lparr>m00 = 0, m01 = 0.005, m10 = 0.005, m11 = 0\<rparr>,
                     \<lparr>m00 = 0.016, m01 = 0, m10 = 0, m11 = -0.016\<rparr>)"
  by (simp add: Potenial_SAC_def Let_def)

lemma ECR_coupling_pos: "0 < m01 (fst (Potenial_ECR p))"
proof (cases "0 < p")
  case True
  then have "exp (- (9 * p / 10)) \<le> 1" by simp
  then have "exp (- (9 * p / 10)) < 2" by linarith
  with True show ?thesis by (simp add: ECR_cells)
next
  case False
  then show ?thesis by (simp add: ECR_cells)
qed

lemma potential_coupling_pos:
  "pot \<in> {Potenial_SAC, Potenial_DAC, Potenial_ECR} \<Longrightarrow> 0 < m01 (fst (pot p))"
  using ECR_coupling_pos by (auto simp: SAC_cells DAC_cells)

lemma potential_values_symmetric:
  "pot \<in> {Potenial_SAC, Potenial_DAC, Potenial_ECR} \<Longrightarrow> symmetric2 (fst (pot p))"
  by (auto simp: symmetric2_def potential_cells)

subsection \<open>Derivatives\<close>

lemma SAC_V00_deriv:
  "((\<lambda>q. if 0 < q then 0.01 * (1 - exp (-1.6 * q)) else if q = 0 then 0
         else -0.01 * (1 - exp (1.6 * q))) has_real_derivative
    (if 0 < p then 0.016 * exp (-1.6 * p) else if p = 0 then 0.016
     else 0.016 * exp (1.6 * p))) (at p)"
proof (rule DERIV_if_sign)
  show "((\<lambda>q. 0.01 * (1 - exp (-1.6 * q))) has_real_derivative 0.016 * exp (-1.6 * q)) (at q)"
    for q :: real
    by (rule derivative_eq_intros refl | simp)+
  show "((\<lambda>q. -0.01 * (1 - exp (1.6 * q))) has_real_derivative 0.016 * exp (1.6 * q)) (at q)"
    for q :: real
    by (rule derivative_eq_intros refl | simp)+
qed simp_all

lemma ECR_V01_deriv:
  "((\<lambda>q. if 0 < q then 0.1 * (2 - exp (-0.9 * q)) else if q = 0 then 0.1
         else 0.1 * exp (0.9 * q)) has_real_derivative
    (if 0 < p then 0.09 * exp (-0.9 * p) else if p = 0 then 0.09
     else 0.09 * exp (0.9 * p))) (at p)"
proof (rule DERIV_if_sign)
  show "((\<lambda>q. 0.1 * (2 - exp (-0.9 * q))) has_real_derivative 0.09 * exp (-0.9 * q)) (at q)"
    for q :: real
    by (rule derivative_eq_intros refl | simp)+
  show "((\<lambda>q. 0.1 * exp (0.9 * q)) has_real_derivative 0.09 * exp (0.9 * q)) (at q)"
    for q :: real
    by (rule derivative_eq_intros refl | simp)+
qed simp_all

lemma gauss_deriv:
  "((\<lambda>q. c * exp (- (k * q\<^sup>2))) has_real_derivative - 2 * k * c * p * exp (- (k * p\<^sup>2))) (at p)"
  by (rule derivative_eq_intros refl | simp)+

lemma SAC_mat_deriv:
  "has_mat2_derivative (\<lambda>q. fst (Potenial_SAC q)) (snd (Potenial_SAC p)) p"
proof -
  have g: "((\<lambda>q. 0.005 * exp (- (q\<^sup>2))) has_real_derivative -0.01 * p * exp (- (p\<^sup>2))) (at p)"
    using gauss_deriv [of "0.005" 1 p] by simp
  show ?thesis
    unfolding has_mat2_derivative_def SAC_cells
    using SAC_V00_deriv [of p] g by (simp add: DERIV_minus)
qed

lemma DAC_mat_deriv:
  "has_mat2_derivative (\<lambda>q. fst (Potenial_DAC q)) (snd (Potenial_DAC p)) p"
proof -
  have g1: "((\<lambda>q. 0.015 * exp (- (0.06 * q\<^sup>2))) has_real_derivative
      -0.0018 * p * exp (- (0.06 * p\<^sup>2))) (at p)"
    using gauss_deriv [of "0.015" "0.06" p] by simp
  have g2: "((\<lambda>q. 0.05 - 0.1 * exp (- (0.28 * q\<^sup>2))) has_real_derivative
      0.056 * p * exp (- (0.28 * p\<^sup>2))) (at p)"
    using DERIV_diff [OF DERIV_const gauss_deriv [of "0.1" "0.28" p]] by simp
  show ?thesis
    unfolding has_mat2_derivative_def DAC_cells using g1 g2 by simp
qed

lemma ECR_mat_deriv:
  "has_mat2_derivative (\<lambda>q. fst (Potenial_ECR q)) (snd (Potenial_ECR p)) p"
  unfolding has_mat2_derivative_def ECR_cells using ECR_V01_deriv [of p] by simp

lemma potential_mat_deriv:
  "pot \<in> {Potenial_SAC, Potenial_DAC, Potenial_ECR} \<Longrightarrow>
     has_mat2_derivative (\<lambda>q. fst (pot q)) (snd (pot p)) p"
  using SAC_mat_deriv DAC_mat_deriv ECR_mat_deriv by auto

lemma potential_derivs_symmetric:
  "pot \<in> {Potenial_SAC, Potenial_DAC, Potenial_ECR} \<Longrightarrow> symmetric2 (snd (pot p))"
  by (auto simp: symmetric2_def potential_cells)

lemma potential_derivs_continuous:
  "mat2_continuous (\<lambda>q. snd (Potenial_SAC q)) p"
  "mat2_continuous (\<lambda>q. snd (Potenial_DAC q)) p"
  "mat2_continuous (\<lambda>q. snd (Potenial_ECR q)) p"
proof -
  have s: "isCont (\<lambda>q. if 0 < q then 0.016 * exp (-1.6 * q) else if q = 0 then 0.016
             else 0.016 * exp (1.6 * q)) x" for x :: real
    by (rule isCont_if_sign) (auto intro!: continuous_intros)
  have e: "isCont (\<lambda>q. if 0 < q then 0.09 * exp (-0.9 * q) else if q = 0 then 0.09
             else 0.09 * exp (0.9 * q)) x" for x :: real
    by (rule isCont_if_sign) (auto intro!: continuous_intros)
  show "mat2_continuous (\<lambda>q. snd (Potenial_SAC q)) p"
    unfolding mat2_continuous_def SAC_cells using s [of p] by (auto intro!: continuous_intros)
  show "mat2_continuous (\<lambda>q. snd (Potenial_DAC q)) p"
    unfolding mat2_continuous_def DAC_cells by (auto intro!: continuous_intros)
  show "mat2_continuous (\<lambda>q. snd (Potenial_ECR q)) p"
    unfolding mat2_continuous_def ECR_cells using e [of p] by (auto intro!: continuous_intros)
qed

subsection \<open>Bounds in the incoming region\<close>

lemma SAC_left_bounds:
  assumes "p \<le> -1"
  shows "(m00 (fst (Potenial_SAC p)))\<^sup>2 + (m01 (fst (Potenial_SAC p)))\<^sup>2 \<le> 1/8000"
    and "1/200 \<le> \<bar>m00 (fst (Potenial_SAC p))\<bar>"
    and "\<bar>m00 (snd (Potenial_SAC p))\<bar> + \<bar>m01 (snd (Potenial_SAC p))\<bar> + \<bar>m10 (snd (Potenial_SAC p))\<bar>
           + \<bar>m11 (snd (Potenial_SAC p))\<bar> \<le> 13/250"
    and "m11 (fst (Potenial_SAC p)) = - m00 (fst (Potenial_SAC p))"
proof -
  have p: "\<not> 0 < p" "p \<noteq> 0" using assms by simp_all
  have t: "exp (1.6 * p) \<le> 1/2" using assms by (intro exp_le_half) simp
  have t0: "0 < exp (1.6 * p)" by simp
  have g: "exp (- (p\<^sup>2)) \<le> 1" by simp
  have g0: "0 < exp (- (p\<^sup>2))" by simp
  have m00: "m00 (fst (Potenial_SAC p)) = -0.01 * (1 - exp (1.6 * p))"
    and m01: "m01 (fst (Potenial_SAC p)) = 0.005 * exp (- (p\<^sup>2))"
    and d00: "m00 (snd (Potenial_SAC p)) = 0.016 * exp (1.6 * p)"
    and d11: "m11 (snd (Potenial_SAC p)) = - (0.016 * exp (1.6 * p))"
    and d01: "m01 (snd (Potenial_SAC p)) = -0.01 * p * exp (- (p\<^sup>2))"
    and d10: "m10 (snd (Potenial_SAC p)) = -0.01 * p * exp (- (p\<^sup>2))"
    using p by (simp_all add: SAC_cells)
  show "m11 (fst (Potenial_SAC p)) = - m00 (fst (Potenial_SAC p))" by (simp add: SAC_cells)
  have "(1 - exp (1.6 * p))\<^sup>2 \<le> 1" using t t0 assms by (intro power_le_one) simp_all
  then have a: "(m00 (fst (Potenial_SAC p)))\<^sup>2 \<le> 1/10000"
    unfolding m00 by (simp add: power_mult_distrib power_divide)
  have "(exp (- (p\<^sup>2)))\<^sup>2 \<le> 1" using g g0 by (intro power_le_one) simp_all
  then have b: "(m01 (fst (Potenial_SAC p)))\<^sup>2 \<le> 1/40000"
    unfolding m01 by (simp add: power_mult_distrib power_divide)
  from a b show "(m00 (fst (Potenial_SAC p)))\<^sup>2 + (m01 (fst (Potenial_SAC p)))\<^sup>2 \<le> 1/8000" by simp
  have "\<bar>1 - exp (1.6 * p)\<bar> = 1 - exp (1.6 * p)" using t assms by (intro abs_of_nonneg) simp
  then show "1/200 \<le> \<bar>m00 (fst (Potenial_SAC p))\<bar>" unfolding m00 using t by (simp add: abs_mult)
  have "\<bar>p\<bar> * exp (- (p\<^sup>2)) \<le> 1" by (rule abs_exp_neg_sq)
  then have "\<bar>m01 (snd (Potenial_SAC p))\<bar> \<le> 1/100" "\<bar>m10 (snd (Potenial_SAC p))\<bar> \<le> 1/100"
    unfolding d01 d10 by (simp_all add: abs_mult)
  moreover have "\<bar>m00 (snd (Potenial_SAC p))\<bar> \<le> 2/125" "\<bar>m11 (snd (Potenial_SAC p))\<bar> \<le> 2/125"
    unfolding d00 d11 using t assms by simp_all
  ultimately show "\<bar>m00 (snd (Potenial_SAC p))\<bar> + \<bar>m01 (snd (Potenial_SAC p))\<bar> + \<bar>m10 (snd (Potenial_SAC p))\<bar>
           + \<bar>m11 (snd (Potenial_SAC p))\<bar> \<le> 13/250" by simp
qed

subsection \<open>Properties of the model potentials\<close>

text \<open>C6: the \<open>V_der\<close> that \<open>Potenial_SAC\<close> returns is, cell by cell, the exact derivative
  of its \<open>V\<close> at every position, the kink-free junction \<open>p = 0\<close> of the piecewise
  \<open>V[0,0]\<close> included.\<close>

theorem SAC_derivative_exact:
  "has_mat2_derivative (\<lambda>q. fst (Potenial_SAC q)) (snd (Potenial_SAC p)) p"
  by (rule SAC_mat_deriv)

text \<open>C25: the \<open>V_der\<close> that \<open>Potenial_DAC\<close> returns is the exact derivative of its \<open>V\<close>
  at every position.\<close>

theorem DAC_derivative_exact:
  "has_mat2_derivative (\<lambda>q. fst (Potenial_DAC q)) (snd (Potenial_DAC p)) p"
  by (rule DAC_mat_deriv)

text \<open>C26: the \<open>V_der\<close> that \<open>Potenial_ECR\<close> returns is the exact derivative of its \<open>V\<close>
  at every position, the junction \<open>p = 0\<close> of the piecewise coupling included.\<close>

theorem ECR_derivative_exact:
  "has_mat2_derivative (\<lambda>q. fst (Potenial_ECR q)) (snd (Potenial_ECR p)) p"
  by (rule ECR_mat_deriv)

text \<open>C27: the three models are continuously differentiable: every cell of \<open>V\<close> and of
  \<open>V_der\<close> is continuous at every position, in particular at the junction \<open>p = 0\<close> where
  the code switches formulas, so the value the code uses at 0 is the limit of both
  branches (the spec's continuity check for ECR is the instance at 0).\<close>

theorem potentials_continuously_differentiable:
  assumes "pot \<in> {Potenial_SAC, Potenial_DAC, Potenial_ECR}"
  shows "mat2_continuous (\<lambda>q. fst (pot q)) p \<and> mat2_continuous (\<lambda>q. snd (pot q)) p"
  using mat2_continuous_deriv [OF potential_mat_deriv [OF assms]] potential_derivs_continuous assms
  by auto

theorem potentials_continuously_differentiable_witness:
  "mat2_continuous (\<lambda>q. fst (Potenial_ECR q)) 0 \<and> mat2_continuous (\<lambda>q. snd (Potenial_ECR q)) 0"
  using potentials_continuously_differentiable [of Potenial_ECR 0] by simp

end
