(* ===== verification/NACsForce.thy ===== *)
theory NACsForce
  imports PotEig
begin

text \<open>
  The adiabatic transform of \<open>src/FSSH.py/NACsForce.py\<close>. \<open>Calc_dij_force\<close> calls
  \<open>np.linalg.eigh\<close>, a library routine; the model takes that routine as its first
  argument and states what numpy promises of it as the contract \<open>eigh_spec\<close>:
  eigenvalues in ascending order, orthonormal eigenvectors in the columns. numpy does not
  fix the sign of each column; every lemma here holds for any routine meeting the
  contract unless it says otherwise. \<open>adiabatic_derivative\<close> is the textbook matrix
  \<open>U\<^sup>T V' U\<close> (the spec's \<open>M\<close>, and the \<open>einsum\<close> the source comment cites), the
  reference the code is compared with, and \<open>adiabatic_transform\<close> is the spec's whole
  transform built on it. \<open>Plot_data\<close> models the selection by name and the
  per-point evaluation of \<open>Plot\<close>; \<open>Plot_series\<close> the five curves and legend labels it
  hands to \<open>plt.plot\<close> and \<open>plt.legend\<close> (the drawing itself is output and left out),
  with \<open>decimal\<close> for Python's \<open>%d\<close>; an empty grid makes \<open>dij[:, 0, 1]\<close> raise
  \<open>IndexError\<close>. \<open>Plot\<close> composes the two.
  The lemmas derive from the contract the closed-form eigenvalues, the bound 1 on every
  eigenvector entry, and the Hellmann-Feynman identity for a symmetric eigenbasis, and
  characterise when \<open>Calc_dij_force\<close> agrees with \<open>adiabatic_transform\<close>.
\<close>

definition eigh_spec :: "rmat \<Rightarrow> rvec \<times> rmat \<Rightarrow> bool" where
  "eigh_spec V r \<longleftrightarrow>
     (case r of (e, U) \<Rightarrow>
        v0 e \<le> v1 e \<and> mmul (mtrans U) U = mid \<and> mmul V U = mmul U (mdiag e))"

definition Calc_dij_force :: "(rmat \<Rightarrow> rvec \<times> rmat) \<Rightarrow> rmat \<Rightarrow> rmat \<Rightarrow> rvec \<times> rmat \<times> rvec" where
  "Calc_dij_force eigh V V_der =
     (let (eig, vector) = eigh V;
          gap = v0 eig - v1 eig;
          MatrixDot = mmul (mmul vector V_der) vector;
          d01 = m01 MatrixDot / gap;
          dij = \<lparr>m00 = 0, m01 = d01, m10 = -1.0 * d01, m11 = 0\<rparr>;
          force = \<lparr>v0 = -1.0 * m00 MatrixDot, v1 = -1.0 * m11 MatrixDot\<rparr>
      in (eig, dij, force))"

definition adiabatic_derivative :: "rmat \<Rightarrow> rmat \<Rightarrow> rmat" where
  "adiabatic_derivative U V_der = mmul (mmul (mtrans U) V_der) U"

definition adiabatic_transform ::
  "(rmat \<Rightarrow> rvec \<times> rmat) \<Rightarrow> rmat \<Rightarrow> rmat \<Rightarrow> rvec \<times> rmat \<times> rvec" where
  "adiabatic_transform eigh V V_der =
     (let (eig, U) = eigh V;
          M = adiabatic_derivative U V_der;
          d01 = m01 M / (v0 eig - v1 eig)
      in (eig, \<lparr>m00 = 0, m01 = d01, m10 = - d01, m11 = 0\<rparr>, \<lparr>v0 = - m00 M, v1 = - m11 M\<rparr>))"

definition Plot_data ::
  "(rmat \<Rightarrow> rvec \<times> rmat) \<Rightarrow> string \<Rightarrow> real list \<Rightarrow>
   py_error + (rvec \<times> rmat \<times> rvec) list \<times> nat" where
  "Plot_data eigh family plist =
     (let choice = (if family = ''DAC'' then Some (Potenial_DAC, 12)
                 else if family = ''SAC'' then Some (Potenial_SAC, 50)
                 else if family = ''ECR'' then Some (Potenial_ECR, 1) else None)
      in case choice of
           None \<Rightarrow> if plist = [] then Inr ([], 1) else Inl NameError
         | Some (pot, factor) \<Rightarrow>
             Inr (map (\<lambda>p. Calc_dij_force eigh (fst (pot p)) (snd (pot p))) plist, factor))"

fun decimal :: "nat \<Rightarrow> string" where
  "decimal n = (if n < 10 then [char_of (48 + n)] else decimal (n div 10) @ [char_of (48 + n mod 10)])"

definition Plot_series ::
  "real list \<Rightarrow> (rvec \<times> rmat \<times> rvec) list \<times> nat \<Rightarrow> py_error + (string \<times> (real \<times> real) list) list" where
  "Plot_series plist r =
     (let (rows, factor) = r
      in if rows = [] then Inl IndexError
         else Inr [(''dij/'' @ decimal factor, zip plist (map (\<lambda>(eig, dij, force). m01 dij / real factor) rows)),
                   (''force1'', zip plist (map (\<lambda>(eig, dij, force). v0 force) rows)),
                   (''force2'', zip plist (map (\<lambda>(eig, dij, force). v1 force) rows)),
                   (''eig1'', zip plist (map (\<lambda>(eig, dij, force). v0 eig) rows)),
                   (''eig2'', zip plist (map (\<lambda>(eig, dij, force). v1 eig) rows))])"

definition Plot ::
  "(rmat \<Rightarrow> rvec \<times> rmat) \<Rightarrow> string \<Rightarrow> real list \<Rightarrow> py_error + (string \<times> (real \<times> real) list) list" where
  "Plot eigh family plist =
     (case Plot_data eigh family plist of Inl e \<Rightarrow> Inl e | Inr r \<Rightarrow> Plot_series plist r)"

declare decimal.simps [simp del]

subsection \<open>The contract of eigh\<close>

definition eigh_reflect :: "rmat \<Rightarrow> rvec \<times> rmat" where
  "eigh_reflect V =
     (let a = m00 V; b = m01 V; d = m11 V; r = sqrt ((a - d)\<^sup>2 + 4 * b\<^sup>2);
          l0 = (a + d - r) / 2; l1 = (a + d + r) / 2
      in if b = 0 then
           (if a \<le> d then (\<lparr>v0 = a, v1 = d\<rparr>, mid)
            else (\<lparr>v0 = d, v1 = a\<rparr>, \<lparr>m00 = 0, m01 = 1, m10 = 1, m11 = 0\<rparr>))
         else
           (let n = sqrt (b\<^sup>2 + (l0 - a)\<^sup>2); x = b / n; y = (l0 - a) / n
            in (\<lparr>v0 = l0, v1 = l1\<rparr>, \<lparr>m00 = x, m01 = y, m10 = y, m11 = - x\<rparr>)))"

lemma Calc_dij_force_cells:
  "fst (Calc_dij_force eigh V V_der) = fst (eigh V)"
  "m00 (fst (snd (Calc_dij_force eigh V V_der))) = 0"
  "m11 (fst (snd (Calc_dij_force eigh V V_der))) = 0"
  "m10 (fst (snd (Calc_dij_force eigh V V_der))) = - m01 (fst (snd (Calc_dij_force eigh V V_der)))"
  by (simp_all add: Calc_dij_force_def Let_def split: prod.splits)

lemma eigh_spec_cells:
  assumes "eigh_spec V (e, U)"
  shows "v0 e \<le> v1 e"
    and "m00 U * m00 U + m10 U * m10 U = 1" "m00 U * m01 U + m10 U * m11 U = 0"
    and "m01 U * m01 U + m11 U * m11 U = 1"
    and "m00 V * m00 U + m01 V * m10 U = m00 U * v0 e"
    and "m00 V * m01 U + m01 V * m11 U = m01 U * v1 e"
    and "m10 V * m00 U + m11 V * m10 U = m10 U * v0 e"
    and "m10 V * m01 U + m11 V * m11 U = m11 U * v1 e"
  using assms
  by (simp_all add: eigh_spec_def mat2_defs)


lemma orth2_columns:
  fixes a b c d :: real
  assumes c1: "a * a + c * c = 1" and c2: "a * b + c * d = 0" and c3: "b * b + d * d = 1"
  shows "b = - (a * d - b * c) * c" "d = (a * d - b * c) * a" "(a * d - b * c) * (a * d - b * c) = 1"
proof -
  have "b * (a * a + c * c) = - (a * d - b * c) * c + a * (a * b + c * d)"
    by (simp add: algebra_simps)
  with c1 c2 show "b = - (a * d - b * c) * c" by simp
  have "d * (a * a + c * c) = (a * d - b * c) * a + c * (a * b + c * d)"
    by (simp add: algebra_simps)
  with c1 c2 show "d = (a * d - b * c) * a" by simp
  have "(a * d - b * c) * (a * d - b * c) = (a * a + c * c) * (b * b + d * d) - (a * b + c * d) * (a * b + c * d)"
    by (simp add: algebra_simps)
  with c1 c2 c3 show "(a * d - b * c) * (a * d - b * c) = 1" by simp
qed

text \<open>Solving the eigen-equations of one row of \<open>V\<close> for its two cells.\<close>

lemma eigen_row_solve:
  fixes a c s x y l0 l1 :: real
  assumes n: "a * a + c * c = 1" and s: "s * s = 1"
    and e1: "x * a + y * c = l0" and e2: "x * (- s * c) + y * (s * a) = l1"
  shows "x = a * l0 - c * s * l1" "y = c * l0 + a * s * l1"
proof -
  have ss: "s * (s * z) = z" for z using s by (simp add: mult.assoc [symmetric])
  have "x = x * (a * a + c * c)" "y = y * (a * a + c * c)" using n by simp_all
  moreover have "x * (a * a + c * c) = a * (x * a + y * c) - c * s * (x * (- s * c) + y * (s * a))"
    "y * (a * a + c * c) = c * (x * a + y * c) + a * s * (x * (- s * c) + y * (s * a))"
    by (simp_all add: algebra_simps ss)
  ultimately show "x = a * l0 - c * s * l1" "y = c * l0 + a * s * l1"
    using e1 e2 by simp_all
qed

lemma eigh_spec_solved:
  assumes "eigh_spec V (e, U)"
  shows "m00 V = m00 U * m00 U * v0 e + m10 U * m10 U * v1 e"
    "m01 V = m00 U * m10 U * (v0 e - v1 e)"
    "m10 V = m00 U * m10 U * (v0 e - v1 e)"
    "m11 V = m10 U * m10 U * v0 e + m00 U * m00 U * v1 e"
proof -
  let ?a = "m00 U" and ?c = "m10 U"
  define s where "s = m00 U * m11 U - m01 U * m10 U"
  note cells = eigh_spec_cells [OF assms]
  note cols = orth2_columns [OF cells(2,3,4), folded s_def]
  have b: "m01 U = - s * ?c" and d: "m11 U = s * ?a" and s: "s * s = 1"
    using cols by simp_all
  have ss: "s * (s * z) = z" for z using s by (simp add: mult.assoc [symmetric])
  have e2: "m00 V * (- s * ?c) + m01 V * (s * ?a) = - s * ?c * v1 e"
    using cells(6) b d by simp
  have e4: "m10 V * (- s * ?c) + m11 V * (s * ?a) = s * ?a * v1 e"
    using cells(8) b d by simp
  note r0 = eigen_row_solve [OF cells(2) s cells(5) e2]
  note r1 = eigen_row_solve [OF cells(2) s cells(7) e4]
  show "m00 V = ?a * ?a * v0 e + ?c * ?c * v1 e"
    using r0(1) by (simp add: algebra_simps ss)
  show "m01 V = ?a * ?c * (v0 e - v1 e)"
    using r0(2) by (simp add: algebra_simps ss)
  show "m10 V = ?a * ?c * (v0 e - v1 e)"
    using r1(1) by (simp add: algebra_simps ss)
  show "m11 V = ?c * ?c * v0 e + ?a * ?a * v1 e"
    using r1(2) by (simp add: algebra_simps ss)
qed
lemma eigh_spec_trace_gap:
  assumes "eigh_spec V (e, U)"
  shows "v0 e + v1 e = m00 V + m11 V"
    and "(v1 e - v0 e)\<^sup>2 = (m00 V - m11 V)\<^sup>2 + 4 * (m01 V)\<^sup>2"
proof -
  let ?a = "m00 U" and ?c = "m10 U"
  have n: "?a * ?a + ?c * ?c = 1" by (rule eigh_spec_cells(2) [OF assms])
  note sv = eigh_spec_solved [OF assms]
  have "m00 V + m11 V = (?a * ?a + ?c * ?c) * (v0 e + v1 e)"
    unfolding sv by (simp add: algebra_simps)
  with n show "v0 e + v1 e = m00 V + m11 V" by simp
  have "(m00 V - m11 V)\<^sup>2 + 4 * (m01 V)\<^sup>2 = (?a * ?a + ?c * ?c)\<^sup>2 * (v1 e - v0 e)\<^sup>2"
    unfolding sv by (simp add: algebra_simps power2_eq_square)
  with n show "(v1 e - v0 e)\<^sup>2 = (m00 V - m11 V)\<^sup>2 + 4 * (m01 V)\<^sup>2" by simp
qed

lemma eigh_spec_gap_sqrt:
  assumes "eigh_spec V (e, U)"
  shows "v1 e - v0 e = sqrt ((m00 V - m11 V)\<^sup>2 + 4 * (m01 V)\<^sup>2)"
proof -
  have "0 \<le> v1 e - v0 e" using eigh_spec_cells(1) [OF assms] by simp
  then show ?thesis
    using eigh_spec_trace_gap(2) [OF assms] by (metis real_sqrt_abs abs_of_nonneg)
qed

lemma eigh_spec_gap_pos:
  assumes "eigh_spec V (e, U)" and "m01 V \<noteq> 0"
  shows "v0 e < v1 e"
proof -
  have "0 < (m00 V - m11 V)\<^sup>2 + 4 * (m01 V)\<^sup>2"
    using assms(2) by (simp add: add_nonneg_pos)
  then have "0 < sqrt ((m00 V - m11 V)\<^sup>2 + 4 * (m01 V)\<^sup>2)" by (rule real_sqrt_gt_zero)
  then show ?thesis using eigh_spec_gap_sqrt [OF assms(1)] by linarith
qed


lemma char_root:
  fixes a b d r :: real
  assumes "r * r = (a - d)\<^sup>2 + 4 * b\<^sup>2"
  shows "((a + d - r) / 2 - a) * ((a + d - r) / 2 - d) = b * b"
proof -
  have "((a + d - r) / 2 - a) * ((a + d - r) / 2 - d) = (r * r - (a - d)\<^sup>2) / 4"
    by (simp add: field_simps power2_eq_square)
  with assms show ?thesis by (simp add: power2_eq_square)
qed

lemma eigh_reflect_spec:
  assumes "symmetric2 V"
  shows "eigh_spec V (eigh_reflect V)"
proof (cases "m01 V = 0")
  case True
  with assms show ?thesis
    by (auto simp: eigh_reflect_def eigh_spec_def symmetric2_def mat2_defs Let_def)
next
  case False
  define a b d where "a = m00 V" "b = m01 V" "d = m11 V"
  define r where "r = sqrt ((a - d)\<^sup>2 + 4 * b\<^sup>2)"
  define l0 l1 where "l0 = (a + d - r) / 2" "l1 = (a + d + r) / 2"
  define n where "n = sqrt (b\<^sup>2 + (l0 - a)\<^sup>2)"
  have b0: "b \<noteq> 0" using False by (simp add: a_b_d_def)
  have rr: "r * r = (a - d)\<^sup>2 + 4 * b\<^sup>2" unfolding r_def by simp
  have r0: "0 \<le> r" unfolding r_def by simp
  have npos: "0 < n" unfolding n_def using b0 by (simp add: add_pos_nonneg)
  have nn: "n * n = b * b + (l0 - a) * (l0 - a)" unfolding n_def by (simp add: power2_eq_square)
  have ch: "(l0 - a) * (l0 - d) = b * b" unfolding l0_l1_def using char_root [OF rr] by simp
  have sum: "l0 + l1 = a + d" unfolding l0_l1_def by (simp add: field_simps)
  have V10: "m10 V = b" using assms by (simp add: symmetric2_def a_b_d_def)
  have res: "eigh_reflect V = (\<lparr>v0 = l0, v1 = l1\<rparr>,
      \<lparr>m00 = b / n, m01 = (l0 - a) / n, m10 = (l0 - a) / n, m11 = - (b / n)\<rparr>)"
    using False unfolding eigh_reflect_def Let_def a_b_d_def r_def l0_l1_def n_def by simp
  have l1: "l1 = a + d - l0" using sum by simp
  have Vc: "m00 V = a" "m01 V = b" "m10 V = b" "m11 V = d"
    using V10 by (simp_all add: a_b_d_def)
  let ?x = "b / n" and ?y = "(l0 - a) / n"
  have o1: "?x * ?x + ?y * ?y = 1"
    using npos nn by (simp add: field_simps)
  have o2: "?x * ?y + ?y * - ?x = 0" by simp
  have o3: "?y * ?y + - ?x * - ?x = 1" using o1 by simp
  have k1: "a * ?x + b * ?y = ?x * l0"
    using npos by (simp add: field_simps)
  have k2: "a * ?y + b * - ?x = ?y * l1"
  proof -
    have "a * (l0 - a) - b * b = (l0 - a) * l1"
      unfolding ch [symmetric] l1 by (simp add: algebra_simps)
    moreover have "a * ?y + b * - ?x = (a * (l0 - a) - b * b) / n"
      using npos by (simp add: field_simps)
    ultimately show ?thesis by simp
  qed
  have k3: "b * ?x + d * ?y = ?y * l0"
  proof -
    have "b * b + d * (l0 - a) = (l0 - a) * l0"
      unfolding ch [symmetric] by (simp add: algebra_simps)
    then show ?thesis using npos by (simp add: field_simps)
  qed
  have k4: "b * ?y + d * - ?x = - ?x * l1"
  proof -
    have "b * (l0 - a) - d * b = - (b * l1)" unfolding l1 by (simp add: algebra_simps)
    moreover have "b * ?y + d * - ?x = (b * (l0 - a) - d * b) / n"
      using npos by (simp add: field_simps)
    ultimately show ?thesis by simp
  qed
  have "l0 \<le> l1" unfolding l0_l1_def using r0 by simp
  moreover have "mmul (mtrans (snd (eigh_reflect V))) (snd (eigh_reflect V)) = mid"
    unfolding res using o1 o2 o3 by (simp add: mmul_def mtrans_def mid_def)
  moreover have "mmul V (snd (eigh_reflect V)) = mmul (snd (eigh_reflect V)) (mdiag (fst (eigh_reflect V)))"
    unfolding res using k1 k2 k3 k4 by (simp add: mmul_def mdiag_def Vc)
  ultimately show ?thesis
    by (simp add: eigh_spec_def res split: prod.splits)
qed


lemma eigh_reflect_symmetric: "mtrans (snd (eigh_reflect V)) = snd (eigh_reflect V)"
  by (simp add: eigh_reflect_def Let_def mat2_defs)

subsection \<open>Hellmann-Feynman: the adiabatic force is the gradient of the adiabatic energy\<close>

lemma eigh_closed_form:
  assumes "eigh_spec V (e, U)"
  shows "v0 e = (m00 V + m11 V - sqrt ((m00 V - m11 V)\<^sup>2 + 4 * (m01 V)\<^sup>2)) / 2"
    "v1 e = (m00 V + m11 V + sqrt ((m00 V - m11 V)\<^sup>2 + 4 * (m01 V)\<^sup>2)) / 2"
  using eigh_spec_trace_gap(1) [OF assms] eigh_spec_gap_sqrt [OF assms] by (simp_all add: field_simps)

lemma eigh_spec_unit_entries:
  assumes "eigh_spec V (e, U)"
  shows "\<bar>m00 U\<bar> \<le> 1" "\<bar>m10 U\<bar> \<le> 1" "\<bar>m01 U\<bar> \<le> 1" "\<bar>m11 U\<bar> \<le> 1"
proof -
  note c = eigh_spec_cells(2,4) [OF assms]
  show "\<bar>m00 U\<bar> \<le> 1" by (rule abs_le_one_unit [OF c(1)])
  show "\<bar>m01 U\<bar> \<le> 1" by (rule abs_le_one_unit [OF c(2)])
  show "\<bar>m10 U\<bar> \<le> 1" by (rule abs_le_one_unit) (use c(1) in \<open>simp add: add.commute\<close>)
  show "\<bar>m11 U\<bar> \<le> 1" by (rule abs_le_one_unit) (use c(2) in \<open>simp add: add.commute\<close>)
qed

lemma sandwich_bound:
  fixes U W :: rmat
  assumes "\<bar>m00 U\<bar> \<le> 1" "\<bar>m10 U\<bar> \<le> 1" "\<bar>m01 U\<bar> \<le> 1" "\<bar>m11 U\<bar> \<le> 1"
  shows "\<bar>m01 (mmul (mmul U W) U)\<bar> \<le> \<bar>m00 W\<bar> + \<bar>m01 W\<bar> + \<bar>m10 W\<bar> + \<bar>m11 W\<bar>"
proof -
  have e: "m01 (mmul (mmul U W) U) = m00 U * m00 W * m01 U + m01 U * m10 W * m01 U
      + m00 U * m01 W * m11 U + m01 U * m11 W * m11 U"
    by (simp add: mat2_defs algebra_simps)
  have "\<bar>m00 U * m00 W * m01 U\<bar> \<le> \<bar>m00 W\<bar>" "\<bar>m01 U * m10 W * m01 U\<bar> \<le> \<bar>m10 W\<bar>"
    "\<bar>m00 U * m01 W * m11 U\<bar> \<le> \<bar>m01 W\<bar>" "\<bar>m01 U * m11 W * m11 U\<bar> \<le> \<bar>m11 W\<bar>"
    using assms by (simp_all add: abs_prod_le)
  then show ?thesis unfolding e by (simp only: abs_le_iff) linarith
qed

lemma eigh_spec_traceless:
  assumes "eigh_spec V (e, U)" and "m11 V = - m00 V"
  shows "v0 e = - sqrt ((m00 V)\<^sup>2 + (m01 V)\<^sup>2)" "v1 e = sqrt ((m00 V)\<^sup>2 + (m01 V)\<^sup>2)"
proof -
  have "sqrt ((m00 V - m11 V)\<^sup>2 + 4 * (m01 V)\<^sup>2) = 2 * sqrt ((m00 V)\<^sup>2 + (m01 V)\<^sup>2)"
  proof -
    have "(m00 V - m11 V)\<^sup>2 + 4 * (m01 V)\<^sup>2 = 2\<^sup>2 * ((m00 V)\<^sup>2 + (m01 V)\<^sup>2)"
      using assms(2) by (simp add: power2_eq_square algebra_simps)
    then show ?thesis by (simp only: real_sqrt_mult real_sqrt_abs abs_numeral)
  qed
  then show "v0 e = - sqrt ((m00 V)\<^sup>2 + (m01 V)\<^sup>2)" "v1 e = sqrt ((m00 V)\<^sup>2 + (m01 V)\<^sup>2)"
    using eigh_closed_form [OF assms(1)] assms(2) by simp_all
qed

lemma eigh_contract_at:
  assumes "\<forall>V. symmetric2 V \<longrightarrow> eigh_spec V (eigh V)"
    and "pot \<in> {Potenial_SAC, Potenial_DAC, Potenial_ECR}"
  shows "eigh_spec (fst (pot p)) (fst (eigh (fst (pot p))), snd (eigh (fst (pot p))))"
  using assms potential_values_symmetric [OF assms(2)] by simp

lemma eigh_reflect_contract: "\<forall>V. symmetric2 V \<longrightarrow> eigh_spec V (eigh_reflect V)"
  by (simp add: eigh_reflect_spec)

lemma potential_gap_pos:
  assumes "\<forall>V. symmetric2 V \<longrightarrow> eigh_spec V (eigh V)"
    and "pot \<in> {Potenial_SAC, Potenial_DAC, Potenial_ECR}"
  shows "v0 (fst (eigh (fst (pot p)))) < v1 (fst (eigh (fst (pot p))))"
  using eigh_spec_gap_pos [OF eigh_contract_at [OF assms, of p]] potential_coupling_pos [OF assms(2), of p]
  by simp

lemma SAC_left_gap:
  assumes "eigh_spec (fst (Potenial_SAC p)) (e, U)" and "p \<le> -1"
  shows "1/100 \<le> v1 e - v0 e" and "(v0 e)\<^sup>2 + (v1 e)\<^sup>2 \<le> 1/4000"
proof -
  let ?s = "(m00 (fst (Potenial_SAC p)))\<^sup>2 + (m01 (fst (Potenial_SAC p)))\<^sup>2"
  note B = SAC_left_bounds [OF assms(2)]
  note ev = eigh_spec_traceless [OF assms(1) B(4)]
  show "(v0 e)\<^sup>2 + (v1 e)\<^sup>2 \<le> 1/4000" using B(1) by (simp add: ev)
  have "\<bar>m00 (fst (Potenial_SAC p))\<bar> \<le> sqrt ?s" by (rule real_le_rsqrt) simp
  then have "1/100 \<le> 2 * sqrt ?s" using B(2) by linarith
  also have "2 * sqrt ?s = v1 e - v0 e" by (simp add: ev)
  finally show "1/100 \<le> v1 e - v0 e" .
qed

lemma closed_form_deriv:
  fixes A B D :: "real \<Rightarrow> real"
  assumes a: "(A has_real_derivative A') (at p)" and b: "(B has_real_derivative B') (at p)"
    and d: "(D has_real_derivative D') (at p)"
    and g: "0 < (A p - D p)\<^sup>2 + 4 * (B p)\<^sup>2"
  shows "((\<lambda>q. (A q + D q - sqrt ((A q - D q)\<^sup>2 + 4 * (B q)\<^sup>2)) / 2) has_real_derivative
           (A' + D' - (2 * (A p - D p) * (A' - D') + 8 * B p * B') /
              (2 * sqrt ((A p - D p)\<^sup>2 + 4 * (B p)\<^sup>2))) / 2) (at p)"
    and "((\<lambda>q. (A q + D q + sqrt ((A q - D q)\<^sup>2 + 4 * (B q)\<^sup>2)) / 2) has_real_derivative
           (A' + D' + (2 * (A p - D p) * (A' - D') + 8 * B p * B') /
              (2 * sqrt ((A p - D p)\<^sup>2 + 4 * (B p)\<^sup>2))) / 2) (at p)"
proof -
  have gd: "((\<lambda>q. (A q - D q)\<^sup>2 + 4 * (B q)\<^sup>2) has_real_derivative
      2 * (A p - D p) * (A' - D') + 8 * B p * B') (at p)"
    by (rule derivative_eq_intros a b d refl | simp add: algebra_simps)+
  have sd: "((\<lambda>q. sqrt ((A q - D q)\<^sup>2 + 4 * (B q)\<^sup>2)) has_real_derivative
      (2 * (A p - D p) * (A' - D') + 8 * B p * B') / (2 * sqrt ((A p - D p)\<^sup>2 + 4 * (B p)\<^sup>2))) (at p)"
    using DERIV_chain2 [OF DERIV_real_sqrt [OF g] gd] by (simp add: field_simps)
  show "((\<lambda>q. (A q + D q - sqrt ((A q - D q)\<^sup>2 + 4 * (B q)\<^sup>2)) / 2) has_real_derivative
           (A' + D' - (2 * (A p - D p) * (A' - D') + 8 * B p * B') /
              (2 * sqrt ((A p - D p)\<^sup>2 + 4 * (B p)\<^sup>2))) / 2) (at p)"
    by (rule DERIV_cdivide [OF DERIV_diff [OF DERIV_add [OF a d] sd]])
  show "((\<lambda>q. (A q + D q + sqrt ((A q - D q)\<^sup>2 + 4 * (B q)\<^sup>2)) / 2) has_real_derivative
           (A' + D' + (2 * (A p - D p) * (A' - D') + 8 * B p * B') /
              (2 * sqrt ((A p - D p)\<^sup>2 + 4 * (B p)\<^sup>2))) / 2) (at p)"
    by (rule DERIV_cdivide [OF DERIV_add [OF DERIV_add [OF a d] sd]])
qed
lemma hellmann_feynman_2x2:
  assumes der: "has_mat2_derivative V Vd p" and symD: "symmetric2 Vd"
    and spec: "\<And>q. eigh_spec (V q) (eigh (V q))" and cpl: "m01 (V p) \<noteq> 0"
  shows "((\<lambda>q. v0 (fst (eigh (V q)))) has_real_derivative
            m00 (adiabatic_derivative (snd (eigh (V p))) Vd)) (at p) \<and>
         ((\<lambda>q. v1 (fst (eigh (V q)))) has_real_derivative
            m11 (adiabatic_derivative (snd (eigh (V p))) Vd)) (at p)"
proof -
  let ?A = "\<lambda>q. m00 (V q)" and ?B = "\<lambda>q. m01 (V q)" and ?D = "\<lambda>q. m11 (V q)"
  let ?g = "(?A p - ?D p)\<^sup>2 + 4 * (?B p)\<^sup>2"
  have sp: "eigh_spec (V q) (fst (eigh (V q)), snd (eigh (V q)))" for q using spec [of q] by simp
  have f0: "(\<lambda>q. v0 (fst (eigh (V q)))) = (\<lambda>q. (?A q + ?D q - sqrt ((?A q - ?D q)\<^sup>2 + 4 * (?B q)\<^sup>2)) / 2)"
    using eigh_closed_form(1) [OF sp] by (rule ext)
  have f1: "(\<lambda>q. v1 (fst (eigh (V q)))) = (\<lambda>q. (?A q + ?D q + sqrt ((?A q - ?D q)\<^sup>2 + 4 * (?B q)\<^sup>2)) / 2)"
    using eigh_closed_form(2) [OF sp] by (rule ext)
  have g: "0 < ?g" using cpl by (simp add: add_nonneg_pos)
  have dA: "(?A has_real_derivative m00 Vd) (at p)" and dB: "(?B has_real_derivative m01 Vd) (at p)"
    and dD: "(?D has_real_derivative m11 Vd) (at p)"
    using der by (simp_all add: has_mat2_derivative_def)
  note cd = closed_form_deriv [OF dA dB dD g]
  obtain e U where r: "eigh (V p) = (e, U)" by fastforce
  have s: "eigh_spec (V p) (e, U)" using spec [of p] r by simp
  let ?a = "m00 U" and ?c = "m10 U"
  define \<Delta> where "\<Delta> = v1 e - v0 e"
  have sq: "sqrt ?g = \<Delta>" unfolding \<Delta>_def using eigh_spec_gap_sqrt [OF s] by simp
  have dpos: "0 < \<Delta>" using g sq by (metis real_sqrt_gt_zero)
  note sv = eigh_spec_solved [OF s]
  have n: "?a * ?a + ?c * ?c = 1" by (rule eigh_spec_cells(2) [OF s])
  have AD: "?A p - ?D p = - (?a * ?a - ?c * ?c) * \<Delta>" unfolding sv \<Delta>_def by (simp add: algebra_simps)
  have B: "?B p = - (?a * ?c) * \<Delta>" unfolding sv \<Delta>_def by (simp add: algebra_simps)
  have fl: "(2 * (?A p - ?D p) * (m00 Vd - m11 Vd) + 8 * ?B p * m01 Vd) / (2 * \<Delta>) =
      - (?a * ?a - ?c * ?c) * (m00 Vd - m11 Vd) - 4 * (?a * ?c) * m01 Vd"
    unfolding AD B using dpos by (simp add: field_simps)
  obtain sg where sU: "m01 U = - sg * ?c" "m11 U = sg * ?a" "sg * sg = 1"
    using orth2_columns [OF eigh_spec_cells(2,3,4) [OF s]] by blast
  have M0: "m00 (adiabatic_derivative U Vd) = ?a * ?a * m00 Vd + 2 * (?a * ?c) * m01 Vd + ?c * ?c * m11 Vd"
    using symD by (simp add: adiabatic_derivative_def mat2_defs symmetric2_def algebra_simps)
  have M1: "m11 (adiabatic_derivative U Vd) = ?c * ?c * m00 Vd - 2 * (?a * ?c) * m01 Vd + ?a * ?a * m11 Vd"
  proof -
    have "m11 (adiabatic_derivative U Vd) =
        (sg * sg) * (?c * ?c * m00 Vd - 2 * (?a * ?c) * m01 Vd + ?a * ?a * m11 Vd)"
      using symD sU(1,2) by (simp add: adiabatic_derivative_def mat2_defs symmetric2_def algebra_simps)
    then show ?thesis using sU(3) by simp
  qed
  have v0d: "(m00 Vd + m11 Vd - (2 * (?A p - ?D p) * (m00 Vd - m11 Vd) + 8 * ?B p * m01 Vd) / (2 * sqrt ?g)) / 2
      = m00 (adiabatic_derivative U Vd)"
  proof -
    have "m00 Vd + m11 Vd - (- (?a * ?a - ?c * ?c) * (m00 Vd - m11 Vd) - 4 * (?a * ?c) * m01 Vd)
        = 2 * (?a * ?a * m00 Vd + 2 * (?a * ?c) * m01 Vd + ?c * ?c * m11 Vd)"
      using n by algebra
    then show ?thesis unfolding sq fl M0 by simp
  qed
  have v1d: "(m00 Vd + m11 Vd + (2 * (?A p - ?D p) * (m00 Vd - m11 Vd) + 8 * ?B p * m01 Vd) / (2 * sqrt ?g)) / 2
      = m11 (adiabatic_derivative U Vd)"
  proof -
    have "m00 Vd + m11 Vd + (- (?a * ?a - ?c * ?c) * (m00 Vd - m11 Vd) - 4 * (?a * ?c) * m01 Vd)
        = 2 * (?c * ?c * m00 Vd - 2 * (?a * ?c) * m01 Vd + ?a * ?a * m11 Vd)"
      using n by algebra
    then show ?thesis unfolding sq fl M1 by simp
  qed
  show ?thesis
    unfolding f0 f1 r using cd(1) [unfolded v0d] cd(2) [unfolded v1d] by (simp add: r)
qed


lemma orthonormal_square_symmetric:
  fixes a b c d :: real
  assumes "a * a + c * c = 1" "b * b + d * d = 1"
    and "a * a + b * c = 1" "c * b + d * d = 1"
  shows "b = c"
proof -
  have "c * b = b * c" by (rule mult.commute)
  then have cc: "c * c = b * c" and bb: "b * b = b * c" using assms by linarith+
  have "(b - c) * (b - c) = b * b + c * c - 2 * (b * c)" by (simp add: algebra_simps)
  then have "(b - c) * (b - c) = 0" using cc bb by linarith
  then show ?thesis by simp
qed

subsection \<open>Properties of the adiabatic transform\<close>

text \<open>C8: the coupling matrix \<open>dij\<close> that \<open>Calc_dij_force\<close> returns is antisymmetric with a zero
  diagonal, whatever \<open>eigh\<close> returns.\<close>

theorem Calc_dij_force_antisymmetric:
  "antisymmetric2 (fst (snd (Calc_dij_force eigh V V_der)))"
  by (simp add: Calc_dij_force_def antisymmetric2_def Let_def split: prod.splits)

text \<open>C24: for the three model potentials, at every position and for any \<open>eigh\<close> meeting numpy's
  contract, the eigenvalues \<open>Calc_dij_force\<close> returns are strictly ordered, so the gap
  \<open>eig[0] - eig[1]\<close> it divides by is never zero.\<close>

theorem Calc_dij_force_gap_nonzero:
  assumes "pot \<in> {Potenial_SAC, Potenial_DAC, Potenial_ECR}"
    and "eigh_spec (fst (pot p)) (eigh (fst (pot p)))"
  shows "v0 (fst (Calc_dij_force eigh (fst (pot p)) (snd (pot p))))
           < v1 (fst (Calc_dij_force eigh (fst (pot p)) (snd (pot p))))"
proof -
  obtain e U where r: "eigh (fst (pot p)) = (e, U)" by fastforce
  have "m01 (fst (pot p)) \<noteq> 0" using potential_coupling_pos [OF assms(1), of p] by simp
  with assms(2) r have "v0 e < v1 e" by (simp add: eigh_spec_gap_pos)
  with r show ?thesis by (simp add: Calc_dij_force_def Let_def)
qed

theorem Calc_dij_force_gap_nonzero_witness:
  "Potenial_SAC \<in> {Potenial_SAC, Potenial_DAC, Potenial_ECR} \<and>
   eigh_spec (fst (Potenial_SAC 0)) (eigh_reflect (fst (Potenial_SAC 0))) \<and>
   v0 (fst (Calc_dij_force eigh_reflect (fst (Potenial_SAC 0)) (snd (Potenial_SAC 0))))
     < v1 (fst (Calc_dij_force eigh_reflect (fst (Potenial_SAC 0)) (snd (Potenial_SAC 0))))"
proof -
  have s: "eigh_spec (fst (Potenial_SAC 0)) (eigh_reflect (fst (Potenial_SAC 0)))"
    by (rule eigh_reflect_spec) (simp add: symmetric2_def SAC_at_0)
  show ?thesis
    using s Calc_dij_force_gap_nonzero [of Potenial_SAC 0 eigh_reflect] by simp
qed

text \<open>C19: when the code's adiabatic transform is the spec's. The spec (and the einsum the
  source comment cites) rotates the derivative as \<open>M = U\<^sup>T V' U\<close>
  (\<open>adiabatic_transform\<close>); \<open>Calc_dij_force\<close> computes \<open>np.dot(np.dot(vector, V_der), vector)\<close>
  \<open>= U V' U\<close>. For every eigenbasis meeting numpy's contract, the code returns the spec's
  eigenvalues, coupling and forces for every symmetric derivative matrix exactly when the
  eigenvector matrix is symmetric. numpy's contract does not make it symmetric: at the SAC
  crossing a rotation eigenbasis meets the contract (see the witness), and with it the
  forces are wrong (\<open>Calc_dij_force_rotation_example\<close>).\<close>

theorem Calc_dij_force_textbook_iff_symmetric:
  assumes "eigh_spec V (eigh V)"
  shows "(\<forall>W. symmetric2 W \<longrightarrow> Calc_dij_force eigh V W = adiabatic_transform eigh V W) \<longleftrightarrow>
         mtrans (snd (eigh V)) = snd (eigh V)"
proof
  obtain e U where eU: "eigh V = (e, U)" by fastforce
  assume H: "\<forall>W. symmetric2 W \<longrightarrow> Calc_dij_force eigh V W = adiabatic_transform eigh V W"
  have "symmetric2 (mid :: rmat)" by (simp add: symmetric2_def mid_def)
  with H have "snd (snd (Calc_dij_force eigh V mid)) = snd (snd (adiabatic_transform eigh V mid))"
    by simp
  then have d: "m00 U * m00 U + m01 U * m10 U = m00 U * m00 U + m10 U * m10 U"
      "m10 U * m01 U + m11 U * m11 U = m01 U * m01 U + m11 U * m11 U"
    by (simp_all add: Calc_dij_force_def adiabatic_transform_def adiabatic_derivative_def eU
        Let_def mat2_defs)
  note c = eigh_spec_cells [OF assms [unfolded eU]]
  have "m01 U = m10 U"
    by (rule orthonormal_square_symmetric [of "m00 U" "m10 U" "m01 U" "m11 U"])
       (use c d in simp_all)
  then show "mtrans (snd (eigh V)) = snd (eigh V)" by (simp add: eU mat2_defs)
next
  assume "mtrans (snd (eigh V)) = snd (eigh V)"
  then have "adiabatic_derivative (snd (eigh V)) W = mmul (mmul (snd (eigh V)) W) (snd (eigh V))" for W
    by (simp add: adiabatic_derivative_def)
  then show "\<forall>W. symmetric2 W \<longrightarrow> Calc_dij_force eigh V W = adiabatic_transform eigh V W"
    by (simp add: Calc_dij_force_def adiabatic_transform_def split_def Let_def)
qed

text \<open>The rotation eigenbasis at the SAC crossing: it meets the contract, the code returns
  the forces \<open>(-0.016, 0.016)\<close>, and the diagonal of \<open>U\<^sup>T V' U\<close> (the Hellmann-Feynman
  forces) is zero there.\<close>

lemma Calc_dij_force_rotation_example:
  "eigh_spec (fst (Potenial_SAC 0))
     (\<lparr>v0 = -0.005, v1 = 0.005\<rparr>,
      \<lparr>m00 = sqrt 2 / 2, m01 = sqrt 2 / 2, m10 = - (sqrt 2 / 2), m11 = sqrt 2 / 2\<rparr>) \<and>
   snd (snd (Calc_dij_force
       (\<lambda>_. (\<lparr>v0 = -0.005, v1 = 0.005\<rparr>,
              \<lparr>m00 = sqrt 2 / 2, m01 = sqrt 2 / 2, m10 = - (sqrt 2 / 2), m11 = sqrt 2 / 2\<rparr>))
       (fst (Potenial_SAC 0)) (snd (Potenial_SAC 0)))) = \<lparr>v0 = -0.016, v1 = 0.016\<rparr> \<and>
   adiabatic_derivative
       \<lparr>m00 = sqrt 2 / 2, m01 = sqrt 2 / 2, m10 = - (sqrt 2 / 2), m11 = sqrt 2 / 2\<rparr>
       (snd (Potenial_SAC 0)) = \<lparr>m00 = 0, m01 = 0.016, m10 = 0.016, m11 = 0\<rparr>"
  by (simp add: eigh_spec_def Calc_dij_force_def adiabatic_derivative_def SAC_at_0
      mat2_defs algebra_simps)

text \<open>C7: Hellmann-Feynman for the code. For the three model potentials, an \<open>eigh\<close> meeting
  its contract, and a position where it returns a symmetric (reflection) eigenbasis, the
  forces \<open>Calc_dij_force\<close> returns are exactly minus the derivatives, with respect to the
  position, of the eigenvalues it returns: the force is the gradient of the adiabatic
  surface.\<close>

theorem Calc_dij_force_hellmann_feynman:
  assumes pot: "pot \<in> {Potenial_SAC, Potenial_DAC, Potenial_ECR}"
    and contract: "\<forall>V. symmetric2 V \<longrightarrow> eigh_spec V (eigh V)"
    and refl: "mtrans (snd (eigh (fst (pot p)))) = snd (eigh (fst (pot p)))"
  shows "((\<lambda>q. v0 (fst (Calc_dij_force eigh (fst (pot q)) (snd (pot q))))) has_real_derivative
            - v0 (snd (snd (Calc_dij_force eigh (fst (pot p)) (snd (pot p)))))) (at p) \<and>
         ((\<lambda>q. v1 (fst (Calc_dij_force eigh (fst (pot q)) (snd (pot q))))) has_real_derivative
            - v1 (snd (snd (Calc_dij_force eigh (fst (pot p)) (snd (pot p)))))) (at p)"
proof -
  have spec: "eigh_spec (fst (pot q)) (eigh (fst (pot q)))" for q
    using contract potential_values_symmetric [OF pot] by blast
  have hf: "((\<lambda>q. v0 (fst (eigh (fst (pot q))))) has_real_derivative
            m00 (adiabatic_derivative (snd (eigh (fst (pot p)))) (snd (pot p)))) (at p) \<and>
         ((\<lambda>q. v1 (fst (eigh (fst (pot q))))) has_real_derivative
            m11 (adiabatic_derivative (snd (eigh (fst (pot p)))) (snd (pot p)))) (at p)"
    using potential_coupling_pos [OF pot, of p]
    by (intro hellmann_feynman_2x2 potential_mat_deriv [OF pot] potential_derivs_symmetric [OF pot] spec) simp
  have eig: "fst (Calc_dij_force eigh V V_der) = fst (eigh V)" for V V_der
    by (simp add: Calc_dij_force_def Let_def split_def)
  obtain e U where r: "eigh (fst (pot p)) = (e, U)" by fastforce
  have frc: "snd (snd (Calc_dij_force eigh (fst (pot p)) (snd (pot p)))) =
      \<lparr>v0 = - m00 (adiabatic_derivative U (snd (pot p))), v1 = - m11 (adiabatic_derivative U (snd (pot p)))\<rparr>"
    using refl r by (simp add: Calc_dij_force_def adiabatic_derivative_def Let_def)
  show ?thesis using hf unfolding eig frc r by simp
qed

theorem Calc_dij_force_hellmann_feynman_witness:
  "((\<lambda>q. v0 (fst (Calc_dij_force eigh_reflect (fst (Potenial_SAC q)) (snd (Potenial_SAC q)))))
      has_real_derivative
      - v0 (snd (snd (Calc_dij_force eigh_reflect (fst (Potenial_SAC 0)) (snd (Potenial_SAC 0)))))) (at 0)"
proof -
  have c: "\<forall>V. symmetric2 V \<longrightarrow> eigh_spec V (eigh_reflect V)" by (simp add: eigh_reflect_spec)
  show ?thesis
    using Calc_dij_force_hellmann_feynman [OF _ c eigh_reflect_symmetric, of Potenial_SAC 0] by simp
qed

theorem Calc_dij_force_textbook_iff_symmetric_witness:
  "eigh_spec (fst (Potenial_SAC 0)) (eigh_reflect (fst (Potenial_SAC 0))) \<and>
   mtrans (snd (eigh_reflect (fst (Potenial_SAC 0)))) = snd (eigh_reflect (fst (Potenial_SAC 0))) \<and>
   Calc_dij_force eigh_reflect (fst (Potenial_SAC 0)) (snd (Potenial_SAC 0)) =
     adiabatic_transform eigh_reflect (fst (Potenial_SAC 0)) (snd (Potenial_SAC 0)) \<and>
   eigh_spec (fst (Potenial_SAC 0))
     (\<lparr>v0 = -0.005, v1 = 0.005\<rparr>,
      \<lparr>m00 = sqrt 2 / 2, m01 = sqrt 2 / 2, m10 = - (sqrt 2 / 2), m11 = sqrt 2 / 2\<rparr>) \<and>
   mtrans \<lparr>m00 = sqrt 2 / 2, m01 = sqrt 2 / 2, m10 = - (sqrt 2 / 2), m11 = sqrt 2 / 2\<rparr> \<noteq>
     (\<lparr>m00 = sqrt 2 / 2, m01 = sqrt 2 / 2, m10 = - (sqrt 2 / 2), m11 = sqrt 2 / 2\<rparr> :: rmat)"
proof -
  have sV: "symmetric2 (fst (Potenial_SAC 0))" by (rule potential_values_symmetric) simp
  have sW: "symmetric2 (snd (Potenial_SAC 0))" by (rule potential_derivs_symmetric) simp
  have e: "eigh_spec (fst (Potenial_SAC 0)) (eigh_reflect (fst (Potenial_SAC 0)))"
    using eigh_reflect_contract sV by blast
  have m: "mtrans (snd (eigh_reflect (fst (Potenial_SAC 0)))) = snd (eigh_reflect (fst (Potenial_SAC 0)))"
    by (rule eigh_reflect_symmetric)
  have c: "Calc_dij_force eigh_reflect (fst (Potenial_SAC 0)) (snd (Potenial_SAC 0)) =
     adiabatic_transform eigh_reflect (fst (Potenial_SAC 0)) (snd (Potenial_SAC 0))"
    using Calc_dij_force_textbook_iff_symmetric [where eigh = eigh_reflect and V = "fst (Potenial_SAC 0)", OF e] m sW
    by blast
  have "mtrans \<lparr>m00 = sqrt 2 / 2, m01 = sqrt 2 / 2, m10 = - (sqrt 2 / 2), m11 = sqrt 2 / 2\<rparr> \<noteq>
     (\<lparr>m00 = sqrt 2 / 2, m01 = sqrt 2 / 2, m10 = - (sqrt 2 / 2), m11 = sqrt 2 / 2\<rparr> :: rmat)"
    by (simp add: mat2_defs)
  with e m c Calc_dij_force_rotation_example show ?thesis by blast
qed

end
