(* ===== verification/Hopping_Probability.thy ===== *)
theory Hopping_Probability
  imports NACsForce
begin

text \<open>
  The surface-hop decision and the nuclear integrator of
  \<open>src/FSSH.py/hopping_probability.py\<close>. \<open>HoppingProbability\<close> takes the number
  \<open>random.random()\<close> draws in its body as its last argument \<open>rnd\<close>, so the decision is a
  function; \<open>density\<close> and \<open>bmat\<close> are the arrays \<open>a\<close> and \<open>b\<close> it builds.
  \<open>VelocityVerlet\<close> takes the \<open>eigh\<close> routine as its first argument (see
  \<open>NACsForce\<close>) and, as in the source, re-evaluates \<open>Potenial_SAC\<close> at the new
  position whatever potential the run started with.
  Two float behaviours are written into the statements rather than the definitions: a
  division \<open>0/0\<close> of numpy is NaN, which compares false, and HOL's \<open>0/0 = 0\<close> compares
  false against any draw \<open>rnd \<ge> 0\<close> just the same (\<open>HoppingProbability_zero_population\<close>);
  \<open>np.sqrt\<close> of a negative number is NaN, and the argument is proved never negative on a
  hop (\<open>HoppingProbability_energy_conservation\<close>).
\<close>

definition density :: "cvec \<Rightarrow> cmat" where
  "density cstate =
     \<lparr>m00 = v0 cstate * cnj (v0 cstate), m01 = v0 cstate * cnj (v1 cstate),
      m10 = v1 cstate * cnj (v0 cstate), m11 = v1 cstate * cnj (v1 cstate)\<rparr>"

definition bmat :: "real \<Rightarrow> cmat \<Rightarrow> rvec \<Rightarrow> rmat \<Rightarrow> rmat" where
  "bmat R_dot a Eig dij =
     (let Eig2 = \<lparr>m00 = v0 Eig, m01 = 0, m10 = 0, m11 = v1 Eig\<rparr>;
          cell = (\<lambda>akl ekl dkl. 2 * (Im (cnj akl * complex_of_real ekl)
                                     - R_dot * Re (cnj akl * complex_of_real dkl)))
      in \<lparr>m00 = cell (m00 a) (m00 Eig2) (m00 dij), m01 = cell (m01 a) (m01 Eig2) (m01 dij),
          m10 = cell (m10 a) (m10 Eig2) (m10 dij), m11 = cell (m11 a) (m11 Eig2) (m11 dij)\<rparr>)"

definition HoppingProbability ::
  "real \<Rightarrow> nat \<Rightarrow> cvec \<Rightarrow> real \<Rightarrow> rvec \<Rightarrow> rmat \<Rightarrow> real \<Rightarrow> real \<Rightarrow> nat \<times> real" where
  "HoppingProbability R_dot nstate cstate mass Eig dij t_step rnd =
     (let a = density cstate;
          b = bmat R_dot a Eig dij;
          gap = v1 Eig - v0 Eig;
          newstate =
            (if nstate = 1 \<and> 0.5 * mass * R_dot\<^sup>2 > gap then
               (if t_step * m10 b / Re (m00 a) > rnd then Some 2 else None)
             else if nstate = 2 then
               (if t_step * m01 b / Re (m11 a) > rnd then Some 1 else None)
             else None)
      in case newstate of
           None \<Rightarrow> (nstate, R_dot)
         | Some ns \<Rightarrow>
             (ns, sgn R_dot * sqrt (2 / mass * (sel Eig nstate - sel Eig ns + 0.5 * mass * R_dot\<^sup>2))))"

definition VelocityVerlet ::
  "(rmat \<Rightarrow> rvec \<times> rmat) \<Rightarrow> real \<Rightarrow> real \<Rightarrow> real \<Rightarrow> rvec \<Rightarrow> real \<Rightarrow> nat \<Rightarrow>
   real \<times> real \<times> rmat \<times> rvec \<times> rvec \<times> rmat" where
  "VelocityVerlet eigh x R_dot mass force t_step nstate =
     (let acc_t1 = sel force nstate / mass;
          x' = x + R_dot * t_step + 0.5 * acc_t1 * t_step\<^sup>2;
          (V, V_der) = Potenial_SAC x';
          (Eig, dij, force_t2) = Calc_dij_force eigh V V_der;
          acc_t2 = sel force_t2 nstate / mass;
          R_dot' = R_dot + 0.5 * t_step * (acc_t1 + acc_t2)
      in (x', R_dot', V, force_t2, Eig, dij))"

definition SAC_force :: "(rmat \<Rightarrow> rvec \<times> rmat) \<Rightarrow> real \<Rightarrow> rvec" where
  "SAC_force eigh x = snd (snd (Calc_dij_force eigh (fst (Potenial_SAC x)) (snd (Potenial_SAC x))))"

lemma density_diag: "Re (m00 (density c)) = (cmod (v0 c))\<^sup>2" "Re (m11 (density c)) = (cmod (v1 c))\<^sup>2"
  by (simp_all add: density_def complex_mult_cnj cmod_power2)

lemma bmat_cells:
  "m10 (bmat R (density c) E d) = - 2 * R * m10 d * Re (v0 c * cnj (v1 c))"
  "m01 (bmat R (density c) E d) = - 2 * R * m01 d * Re (v1 c * cnj (v0 c))"
  by (simp_all add: bmat_def density_def Let_def algebra_simps)


lemma HoppingProbability_cases:
  "HoppingProbability R_dot nstate cstate mass Eig dij t_step rnd =
     (if nstate = 1 \<and> 0.5 * mass * R_dot\<^sup>2 > v1 Eig - v0 Eig
         \<and> t_step * m10 (bmat R_dot (density cstate) Eig dij) / Re (m00 (density cstate)) > rnd
      then (2, sgn R_dot * sqrt (2 / mass * (v0 Eig - v1 Eig + 0.5 * mass * R_dot\<^sup>2)))
      else if \<not> (nstate = 1 \<and> 0.5 * mass * R_dot\<^sup>2 > v1 Eig - v0 Eig) \<and> nstate = 2
         \<and> t_step * m01 (bmat R_dot (density cstate) Eig dij) / Re (m11 (density cstate)) > rnd
      then (1, sgn R_dot * sqrt (2 / mass * (v1 Eig - v0 Eig + 0.5 * mass * R_dot\<^sup>2)))
      else (nstate, R_dot))"
  by (simp add: HoppingProbability_def Let_def sel_def)

text \<open>C3: frustrated hop. In state 1, when the kinetic energy \<open>\<onehalf> mass R_dot\<^sup>2\<close> does not exceed the gap \<open>Eig[1] - Eig[0]\<close>, \<open>HoppingProbability\<close> keeps the state and the velocity, whatever the random draw.\<close>

theorem HoppingProbability_frustrated:
  assumes "0.5 * mass * R_dot\<^sup>2 \<le> v1 Eig - v0 Eig"
  shows "HoppingProbability R_dot 1 cstate mass Eig dij t_step rnd = (1, R_dot)"
  using assms by (simp add: HoppingProbability_cases)

lemma hop_happened:
  assumes "HoppingProbability R_dot nstate cstate mass Eig dij t_step rnd = (ns, v)" "ns \<noteq> nstate"
  shows "(nstate = 1 \<and> ns = 2 \<and> 0.5 * mass * R_dot\<^sup>2 > v1 Eig - v0 Eig
           \<and> t_step * m10 (bmat R_dot (density cstate) Eig dij) / Re (m00 (density cstate)) > rnd)
       \<or> (nstate = 2 \<and> ns = 1
           \<and> t_step * m01 (bmat R_dot (density cstate) Eig dij) / Re (m11 (density cstate)) > rnd)"
  "v = sgn R_dot * sqrt (2 / mass * (sel Eig nstate - sel Eig ns + 0.5 * mass * R_dot\<^sup>2))"
  using assms by (auto simp: HoppingProbability_cases sel_def split: if_splits)

lemma hop_energy_positive:
  assumes "HoppingProbability R_dot nstate cstate mass Eig dij t_step rnd = (ns, v)" "ns \<noteq> nstate"
    and "v0 Eig \<le> v1 Eig" "0 < mass" "0 \<le> rnd"
  shows "R_dot \<noteq> 0" "0 < sel Eig nstate - sel Eig ns + 0.5 * mass * R_dot\<^sup>2"
proof -
  note h = hop_happened [OF assms(1,2)]
  have "R_dot \<noteq> 0"
  proof
    assume R0: "R_dot = 0"
    from h(1) show False
    proof
      assume "nstate = 1 \<and> ns = 2 \<and> 0.5 * mass * R_dot\<^sup>2 > v1 Eig - v0 Eig
           \<and> t_step * m10 (bmat R_dot (density cstate) Eig dij) / Re (m00 (density cstate)) > rnd"
      with R0 assms(3) show False by simp
    next
      assume "nstate = 2 \<and> ns = 1
           \<and> t_step * m01 (bmat R_dot (density cstate) Eig dij) / Re (m11 (density cstate)) > rnd"
      with R0 assms(5) show False by (simp add: bmat_cells)
    qed
  qed
  then show "R_dot \<noteq> 0" .
  then have k: "0 < 0.5 * mass * R_dot\<^sup>2" using assms(4) by simp
  from h(1) show "0 < sel Eig nstate - sel Eig ns + 0.5 * mass * R_dot\<^sup>2"
    using k assms(3) by (auto simp: sel_def)
qed

lemma hop_rescale_energy:
  assumes "HoppingProbability R_dot nstate cstate mass Eig dij t_step rnd = (ns, v)" "ns \<noteq> nstate"
    and "v0 Eig \<le> v1 Eig" "0 < mass" "0 \<le> rnd"
  shows "0 \<le> 2 / mass * (sel Eig nstate - sel Eig ns + 0.5 * mass * R_dot\<^sup>2) \<and>
         0.5 * mass * v\<^sup>2 + sel Eig ns = 0.5 * mass * R_dot\<^sup>2 + sel Eig nstate"
proof -
  note pos = hop_energy_positive [OF assms]
  let ?w = "sel Eig nstate - sel Eig ns + 0.5 * mass * R_dot\<^sup>2"
  have nn: "0 \<le> 2 / mass * ?w" using pos(2) assms(4) by simp
  have "v\<^sup>2 = (sgn R_dot)\<^sup>2 * (sqrt (2 / mass * ?w))\<^sup>2"
    using hop_happened(2) [OF assms(1,2)] by (simp add: power_mult_distrib)
  also have "\<dots> = 2 / mass * ?w" using pos(1) nn by (simp add: sgn_if)
  finally have "0.5 * mass * v\<^sup>2 + sel Eig ns = 0.5 * mass * R_dot\<^sup>2 + sel Eig nstate"
    using assms(4) by (simp add: field_simps)
  with nn show ?thesis by simp
qed

lemma hop_energy_conserved:
  assumes "HoppingProbability R_dot nstate cstate mass Eig dij t_step rnd = (ns, v)"
    and "v0 Eig \<le> v1 Eig" "0 < mass" "0 \<le> rnd"
  shows "0.5 * mass * v\<^sup>2 + sel Eig ns = 0.5 * mass * R_dot\<^sup>2 + sel Eig nstate"
proof (cases "ns = nstate")
  case True
  then have "v = R_dot" using assms(1) by (auto simp: HoppingProbability_cases split: if_splits)
  with True show ?thesis by simp
next
  case False
  then show ?thesis using hop_rescale_energy [OF assms(1) False assms(2-4)] by blast
qed

text \<open>C2: after an accepted hop (for ascending eigenvalues, positive mass and a draw in [0,1)), the argument of \<open>np.sqrt\<close> is non-negative, so the rescaled velocity is never NaN, and the total energy is conserved: \<open>\<onehalf> mass R_dot\<^sub>n\<^sub>e\<^sub>w\<^sup>2 + \<epsilon>\<^sub>n\<^sub>e\<^sub>w = \<onehalf> mass R_dot\<^sup>2 + \<epsilon>\<^sub>o\<^sub>l\<^sub>d\<close>. Downward hops need no kinetic-energy gate for this.\<close>

theorem HoppingProbability_energy_conservation:
  assumes "HoppingProbability R_dot nstate cstate mass Eig dij t_step rnd = (ns, v)" "ns \<noteq> nstate"
    and "v0 Eig \<le> v1 Eig" "0 < mass" "0 \<le> rnd"
  shows "0 \<le> 2 / mass * (sel Eig nstate - sel Eig ns + 0.5 * mass * R_dot\<^sup>2) \<and>
         0.5 * mass * v\<^sup>2 + sel Eig ns = 0.5 * mass * R_dot\<^sup>2 + sel Eig nstate"
  by (rule hop_rescale_energy [OF assms])

text \<open>C23: when the active state carries no amplitude, \<open>a[k,k] = 0\<close> and the hop probability is \<open>0/0\<close> (NaN in numpy, which compares false); no hop happens for any draw \<open>rnd \<ge> 0\<close>.\<close>

theorem HoppingProbability_zero_population:
  assumes "sel cstate nstate = 0" and "0 \<le> rnd"
  shows "HoppingProbability R_dot nstate cstate mass Eig dij t_step rnd = (nstate, R_dot)"
  using assms by (auto simp: HoppingProbability_cases bmat_cells density_def sel_def)

lemma VelocityVerlet_parts:
  "VelocityVerlet eigh x R_dot mass force t_step nstate =
     (let x' = x + R_dot * t_step + 0.5 * (sel force nstate / mass) * t_step\<^sup>2
      in (x', R_dot + 0.5 * t_step * (sel force nstate / mass + sel (SAC_force eigh x') nstate / mass),
          fst (Potenial_SAC x'), SAC_force eigh x',
          fst (Calc_dij_force eigh (fst (Potenial_SAC x')) (snd (Potenial_SAC x'))),
          fst (snd (Calc_dij_force eigh (fst (Potenial_SAC x')) (snd (Potenial_SAC x'))))))"
  by (simp only: VelocityVerlet_def SAC_force_def Let_def split_def)

lemma VelocityVerlet_step_parts:
  "fst (VelocityVerlet eigh x v mass (SAC_force eigh x) h n) =
     x + v * h + 0.5 * (sel (SAC_force eigh x) n / mass) * h\<^sup>2"
  "fst (snd (VelocityVerlet eigh x v mass (SAC_force eigh x) h n)) =
     v + 0.5 * h * (sel (SAC_force eigh x) n / mass +
       sel (SAC_force eigh (x + v * h + 0.5 * (sel (SAC_force eigh x) n / mass) * h\<^sup>2)) n / mass)"
  by (simp_all only: VelocityVerlet_parts Let_def fst_conv snd_conv)

text \<open>C22: \<open>VelocityVerlet\<close> is time-reversible: started from the force of the current position, a step followed by a step from the new position with the velocity reversed returns exactly to the start position, with the reversed start velocity and the start force.\<close>

theorem VelocityVerlet_reversible:
  assumes "VelocityVerlet eigh x R_dot mass (SAC_force eigh x) t_step nstate = (x', R', V', force', Eig', dij')"
  shows "fst (VelocityVerlet eigh x' (- R') mass force' t_step nstate) = x \<and>
         fst (snd (VelocityVerlet eigh x' (- R') mass force' t_step nstate)) = - R_dot \<and>
         fst (snd (snd (snd (VelocityVerlet eigh x' (- R') mass force' t_step nstate)))) = SAC_force eigh x"
proof -
  let ?a = "sel (SAC_force eigh x) nstate / mass"
  have eq: "(x', R', V', force', Eig', dij') =
      (x + R_dot * t_step + 0.5 * ?a * t_step\<^sup>2,
       R_dot + 0.5 * t_step * (?a + sel (SAC_force eigh (x + R_dot * t_step + 0.5 * ?a * t_step\<^sup>2)) nstate / mass),
       fst (Potenial_SAC (x + R_dot * t_step + 0.5 * ?a * t_step\<^sup>2)),
       SAC_force eigh (x + R_dot * t_step + 0.5 * ?a * t_step\<^sup>2),
       Eig', dij')"
    using assms unfolding VelocityVerlet_parts Let_def by (simp only: prod.inject) blast
  have hx: "x' = x + R_dot * t_step + 0.5 * ?a * t_step\<^sup>2" using eq by (simp only: prod.inject)
  have hR: "R' = R_dot + 0.5 * t_step * (?a + sel (SAC_force eigh x') nstate / mass)"
    using eq hx by (simp only: prod.inject)
  have hf: "force' = SAC_force eigh x'" using eq hx by (simp only: prod.inject)
  have hback: "x' + - R' * t_step + 0.5 * (sel force' nstate / mass) * t_step\<^sup>2 = x"
    unfolding hR hf hx by (simp add: algebra_simps power2_eq_square)
  then have r1: "fst (VelocityVerlet eigh x' (- R') mass force' t_step nstate) = x"
    by (simp add: VelocityVerlet_parts Let_def)
  have r2: "fst (snd (VelocityVerlet eigh x' (- R') mass force' t_step nstate)) = - R_dot"
    using hback unfolding VelocityVerlet_parts Let_def by (simp add: hR hf algebra_simps)
  have r3: "fst (snd (snd (snd (VelocityVerlet eigh x' (- R') mass force' t_step nstate)))) = SAC_force eigh x"
    using hback by (simp add: VelocityVerlet_parts Let_def)
  from r1 r2 r3 show ?thesis by blast
qed

lemma verlet_partials:
  fixes a :: "real \<Rightarrow> real"
  assumes A: "(a has_real_derivative A) (at x)"
    and B': "(a has_real_derivative B) (at (x + v * h + 0.5 * a x * h\<^sup>2))"
  shows "((\<lambda>x. x + v * h + 0.5 * a x * h\<^sup>2) has_real_derivative 1 + h\<^sup>2 / 2 * A) (at x) \<and>
         ((\<lambda>v. x + v * h + 0.5 * a x * h\<^sup>2) has_real_derivative h) (at v) \<and>
         ((\<lambda>x. v + 0.5 * h * (a x + a (x + v * h + 0.5 * a x * h\<^sup>2))) has_real_derivative
            h / 2 * (A + B * (1 + h\<^sup>2 / 2 * A))) (at x) \<and>
         ((\<lambda>v. v + 0.5 * h * (a x + a (x + v * h + 0.5 * a x * h\<^sup>2))) has_real_derivative
            1 + h\<^sup>2 / 2 * B) (at v)"
proof -
  have dxx: "((\<lambda>x. x + v * h + 0.5 * a x * h\<^sup>2) has_real_derivative 1 + h\<^sup>2 / 2 * A) (at x)"
  proof -
    have "((\<lambda>x. x + v * h + 0.5 * a x * h\<^sup>2) has_real_derivative
             (1 + 0) + 0.5 * A * h\<^sup>2) (at x)"
      by (intro DERIV_add DERIV_ident DERIV_const DERIV_cmult_right DERIV_cmult A)
    moreover have "(1 + 0) + 0.5 * A * h\<^sup>2 = 1 + h\<^sup>2 / 2 * A" by simp
    ultimately show ?thesis by (simp only:)
  qed
  have dxv: "((\<lambda>v. x + v * h + 0.5 * a x * h\<^sup>2) has_real_derivative h) (at v)"
  proof -
    have "((\<lambda>v. x + v * h + 0.5 * a x * h\<^sup>2) has_real_derivative (0 + 1 * h) + 0) (at v)"
      by (intro DERIV_add DERIV_ident DERIV_const DERIV_cmult_right)
    then show ?thesis by simp
  qed
  have dvx: "((\<lambda>x. v + 0.5 * h * (a x + a (x + v * h + 0.5 * a x * h\<^sup>2))) has_real_derivative
               h / 2 * (A + B * (1 + h\<^sup>2 / 2 * A))) (at x)"
  proof -
    have "((\<lambda>x. a (x + v * h + 0.5 * a x * h\<^sup>2)) has_real_derivative B * (1 + h\<^sup>2 / 2 * A)) (at x)"
      by (rule DERIV_chain2 [OF B' dxx])
    then have "((\<lambda>x. v + 0.5 * h * (a x + a (x + v * h + 0.5 * a x * h\<^sup>2))) has_real_derivative
                 0 + 0.5 * h * (A + B * (1 + h\<^sup>2 / 2 * A))) (at x)"
      by (intro DERIV_add DERIV_const DERIV_cmult A)
    then show ?thesis by simp
  qed
  have dvv: "((\<lambda>v. v + 0.5 * h * (a x + a (x + v * h + 0.5 * a x * h\<^sup>2))) has_real_derivative 1 + h\<^sup>2 / 2 * B) (at v)"
  proof -
    have "((\<lambda>v. a (x + v * h + 0.5 * a x * h\<^sup>2)) has_real_derivative B * h) (at v)"
      by (rule DERIV_chain2 [OF B' dxv])
    then have "((\<lambda>v. v + 0.5 * h * (a x + a (x + v * h + 0.5 * a x * h\<^sup>2))) has_real_derivative
                 1 + 0.5 * h * (0 + B * h)) (at v)"
      by (intro DERIV_add DERIV_ident DERIV_const DERIV_cmult)
    moreover have "1 + 0.5 * h * (0 + B * h) = 1 + h\<^sup>2 / 2 * B"
      by (simp add: power2_eq_square)
    ultimately show ?thesis by (simp only:)
  qed
  show ?thesis using dxx dxv dvx dvv by blast
qed

text \<open>C10: \<open>VelocityVerlet\<close> preserves phase-space area. Started from the force of the
  current position, the step \<open>(x, R_dot) \<mapsto> (x', R_dot')\<close> has the partial derivatives
  below wherever the acceleration \<open>force[nstate-1]/mass\<close> is differentiable at the old and
  the new position (with derivatives \<open>A\<close> and \<open>B\<close>), and its Jacobian determinant is 1:
  the integrator is symplectic, for every \<open>eigh\<close>, time step and state.\<close>

theorem VelocityVerlet_area_preserving:
  assumes A: "((\<lambda>y. sel (SAC_force eigh y) n / mass) has_real_derivative A) (at x)"
    and B: "((\<lambda>y. sel (SAC_force eigh y) n / mass) has_real_derivative B)
              (at (fst (VelocityVerlet eigh x v mass (SAC_force eigh x) h n)))"
  shows "((\<lambda>x. fst (VelocityVerlet eigh x v mass (SAC_force eigh x) h n))
            has_real_derivative 1 + h\<^sup>2 / 2 * A) (at x) \<and>
         ((\<lambda>v. fst (VelocityVerlet eigh x v mass (SAC_force eigh x) h n))
            has_real_derivative h) (at v) \<and>
         ((\<lambda>x. fst (snd (VelocityVerlet eigh x v mass (SAC_force eigh x) h n)))
            has_real_derivative h / 2 * (A + B * (1 + h\<^sup>2 / 2 * A))) (at x) \<and>
         ((\<lambda>v. fst (snd (VelocityVerlet eigh x v mass (SAC_force eigh x) h n)))
            has_real_derivative 1 + h\<^sup>2 / 2 * B) (at v) \<and>
         (1 + h\<^sup>2 / 2 * A) * (1 + h\<^sup>2 / 2 * B) - h * (h / 2 * (A + B * (1 + h\<^sup>2 / 2 * A))) = 1"
proof -
  let ?a = "\<lambda>y. sel (SAC_force eigh y) n / mass"
  have B': "(?a has_real_derivative B) (at (x + v * h + 0.5 * ?a x * h\<^sup>2))"
    using B by (simp only: VelocityVerlet_step_parts)
  have det: "(1 + h\<^sup>2 / 2 * A) * (1 + h\<^sup>2 / 2 * B) - h * (h / 2 * (A + B * (1 + h\<^sup>2 / 2 * A))) = 1"
    by (simp add: algebra_simps power2_eq_square)
  show ?thesis
    unfolding VelocityVerlet_step_parts using verlet_partials [of ?a A x B v h, OF A B'] det by blast
qed

subsection \<open>Witnesses\<close>

theorem HoppingProbability_frustrated_witness:
  "0.5 * 2000 * (1 / 100)\<^sup>2 \<le> v1 \<lparr>v0 = 0, v1 = 1\<rparr> - v0 \<lparr>v0 = 0 :: real, v1 = 1\<rparr> \<and>
   HoppingProbability (1 / 100) 1 \<lparr>v0 = 1, v1 = 0\<rparr> 2000 \<lparr>v0 = 0, v1 = 1\<rparr> mid 1 0 = (1, 1 / 100)"
  using HoppingProbability_frustrated [of 2000 "1 / 100" "\<lparr>v0 = 0, v1 = 1\<rparr>" "\<lparr>v0 = 1, v1 = 0\<rparr>" mid 1 0]
  by (simp add: power2_eq_square)

theorem HoppingProbability_energy_conservation_witness:
  "let r = HoppingProbability 1 2 \<lparr>v0 = 1, v1 = 1\<rparr> 2 \<lparr>v0 = 0, v1 = 3\<rparr> \<lparr>m00 = 0, m01 = -1, m10 = 1, m11 = 0\<rparr> 1 (1 / 2)
   in r = (fst r, snd r) \<and> fst r \<noteq> 2 \<and> v0 \<lparr>v0 = 0, v1 = 3\<rparr> \<le> v1 \<lparr>v0 = 0 :: real, v1 = 3\<rparr> \<and>
      (0 :: real) < 2 \<and> (0 :: real) \<le> 1 / 2 \<and>
      0 \<le> 2 / 2 * (sel (\<lparr>v0 = 0, v1 = 3\<rparr> :: rvec) 2 - sel (\<lparr>v0 = 0, v1 = 3\<rparr> :: rvec) (fst r) + 0.5 * 2 * 1\<^sup>2) \<and>
      0.5 * 2 * (snd r)\<^sup>2 + sel (\<lparr>v0 = 0, v1 = 3\<rparr> :: rvec) (fst r) = 0.5 * 2 * 1\<^sup>2 + sel (\<lparr>v0 = 0, v1 = 3\<rparr> :: rvec) 2"
proof -
  define r where "r = HoppingProbability 1 2 \<lparr>v0 = 1, v1 = 1\<rparr> 2 \<lparr>v0 = 0, v1 = 3\<rparr>
      \<lparr>m00 = 0, m01 = -1, m10 = 1, m11 = 0\<rparr> 1 (1 / 2)"
  have r1: "fst r = 1"
    by (simp add: r_def HoppingProbability_cases bmat_cells density_diag)
  have r: "r = (fst r, snd r)" by simp
  note e = HoppingProbability_energy_conservation [OF r [unfolded r_def]]
  show ?thesis
    using e r1 unfolding r_def [symmetric] Let_def by (simp add: prod_eq_iff)
qed

theorem HoppingProbability_zero_population_witness:
  "sel \<lparr>v0 = 0, v1 = 1\<rparr> (1::nat) = (0::complex) \<and> (0::real) \<le> 0 \<and>
   HoppingProbability 1 1 \<lparr>v0 = 0, v1 = 1\<rparr> 2000 \<lparr>v0 = 0, v1 = 1\<rparr> mid 1 0 = (1, 1)"
  using HoppingProbability_zero_population [of "\<lparr>v0 = 0, v1 = 1\<rparr>" 1 0 1 2000 "\<lparr>v0 = 0, v1 = 1\<rparr>" mid 1]
  by (simp add: sel_def)

theorem VelocityVerlet_reversible_witness:
  "let W = VelocityVerlet eigh_reflect 0 1 2000 (SAC_force eigh_reflect 0) 1 1
   in VelocityVerlet eigh_reflect 0 1 2000 (SAC_force eigh_reflect 0) 1 1 =
        (fst W, fst (snd W), fst (snd (snd W)), fst (snd (snd (snd W))),
         fst (snd (snd (snd (snd W)))), snd (snd (snd (snd (snd W))))) \<and>
      fst (VelocityVerlet eigh_reflect (fst W) (- fst (snd W)) 2000 (fst (snd (snd (snd W)))) 1 1) = 0"
proof -
  define W where "W = VelocityVerlet eigh_reflect 0 1 2000 (SAC_force eigh_reflect 0) 1 1"
  have h: "VelocityVerlet eigh_reflect 0 1 2000 (SAC_force eigh_reflect 0) 1 1 =
        (fst W, fst (snd W), fst (snd (snd W)), fst (snd (snd (snd W))),
         fst (snd (snd (snd (snd W)))), snd (snd (snd (snd (snd W)))))"
    by (simp add: W_def)
  from conjunct1 [OF VelocityVerlet_reversible [OF h]] h show ?thesis
    unfolding W_def [symmetric] Let_def by (rule conjI [rotated])
qed

theorem VelocityVerlet_area_preserving_witness:
  "(1 + 1\<^sup>2 / 2 * 0) * (1 + 1\<^sup>2 / 2 * 0) - 1 * (1 / 2 * (0 + 0 * (1 + 1\<^sup>2 / 2 * 0))) = (1::real) \<and>
   ((\<lambda>x. fst (VelocityVerlet (\<lambda>V. (\<lparr>v0 = 0, v1 = 1\<rparr>, \<lparr>m00 = 0, m01 = 0, m10 = 0, m11 = 0\<rparr>))
       x 1 2000 (SAC_force (\<lambda>V. (\<lparr>v0 = 0, v1 = 1\<rparr>, \<lparr>m00 = 0, m01 = 0, m10 = 0, m11 = 0\<rparr>)) x) 1 1))
     has_real_derivative 1) (at (-1))"
proof -
  let ?e = "\<lambda>V::rmat. (\<lparr>v0 = 0::real, v1 = 1\<rparr>, \<lparr>m00 = 0::real, m01 = 0, m10 = 0, m11 = 0\<rparr>)"
  have z: "\<And>y. sel (SAC_force ?e y) 1 / 2000 = 0"
    by (simp add: SAC_force_def Calc_dij_force_def Let_def split_def mmul_def sel_def)
  have d: "\<And>y. ((\<lambda>y. sel (SAC_force ?e y) 1 / 2000) has_real_derivative 0) (at y)"
    unfolding z by (rule DERIV_const)
  show ?thesis
    using VelocityVerlet_area_preserving [where x = "-1" and v = 1 and h = 1, OF d d] by simp
qed

end
