(* ===== verification/Trajectory.thy ===== *)
theory Trajectory
  imports Fourth_RungeKutta Hopping_Probability
begin

text \<open>
  The trajectory loop of \<open>main\<close> in \<open>src/FSSH.py/run/FSSH.py\<close>.
  A trajectory's state is the record \<open>traj\<close> (the locals \<open>p\<close>, \<open>R_dot\<close>, \<open>nstate\<close>,
  \<open>cstate\<close>, \<open>V\<close>, \<open>force\<close>, \<open>Eig\<close>, \<open>dij\<close>, \<open>n\<close> of \<open>main\<close>, and \<open>tr_draw\<close>, the
  number of values taken so far from the global generator of \<open>random\<close>). The generator is
  the stream \<open>rnd :: nat \<Rightarrow> real\<close>, read at index \<open>tr_draw\<close>. \<open>fssh_step\<close> is one pass
  of the \<open>while\<close> body (propagator, hop, integrator, \<open>n += 1\<close>); \<open>propagate\<close> is the
  loop with its exit test and the \<open>break\<close> at \<open>n == 1038\<close>, a \<open>partial_function\<close> whose
  termination from \<open>n < 1038\<close> is proved; \<open>reach\<close> is the same loop as an inductive
  step relation, whose final states are the \<open>halted\<close> ones. \<open>hop_stage\<close> and \<open>verlet_stage\<close> split
  the body at the call of \<open>VelocityVerlet\<close>, and \<open>traj_energy\<close> is the total energy
  \<open>\<onehalf> mass R_dot\<^sup>2 + Eig[nstate-1]\<close> of a state. The lemmas give termination, the
  invariant of reachable states, liveness, which random draws a trajectory reads, the
  frustrated-hop rule inside the loop, energy conservation of the hop stage, and the
  amplitude norm along the incoming part of a trajectory.
\<close>

record traj =
  tr_p :: real
  tr_R_dot :: real
  tr_nstate :: nat
  tr_cstate :: cvec
  tr_V :: rmat
  tr_force :: rvec
  tr_Eig :: rvec
  tr_dij :: rmat
  tr_n :: nat
  tr_draw :: nat

definition init_traj :: "(rmat \<Rightarrow> rvec \<times> rmat) \<Rightarrow> real \<Rightarrow> real \<Rightarrow> nat \<Rightarrow> traj" where
  "init_traj eigh momentum mass draw =
     (let p = -9.9999; R_dot = momentum / mass; nstate = 1;
          cstate = \<lparr>v0 = 1, v1 = 0\<rparr>;
          (V, V_der) = Potenial_SAC p;
          (Eig, dij, force) = Calc_dij_force eigh V V_der
      in \<lparr>tr_p = p, tr_R_dot = R_dot, tr_nstate = nstate, tr_cstate = cstate, tr_V = V,
          tr_force = force, tr_Eig = Eig, tr_dij = dij, tr_n = 0, tr_draw = draw\<rparr>)"

definition fssh_step ::
  "(rmat \<Rightarrow> rvec \<times> rmat) \<Rightarrow> (nat \<Rightarrow> real) \<Rightarrow> real \<Rightarrow> real \<Rightarrow> traj \<Rightarrow> traj" where
  "fssh_step eigh rnd mass t_step s =
     (let cstate = Fourth_RungeKutta (tr_R_dot s) (tr_cstate s) (tr_Eig s) (tr_dij s) t_step;
          (nstate, R_dot) = HoppingProbability (tr_R_dot s) (tr_nstate s) cstate mass
                              (tr_Eig s) (tr_dij s) t_step (rnd (tr_draw s));
          (p, R_dot', V, force, Eig, dij) =
            VelocityVerlet eigh (tr_p s) R_dot mass (tr_force s) t_step nstate
      in s\<lparr>tr_p := p, tr_R_dot := R_dot', tr_nstate := nstate, tr_cstate := cstate, tr_V := V,
           tr_force := force, tr_Eig := Eig, tr_dij := dij, tr_n := tr_n s + 1,
           tr_draw := tr_draw s + 1\<rparr>)"

partial_function (option) propagate ::
  "(rmat \<Rightarrow> rvec \<times> rmat) \<Rightarrow> (nat \<Rightarrow> real) \<Rightarrow> real \<Rightarrow> real \<Rightarrow> real \<Rightarrow> real \<Rightarrow> traj \<Rightarrow> traj option"
where
  "propagate eigh rnd mass t_step PMin PMax s =
     (if PMin < tr_p s \<and> tr_p s < PMax then
        (if tr_n (fssh_step eigh rnd mass t_step s) = 1038 then Some (fssh_step eigh rnd mass t_step s)
         else propagate eigh rnd mass t_step PMin PMax (fssh_step eigh rnd mass t_step s))
      else Some s)"

definition traj_inv :: "(rmat \<Rightarrow> rvec \<times> rmat) \<Rightarrow> traj \<Rightarrow> bool" where
  "traj_inv eigh s \<longleftrightarrow>
     tr_nstate s \<in> {1, 2} \<and> tr_V s = fst (Potenial_SAC (tr_p s)) \<and>
     (tr_Eig s, tr_dij s, tr_force s) =
       Calc_dij_force eigh (fst (Potenial_SAC (tr_p s))) (snd (Potenial_SAC (tr_p s)))"

inductive reach ::
  "(rmat \<Rightarrow> rvec \<times> rmat) \<Rightarrow> (nat \<Rightarrow> real) \<Rightarrow> real \<Rightarrow> real \<Rightarrow> real \<Rightarrow> real \<Rightarrow> traj \<Rightarrow> traj \<Rightarrow> bool"
  for eigh rnd mass t_step PMin PMax s0
where
  reach_start: "reach eigh rnd mass t_step PMin PMax s0 s0"
| reach_step: "reach eigh rnd mass t_step PMin PMax s0 s \<Longrightarrow> PMin < tr_p s \<Longrightarrow> tr_p s < PMax \<Longrightarrow>
     tr_n s \<noteq> 1038 \<Longrightarrow> reach eigh rnd mass t_step PMin PMax s0 (fssh_step eigh rnd mass t_step s)"

definition halted :: "real \<Rightarrow> real \<Rightarrow> traj \<Rightarrow> bool" where
  "halted PMin PMax s \<longleftrightarrow> \<not> (PMin < tr_p s \<and> tr_p s < PMax) \<or> tr_n s = 1038"

definition hop_stage :: "(nat \<Rightarrow> real) \<Rightarrow> real \<Rightarrow> real \<Rightarrow> traj \<Rightarrow> traj" where
  "hop_stage rnd mass t_step s =
     (let cstate = Fourth_RungeKutta (tr_R_dot s) (tr_cstate s) (tr_Eig s) (tr_dij s) t_step;
          (nstate, R_dot) = HoppingProbability (tr_R_dot s) (tr_nstate s) cstate mass
                              (tr_Eig s) (tr_dij s) t_step (rnd (tr_draw s))
      in s\<lparr>tr_R_dot := R_dot, tr_nstate := nstate, tr_cstate := cstate, tr_draw := tr_draw s + 1\<rparr>)"

definition verlet_stage :: "(rmat \<Rightarrow> rvec \<times> rmat) \<Rightarrow> real \<Rightarrow> real \<Rightarrow> traj \<Rightarrow> traj" where
  "verlet_stage eigh mass t_step s =
     (let (p, R_dot, V, force, Eig, dij) =
            VelocityVerlet eigh (tr_p s) (tr_R_dot s) mass (tr_force s) t_step (tr_nstate s)
      in s\<lparr>tr_p := p, tr_R_dot := R_dot, tr_V := V, tr_force := force, tr_Eig := Eig,
           tr_dij := dij, tr_n := tr_n s + 1\<rparr>)"

definition traj_energy :: "real \<Rightarrow> traj \<Rightarrow> real" where
  "traj_energy mass s = 0.5 * mass * (tr_R_dot s)\<^sup>2 + sel (tr_Eig s) (tr_nstate s)"

lemma fssh_step_counters [simp]:
  "tr_n (fssh_step eigh rnd mass t_step s) = tr_n s + 1"
  "tr_draw (fssh_step eigh rnd mass t_step s) = tr_draw s + 1"
  by (simp_all add: fssh_step_def Let_def split_def)

lemma propagate_returns:
  assumes "tr_n s < 1038"
  shows "\<exists>s'. propagate eigh rnd mass t_step PMin PMax s = Some s' \<and> tr_n s \<le> tr_n s' \<and> tr_n s' \<le> 1038 \<and>
           (tr_n s' = 1038 \<or> \<not> (PMin < tr_p s' \<and> tr_p s' < PMax)) \<and>
           tr_draw s' = tr_draw s + (tr_n s' - tr_n s)"
  using assms
proof (induction "1038 - tr_n s" arbitrary: s rule: less_induct)
  case less
  let ?s1 = "fssh_step eigh rnd mass t_step s"
  note unfold = propagate.simps [of eigh rnd mass t_step PMin PMax s]
  show ?case
  proof (cases "PMin < tr_p s \<and> tr_p s < PMax")
    case False
    have "propagate eigh rnd mass t_step PMin PMax s = Some s"
      by (subst unfold) (simp only: False if_False)
    then show ?thesis using less.prems False by simp
  next
    case dom: True
    show ?thesis
    proof (cases "tr_n ?s1 = 1038")
      case True
      with dom show ?thesis by (simp add: unfold)
    next
      case False
      then have n1: "tr_n ?s1 < 1038" using less.prems by simp
      have "1038 - tr_n ?s1 < 1038 - tr_n s" using less.prems by simp
      from less.hyps [OF this n1] obtain s' where
        r: "propagate eigh rnd mass t_step PMin PMax ?s1 = Some s'" and
        p: "tr_n ?s1 \<le> tr_n s' \<and> tr_n s' \<le> 1038 \<and>
           (tr_n s' = 1038 \<or> \<not> (PMin < tr_p s' \<and> tr_p s' < PMax)) \<and>
           tr_draw s' = tr_draw ?s1 + (tr_n s' - tr_n ?s1)" by blast
      have "propagate eigh rnd mass t_step PMin PMax s = Some s'"
        using dom False r by (simp add: unfold)
      with p show ?thesis by auto
    qed
  qed
qed

lemma init_traj_inv: "traj_inv eigh (init_traj eigh momentum mass d)"
  by (simp add: traj_inv_def init_traj_def Let_def split_def)

lemma init_traj_counters [simp]:
  "tr_n (init_traj eigh momentum mass d) = 0" "tr_draw (init_traj eigh momentum mass d) = d"
  "tr_p (init_traj eigh momentum mass d) = -9.9999"
  by (simp_all add: init_traj_def Let_def split_def)

lemma fssh_step_inv:
  assumes "tr_nstate s \<in> {1, 2}"
  shows "traj_inv eigh (fssh_step eigh rnd mass t_step s)"
  using assms
  by (simp add: traj_inv_def fssh_step_def Let_def split_def VelocityVerlet_parts SAC_force_def
      HoppingProbability_cases)

lemma reach_valid:
  assumes "reach eigh rnd mass t_step PMin PMax (init_traj eigh momentum mass d) s"
  shows "traj_inv eigh s \<and> tr_n s \<le> 1038 \<and> tr_draw s = d + tr_n s"
  using assms
proof (induction rule: reach.induct)
  case reach_start
  then show ?case by (simp add: init_traj_inv)
next
  case (reach_step s)
  then have "tr_nstate s \<in> {1, 2}" by (simp add: traj_inv_def)
  then have "traj_inv eigh (fssh_step eigh rnd mass t_step s)" by (rule fssh_step_inv)
  with reach_step show ?case by simp
qed

lemma fssh_step_stages:
  "fssh_step eigh rnd mass t_step s = verlet_stage eigh mass t_step (hop_stage rnd mass t_step s)"
  by (simp add: fssh_step_def hop_stage_def verlet_stage_def Let_def split_def)

lemma propagate_reach:
  assumes "propagate eigh rnd mass t_step PMin PMax s = Some y"
    and "reach eigh rnd mass t_step PMin PMax s0 s" and "tr_n s \<noteq> 1038"
  shows "reach eigh rnd mass t_step PMin PMax s0 y"
proof -
  have "\<forall>s0. reach eigh rnd mass t_step PMin PMax s0 s \<longrightarrow> tr_n s \<noteq> 1038 \<longrightarrow>
          reach eigh rnd mass t_step PMin PMax s0 y"
  proof (rule propagate.raw_induct [where P = "\<lambda>e r m t a b s y. \<forall>s0. reach e r m t a b s0 s \<longrightarrow>
      tr_n s \<noteq> 1038 \<longrightarrow> reach e r m t a b s0 y"])
    fix f e r m t a b s y
    assume IH: "\<And>e r m t a b s y. f e r m t a b s = Some y \<Longrightarrow>
        \<forall>s0. reach e r m t a b s0 s \<longrightarrow> tr_n s \<noteq> 1038 \<longrightarrow> reach e r m t a b s0 y"
      and eq: "(if a < tr_p s \<and> tr_p s < b then
          if tr_n (fssh_step e r m t s) = 1038 then Some (fssh_step e r m t s)
          else f e r m t a b (fssh_step e r m t s) else Some s) = Some y"
    show "\<forall>s0. reach e r m t a b s0 s \<longrightarrow> tr_n s \<noteq> 1038 \<longrightarrow> reach e r m t a b s0 y"
    proof (intro allI impI)
      fix s0
      assume R: "reach e r m t a b s0 s" and N: "tr_n s \<noteq> 1038"
      show "reach e r m t a b s0 y"
      proof (cases "a < tr_p s \<and> tr_p s < b")
        case False
        with eq R show ?thesis by simp
      next
        case dom: True
        with R N have R1: "reach e r m t a b s0 (fssh_step e r m t s)" by (simp add: reach_step)
        show ?thesis
        proof (cases "tr_n (fssh_step e r m t s) = 1038")
          case True
          with dom eq R1 show ?thesis by simp
        next
          case False
          with dom eq have "f e r m t a b (fssh_step e r m t s) = Some y" by simp
          from IH [OF this] R1 False show ?thesis by blast
        qed
      qed
    qed
  next
    show "propagate eigh rnd mass t_step PMin PMax s = Some y" by (rule assms(1))
  qed
  with assms(2,3) show ?thesis by blast
qed

lemma propagate_init:
  "\<exists>s'. propagate eigh rnd mass t_step PMin PMax (init_traj eigh momentum mass d) = Some s' \<and>
     traj_inv eigh s' \<and> tr_n s' \<le> 1038 \<and> tr_draw s' = d + tr_n s' \<and>
     (tr_n s' = 1038 \<or> \<not> (PMin < tr_p s' \<and> tr_p s' < PMax))"
proof -
  obtain s' where r: "propagate eigh rnd mass t_step PMin PMax (init_traj eigh momentum mass d) = Some s'"
    and e: "tr_n s' = 1038 \<or> \<not> (PMin < tr_p s' \<and> tr_p s' < PMax)"
    using propagate_returns [of "init_traj eigh momentum mass d" eigh rnd mass t_step PMin PMax] by auto
  have "reach eigh rnd mass t_step PMin PMax (init_traj eigh momentum mass d) s'"
    by (rule propagate_reach [OF r reach_start]) simp
  then have "traj_inv eigh s' \<and> tr_n s' \<le> 1038 \<and> tr_draw s' = d + tr_n s'" by (rule reach_valid)
  with r e show ?thesis by blast
qed

lemma halted_final:
  assumes "reach eigh rnd mass t_step PMin PMax s s'" and "halted PMin PMax s"
  shows "s' = s"
  using assms by (induction rule: reach.induct) (auto simp: halted_def)

lemma reach_halts:
  assumes "reach eigh rnd mass t_step PMin PMax (init_traj eigh momentum mass d) s"
  shows "\<exists>s'. reach eigh rnd mass t_step PMin PMax s s' \<and> halted PMin PMax s' \<and> tr_n s' \<le> 1038"
proof (cases "halted PMin PMax s")
  case True
  moreover have "tr_n s \<le> 1038" using reach_valid [OF assms] by simp
  ultimately show ?thesis using reach_start by blast
next
  case False
  then have dom: "PMin < tr_p s \<and> tr_p s < PMax" and ne: "tr_n s \<noteq> 1038"
    by (simp_all add: halted_def)
  then have "tr_n s < 1038" using reach_valid [OF assms] by simp
  then obtain s' where r: "propagate eigh rnd mass t_step PMin PMax s = Some s'" and
    b: "tr_n s' \<le> 1038" and e: "tr_n s' = 1038 \<or> \<not> (PMin < tr_p s' \<and> tr_p s' < PMax)"
    using propagate_returns by blast
  have "reach eigh rnd mass t_step PMin PMax s s'"
    by (rule propagate_reach [OF r reach_start ne])
  with b e show ?thesis by (auto simp: halted_def)
qed

lemma Calc_dij_force_SAC_facts:
  assumes "\<forall>V. symmetric2 V \<longrightarrow> eigh_spec V (eigh V)"
  shows "v0 (fst (Calc_dij_force eigh (fst (Potenial_SAC x)) (snd (Potenial_SAC x))))
           < v1 (fst (Calc_dij_force eigh (fst (Potenial_SAC x)) (snd (Potenial_SAC x))))"
proof -
  have sym: "symmetric2 (fst (Potenial_SAC x))" by (rule potential_values_symmetric) simp
  obtain e U where r: "eigh (fst (Potenial_SAC x)) = (e, U)" by fastforce
  with assms sym have "eigh_spec (fst (Potenial_SAC x)) (e, U)" by auto
  moreover have "m01 (fst (Potenial_SAC x)) \<noteq> 0"
    using potential_coupling_pos [of Potenial_SAC x] by simp
  ultimately have "v0 e < v1 e" by (rule eigh_spec_gap_pos)
  with r show ?thesis by (simp add: Calc_dij_force_def Let_def)
qed

lemma reach_Eig_ascending:
  assumes "\<forall>V. symmetric2 V \<longrightarrow> eigh_spec V (eigh V)"
    and "reach eigh rnd mass t_step PMin PMax (init_traj eigh momentum mass d) s"
  shows "v0 (tr_Eig s) < v1 (tr_Eig s)"
proof -
  have "traj_inv eigh s" using reach_valid [OF assms(2)] by blast
  then have "(tr_Eig s, tr_dij s, tr_force s) =
      Calc_dij_force eigh (fst (Potenial_SAC (tr_p s))) (snd (Potenial_SAC (tr_p s)))"
    by (simp add: traj_inv_def)
  then show ?thesis using Calc_dij_force_SAC_facts [OF assms(1), of "tr_p s"] by (metis fst_conv)
qed

lemma SAC_left_coeff_bound:
  assumes contract: "\<forall>V. symmetric2 V \<longrightarrow> eigh_spec V (eigh V)"
    and p: "p \<le> -1" and R: "\<bar>R_dot\<bar> \<le> 1/100"
  shows "coeff_bound R_dot (fst (Calc_dij_force eigh (fst (Potenial_SAC p)) (snd (Potenial_SAC p))))
           (fst (snd (Calc_dij_force eigh (fst (Potenial_SAC p)) (snd (Potenial_SAC p))))) \<le> 1/100"
proof -
  let ?V = "fst (Potenial_SAC p)" and ?W = "snd (Potenial_SAC p)"
  obtain e U where r: "eigh ?V = (e, U)" by fastforce
  have spec: "eigh_spec ?V (e, U)" using eigh_contract_at [OF contract, of Potenial_SAC p] r by simp
  note B = SAC_left_bounds [OF p]
  note G = SAC_left_gap [OF spec p]
  have E: "(v0 e)\<^sup>2 + (v1 e)\<^sup>2 \<le> 1/4000" by (rule G(2))
  have gap: "1/100 \<le> \<bar>v0 e - v1 e\<bar>" using G(1) by simp
  have M: "\<bar>m01 (mmul (mmul U ?W) U)\<bar> \<le> 13/250"
    using sandwich_bound [OF eigh_spec_unit_entries [OF spec], of ?W] B(3) by linarith
  define d where "d = m01 (mmul (mmul U ?W) U) / (v0 e - v1 e)"
  have "\<bar>d\<bar> = \<bar>m01 (mmul (mmul U ?W) U)\<bar> / \<bar>v0 e - v1 e\<bar>" by (simp add: d_def abs_divide)
  also have "\<dots> \<le> (13/250) / (1/100)"
    using M gap by (intro frac_le) simp_all
  finally have "\<bar>d\<bar> \<le> 26/5" by simp
  then have D: "d\<^sup>2 \<le> 676/25" using power_mono [of "\<bar>d\<bar>" "26/5" 2] by (simp add: power_divide)
  have "R_dot\<^sup>2 \<le> (1/100)\<^sup>2" using power_mono [OF R, of 2] by simp
  then have "R_dot\<^sup>2 * (d\<^sup>2 + d\<^sup>2) \<le> (1/100)\<^sup>2 * (676/25 + 676/25)"
    using D by (intro mult_mono) simp_all
  moreover have c: "Calc_dij_force eigh ?V ?W =
      (e, \<lparr>m00 = 0, m01 = d, m10 = -1.0 * d, m11 = 0\<rparr>,
       \<lparr>v0 = -1.0 * m00 (mmul (mmul U ?W) U), v1 = -1.0 * m11 (mmul (mmul U ?W) U)\<rparr>)"
    by (simp add: Calc_dij_force_def r d_def Let_def)
  ultimately show ?thesis using E by (simp add: coeff_bound_def power_divide)
qed

lemma fssh_step_draw_cong:
  "rnd (tr_draw s) = rnd' (tr_draw s) \<Longrightarrow> fssh_step eigh rnd mass t_step s = fssh_step eigh rnd' mass t_step s"
  by (simp add: fssh_step_def)

lemma propagate_draws:
  assumes "tr_n s < 1038"
    and "\<forall>i. tr_draw s \<le> i \<and> i < tr_draw s + (1038 - tr_n s) \<longrightarrow> rnd i = rnd' i"
  shows "propagate eigh rnd mass t_step PMin PMax s = propagate eigh rnd' mass t_step PMin PMax s"
  using assms
proof (induction "1038 - tr_n s" arbitrary: s rule: less_induct)
  case less
  note u = propagate.simps [of eigh rnd mass t_step PMin PMax s]
  note u' = propagate.simps [of eigh rnd' mass t_step PMin PMax s]
  have st: "fssh_step eigh rnd mass t_step s = fssh_step eigh rnd' mass t_step s"
    using less.prems by (intro fssh_step_draw_cong) simp
  let ?s1 = "fssh_step eigh rnd' mass t_step s"
  show ?case
  proof (cases "PMin < tr_p s \<and> tr_p s < PMax")
    case False
    then show ?thesis by (simp only: u u' if_False)
  next
    case dom: True
    show ?thesis
    proof (cases "tr_n ?s1 = 1038")
      case True
      with dom st show ?thesis by (simp only: u u' if_True simp_thms)
    next
      case False
      then have n1: "tr_n ?s1 < 1038" using less.prems by simp
      have "propagate eigh rnd mass t_step PMin PMax ?s1 = propagate eigh rnd' mass t_step PMin PMax ?s1"
        using less.prems n1 by (intro less.hyps) auto
      with dom False st show ?thesis by (simp only: u u' if_True if_False simp_thms)
    qed
  qed
qed

subsection \<open>Properties of the trajectory loop\<close>

text \<open>C1: every trajectory \<open>main\<close> starts returns: from the initial state the loop ends
  after at most 1038 steps, either because the particle left \<open>(PMin, PMax)\<close> or at the
  step ceiling; its final state keeps the active state in \<open>{1, 2}\<close> and the stored \<open>V\<close>,
  \<open>Eig\<close>, \<open>dij\<close>, \<open>force\<close> equal to the transform at the final position, and it has taken
  exactly one random draw per step.\<close>

theorem trajectory_terminates:
  "\<exists>s'. propagate eigh rnd mass t_step PMin PMax (init_traj eigh momentum mass d) = Some s' \<and>
     traj_inv eigh s' \<and> tr_n s' \<le> 1038 \<and> tr_draw s' = d + tr_n s' \<and>
     (tr_n s' = 1038 \<or> \<not> (PMin < tr_p s' \<and> tr_p s' < PMax))"
  by (rule propagate_init)

text \<open>C9: in every state the loop reaches from the initial state (for an \<open>eigh\<close> meeting
  its contract on symmetric matrices), the active state is 1 or 2, at most 1038 steps and
  as many draws were taken, the stored eigenvalues are strictly ordered, the stored
  coupling is antisymmetric and the stored force is the SAC force at the current position.\<close>

theorem reachable_state_valid:
  assumes "\<forall>V. symmetric2 V \<longrightarrow> eigh_spec V (eigh V)"
    and "reach eigh rnd mass t_step PMin PMax (init_traj eigh momentum mass d) s"
  shows "tr_nstate s \<in> {1, 2} \<and> tr_n s \<le> 1038 \<and> tr_draw s = d + tr_n s \<and>
         v0 (tr_Eig s) < v1 (tr_Eig s) \<and> antisymmetric2 (tr_dij s) \<and>
         tr_force s = SAC_force eigh (tr_p s)"
proof -
  have v: "traj_inv eigh s \<and> tr_n s \<le> 1038 \<and> tr_draw s = d + tr_n s"
    using assms(2) by (rule reach_valid)
  then have c: "(tr_Eig s, tr_dij s, tr_force s) =
      Calc_dij_force eigh (fst (Potenial_SAC (tr_p s))) (snd (Potenial_SAC (tr_p s)))"
    by (simp add: traj_inv_def)
  have "v0 (tr_Eig s) < v1 (tr_Eig s)" by (rule reach_Eig_ascending [OF assms])
  moreover have "antisymmetric2 (tr_dij s)"
    using c by (auto simp: Calc_dij_force_def Let_def antisymmetric2_def split: prod.splits)
  moreover have "tr_force s = SAC_force eigh (tr_p s)"
    using c by (metis SAC_force_def snd_conv)
  ultimately show ?thesis using v by (simp add: traj_inv_def)
qed

theorem reachable_state_valid_witness:
  "reach eigh_reflect (\<lambda>_. 0) 2000 1 (-10) 10 (init_traj eigh_reflect 20 2000 0) (init_traj eigh_reflect 20 2000 0) \<and>
   v0 (tr_Eig (init_traj eigh_reflect 20 2000 0)) < v1 (tr_Eig (init_traj eigh_reflect 20 2000 0))"
proof -
  have e: "\<forall>V. symmetric2 V \<longrightarrow> eigh_spec V (eigh_reflect V)" by (simp add: eigh_reflect_spec)
  have r: "reach eigh_reflect (\<lambda>_. 0) 2000 1 (-10) 10 (init_traj eigh_reflect 20 2000 0) (init_traj eigh_reflect 20 2000 0)"
    by (rule reach_start)
  show ?thesis using reachable_state_valid [OF e r] r by simp
qed

text \<open>C11: the order of the loop body and the energy of the hop. One pass of the loop is
  the hop stage (RK4 on the amplitudes, then \<open>HoppingProbability\<close> with one random draw)
  followed by the integrator stage (\<open>VelocityVerlet\<close> on the surface the hop chose), and
  in every state the loop reaches (for an \<open>eigh\<close> meeting its contract, a positive mass
  and a draw \<open>\<ge> 0\<close>) the hop stage leaves the total energy
  \<open>\<onehalf> mass R_dot\<^sup>2 + Eig[nstate-1]\<close>, measured with the adiabatic energies the previous
  integrator call stored for the current position, unchanged: any energy change of a pass
  comes from the integrator alone.\<close>

theorem fssh_step_hop_then_verlet:
  assumes "\<forall>V. symmetric2 V \<longrightarrow> eigh_spec V (eigh V)"
    and "reach eigh rnd mass t_step PMin PMax (init_traj eigh momentum mass d) s"
    and "0 < mass" and "0 \<le> rnd (tr_draw s)"
  shows "fssh_step eigh rnd mass t_step s = verlet_stage eigh mass t_step (hop_stage rnd mass t_step s) \<and>
         traj_energy mass (hop_stage rnd mass t_step s) = traj_energy mass s"
proof -
  obtain ns v where h: "HoppingProbability (tr_R_dot s) (tr_nstate s)
      (Fourth_RungeKutta (tr_R_dot s) (tr_cstate s) (tr_Eig s) (tr_dij s) t_step) mass
      (tr_Eig s) (tr_dij s) t_step (rnd (tr_draw s)) = (ns, v)" by fastforce
  have a: "v0 (tr_Eig s) \<le> v1 (tr_Eig s)" using reach_Eig_ascending [OF assms(1,2)] by simp
  have "0.5 * mass * v\<^sup>2 + sel (tr_Eig s) ns = 0.5 * mass * (tr_R_dot s)\<^sup>2 + sel (tr_Eig s) (tr_nstate s)"
    by (rule hop_energy_conserved [OF h a assms(3,4)])
  then have "traj_energy mass (hop_stage rnd mass t_step s) = traj_energy mass s"
    using h by (simp add: traj_energy_def hop_stage_def Let_def)
  with fssh_step_stages show ?thesis by blast
qed

theorem fssh_step_hop_then_verlet_witness:
  "reach eigh_reflect (\<lambda>_. 0) 2000 1 (-10) 10 (init_traj eigh_reflect 20 2000 0) (init_traj eigh_reflect 20 2000 0) \<and>
   traj_energy 2000 (hop_stage (\<lambda>_. 0) 2000 1 (init_traj eigh_reflect 20 2000 0)) =
     traj_energy 2000 (init_traj eigh_reflect 20 2000 0)"
proof -
  have e: "\<forall>V. symmetric2 V \<longrightarrow> eigh_spec V (eigh_reflect V)" by (simp add: eigh_reflect_spec)
  have r: "reach eigh_reflect (\<lambda>_. 0) 2000 1 (-10) 10 (init_traj eigh_reflect 20 2000 0) (init_traj eigh_reflect 20 2000 0)"
    by (rule reach_start)
  show ?thesis using fssh_step_hop_then_verlet [OF e r] r by simp
qed

text \<open>C15: while the particle is in the incoming region \<open>p \<le> -1\<close> of the SAC model with
  speed at most \<open>1/100\<close> (the speed \<open>main\<close> starts with: momentum 20, mass 2000), each pass
  of the loop with \<open>t_step = 1\<close> changes the squared norm of the amplitudes by a factor
  within \<open>1 \<plusminus> 10\<^sup>-\<^sup>7\<close>, for every reachable state and every eigensolver meeting the contract.\<close>

theorem incoming_step_norm:
  assumes "\<forall>V. symmetric2 V \<longrightarrow> eigh_spec V (eigh V)"
    and "reach eigh rnd mass 1 PMin PMax (init_traj eigh momentum mass d) s"
    and "tr_p s \<le> -1" and "\<bar>tr_R_dot s\<bar> \<le> 1/100"
  shows "(1 - 1/10^7) * cnorm2 (tr_cstate s) \<le> cnorm2 (tr_cstate (fssh_step eigh rnd mass 1 s)) \<and>
         cnorm2 (tr_cstate (fssh_step eigh rnd mass 1 s)) \<le> (1 + 1/10^7) * cnorm2 (tr_cstate s)"
proof -
  have c: "(tr_Eig s, tr_dij s, tr_force s) =
      Calc_dij_force eigh (fst (Potenial_SAC (tr_p s))) (snd (Potenial_SAC (tr_p s)))"
    using reach_valid [OF assms(2)] by (simp add: traj_inv_def)
  have k: "coeff_bound (tr_R_dot s) (tr_Eig s) (tr_dij s) \<le> 1/100"
    using SAC_left_coeff_bound [OF assms(1,3,4)] c by (metis fst_conv snd_conv)
  have a: "m10 (tr_dij s) = - m01 (tr_dij s)"
    using Calc_dij_force_cells(4) c by (metis fst_conv snd_conv)
  have "tr_cstate (fssh_step eigh rnd mass 1 s) =
      Fourth_RungeKutta (tr_R_dot s) (tr_cstate s) (tr_Eig s) (tr_dij s) 1"
    by (simp add: fssh_step_def Let_def split_def)
  then show ?thesis using rk4_step_near_unitary [OF a k] by simp
qed

theorem incoming_step_norm_witness:
  "(1 - 1/10^7) * cnorm2 (tr_cstate (init_traj eigh_reflect 20 2000 0))
     \<le> cnorm2 (tr_cstate (fssh_step eigh_reflect (\<lambda>_. 0) 2000 1 (init_traj eigh_reflect 20 2000 0)))"
proof -
  have "tr_p (init_traj eigh_reflect 20 2000 0) \<le> -1" by simp
  moreover have "\<bar>tr_R_dot (init_traj eigh_reflect 20 2000 0)\<bar> \<le> 1/100"
    by (simp add: init_traj_def Let_def split_def)
  ultimately show ?thesis
    using incoming_step_norm [OF eigh_reflect_contract reach_start [of eigh_reflect "\<lambda>_. 0" 2000 1 "-10" 10
        "init_traj eigh_reflect 20 2000 0"]] by blast
qed

text \<open>C16: the frustrated-hop rule inside the loop. A particle in state 1 whose kinetic
  energy does not exceed the gap of the adiabatic energies stored by the previous step stays
  in state 1 through one pass of the loop, whatever the propagated amplitudes and the random
  draw: the hop decision reads the stored \<open>Eig\<close> and the velocity before the integrator.\<close>

theorem fssh_step_frustrated:
  assumes "tr_nstate s = 1" and "0.5 * mass * (tr_R_dot s)\<^sup>2 \<le> v1 (tr_Eig s) - v0 (tr_Eig s)"
  shows "tr_nstate (fssh_step eigh rnd mass t_step s) = 1"
  using assms by (simp add: fssh_step_def Let_def split_def HoppingProbability_cases VelocityVerlet_parts)

theorem fssh_step_frustrated_witness:
  "tr_nstate (fssh_step eigh_reflect (\<lambda>_. 0) 2000 1 (init_traj eigh_reflect 1 2000 0)) = 1"
proof -
  let ?V = "fst (Potenial_SAC (-9.9999))"
  have spec: "eigh_spec ?V (fst (eigh_reflect ?V), snd (eigh_reflect ?V))"
    using eigh_contract_at [OF eigh_reflect_contract, of Potenial_SAC "-9.9999"] by simp
  have g: "1/100 \<le> v1 (fst (eigh_reflect ?V)) - v0 (fst (eigh_reflect ?V))"
    by (rule SAC_left_gap(1) [OF spec]) simp
  have e: "tr_Eig (init_traj eigh_reflect 1 2000 0) = fst (eigh_reflect ?V)"
    and r: "tr_R_dot (init_traj eigh_reflect 1 2000 0) = 1 / 2000"
    and n: "tr_nstate (init_traj eigh_reflect 1 2000 0) = 1"
    by (simp_all add: init_traj_def Let_def split_def Calc_dij_force_cells)
  have "0.5 * 2000 * (tr_R_dot (init_traj eigh_reflect 1 2000 0))\<^sup>2
      \<le> v1 (tr_Eig (init_traj eigh_reflect 1 2000 0)) - v0 (tr_Eig (init_traj eigh_reflect 1 2000 0))"
    using g unfolding e r by (simp add: power2_eq_square)
  with n show ?thesis by (rule fssh_step_frustrated)
qed

end
