(* ===== verification/Ensemble.thy ===== *)
theory Ensemble
  imports Trajectory
begin

text \<open>
  The outcome statistics of \<open>main\<close> in \<open>src/FSSH.py/run/FSSH.py\<close>: the four bucket
  counters \<open>j\<close>, \<open>k\<close> as \<open>counts\<close>, the classification \<open>classify\<close> of a finished
  trajectory, the loop over \<open>ntraj\<close> trajectories \<open>ensemble\<close> (each trajectory starts
  at the draw index the previous one left), the division \<open>probabilities\<close>, the loop over
  momenta \<open>sweep\<close> and the whole program \<open>fssh_main\<close>. \<open>outcomes\<close> lists the final
  states of an ensemble, the abstract view of what it counts. The lemmas show that every
  run returns, how the counts relate to the trajectories, the bounds on the probabilities,
  and which random draws a run reads.
\<close>

type_synonym counts = "(nat \<times> nat) \<times> (nat \<times> nat)"

definition classify :: "traj \<Rightarrow> counts \<Rightarrow> counts" where
  "classify s c =
     (let ((j0, j1), (k0, k1)) = c
      in if tr_nstate s = 1
         then ((if tr_p s < 0 then j0 + 1 else j0, if tr_p s > 0 then j1 + 1 else j1), (k0, k1))
         else ((j0, j1), (if tr_p s < 0 then k0 + 1 else k0, if tr_p s > 0 then k1 + 1 else k1)))"

fun ensemble ::
  "(rmat \<Rightarrow> rvec \<times> rmat) \<Rightarrow> (nat \<Rightarrow> real) \<Rightarrow> real \<Rightarrow> real \<Rightarrow> real \<Rightarrow> real \<Rightarrow> real \<Rightarrow>
   nat \<Rightarrow> nat \<Rightarrow> counts \<Rightarrow> (counts \<times> nat) option"
where
  "ensemble eigh rnd mass t_step PMin PMax momentum 0 d c = Some (c, d)"
| "ensemble eigh rnd mass t_step PMin PMax momentum (Suc k) d c =
     (case propagate eigh rnd mass t_step PMin PMax (init_traj eigh momentum mass d) of
        None \<Rightarrow> None
      | Some s \<Rightarrow> ensemble eigh rnd mass t_step PMin PMax momentum k (tr_draw s) (classify s c))"

definition probabilities :: "nat \<Rightarrow> counts \<Rightarrow> py_error + real \<times> real \<times> real" where
  "probabilities ntraj c =
     (let ((j0, j1), (k0, k1)) = c
      in if ntraj = 0 then Inl ZeroDivisionError
         else Inr (real j1 / real ntraj, real j0 / real ntraj, real k1 / real ntraj))"

fun sweep ::
  "(rmat \<Rightarrow> rvec \<times> rmat) \<Rightarrow> (nat \<Rightarrow> real) \<Rightarrow> nat \<Rightarrow> real list \<Rightarrow> nat \<Rightarrow>
   (real \<times> (py_error + real \<times> real \<times> real)) list option"
where
  "sweep eigh rnd ntraj [] d = Some []"
| "sweep eigh rnd ntraj (momentum # ms) d =
     (case ensemble eigh rnd 2000 1 (-10) 10 momentum ntraj d ((0, 0), (0, 0)) of
        None \<Rightarrow> None
      | Some (c, d') \<Rightarrow> map_option (\<lambda>r. (momentum, probabilities ntraj c) # r) (sweep eigh rnd ntraj ms d'))"

definition fssh_main :: "(rmat \<Rightarrow> rvec \<times> rmat) \<Rightarrow> (nat \<Rightarrow> real) \<Rightarrow>
    (real \<times> (py_error + real \<times> real \<times> real)) list option" where
  "fssh_main eigh rnd = sweep eigh rnd 1 [20] 0"

definition count_total :: "counts \<Rightarrow> nat" where
  "count_total c = (let ((j0, j1), (k0, k1)) = c in j0 + j1 + k0 + k1)"

fun outcomes ::
  "(rmat \<Rightarrow> rvec \<times> rmat) \<Rightarrow> (nat \<Rightarrow> real) \<Rightarrow> real \<Rightarrow> real \<Rightarrow> real \<Rightarrow> real \<Rightarrow> real \<Rightarrow>
   nat \<Rightarrow> nat \<Rightarrow> (traj list \<times> nat) option"
where
  "outcomes eigh rnd mass t_step PMin PMax momentum 0 d = Some ([], d)"
| "outcomes eigh rnd mass t_step PMin PMax momentum (Suc k) d =
     (case propagate eigh rnd mass t_step PMin PMax (init_traj eigh momentum mass d) of
        None \<Rightarrow> None
      | Some s \<Rightarrow> map_option (\<lambda>(ss, d'). (s # ss, d'))
                   (outcomes eigh rnd mass t_step PMin PMax momentum k (tr_draw s)))"

lemma classify_total_le: "count_total (classify s c) \<le> count_total c + 1"
  by (cases c) (auto simp: classify_def count_total_def)

lemma ensemble_returns:
  "\<exists>c' d'. ensemble eigh rnd mass t_step PMin PMax momentum k d c = Some (c', d') \<and>
      count_total c' \<le> count_total c + k"
proof (induction k arbitrary: d c)
  case 0
  then show ?case by simp
next
  case (Suc k)
  obtain s where s: "propagate eigh rnd mass t_step PMin PMax (init_traj eigh momentum mass d) = Some s"
    using propagate_init by blast
  obtain c' d' where e: "ensemble eigh rnd mass t_step PMin PMax momentum k (tr_draw s) (classify s c) = Some (c', d')"
    and b: "count_total c' \<le> count_total (classify s c) + k"
    using Suc.IH by blast
  have "count_total (classify s c) \<le> count_total c + 1" by (rule classify_total_le)
  with s e b show ?case by auto
qed

lemma sweep_returns: "\<exists>r. sweep eigh rnd ntraj ms d = Some r \<and> length r = length ms"
proof (induction ms arbitrary: d)
  case Nil
  then show ?case by simp
next
  case (Cons m ms)
  obtain c d' where e: "ensemble eigh rnd 2000 1 (-10) 10 m ntraj d ((0, 0), (0, 0)) = Some (c, d')"
    using ensemble_returns by blast
  obtain r where "sweep eigh rnd ntraj ms d' = Some r \<and> length r = length ms" using Cons.IH by blast
  with e show ?case by simp
qed

lemma probabilities_bounded:
  assumes "0 < ntraj" and "count_total c \<le> ntraj"
  shows "\<exists>a b k. probabilities ntraj c = Inr (a, b, k) \<and> 0 \<le> a \<and> 0 \<le> b \<and> 0 \<le> k \<and> a + b + k \<le> 1"
proof -
  obtain j0 j1 k0 k1 where c: "c = ((j0, j1), (k0, k1))" by (cases c) auto
  have "real j1 + real j0 + real k1 \<le> real ntraj"
    using assms(2) by (simp add: c count_total_def)
  then have "real j1 / real ntraj + real j0 / real ntraj + real k1 / real ntraj \<le> 1"
    using assms(1) by (simp add: add_divide_distrib [symmetric])
  then show ?thesis using assms(1) by (simp add: c probabilities_def)
qed

lemma sweep_bounded:
  assumes "0 < ntraj"
  shows "\<exists>r. sweep eigh rnd ntraj ms d = Some r \<and> map fst r = ms \<and>
     list_all (\<lambda>(m, pr). \<exists>a b k. pr = Inr (a, b, k) \<and> 0 \<le> a \<and> 0 \<le> b \<and> 0 \<le> k \<and> a + b + k \<le> 1) r"
proof (induction ms arbitrary: d)
  case Nil
  then show ?case by simp
next
  case (Cons m ms)
  obtain c d' where e: "ensemble eigh rnd 2000 1 (-10) 10 m ntraj d ((0, 0), (0, 0)) = Some (c, d')"
    and t: "count_total c \<le> ntraj"
    using ensemble_returns [of eigh rnd 2000 1 "-10" 10 m ntraj d "((0, 0), (0, 0))"]
    by (auto simp: count_total_def)
  obtain r where "sweep eigh rnd ntraj ms d' = Some r \<and> map fst r = ms \<and>
     list_all (\<lambda>(m, pr). \<exists>a b k. pr = Inr (a, b, k) \<and> 0 \<le> a \<and> 0 \<le> b \<and> 0 \<le> k \<and> a + b + k \<le> 1) r"
    using Cons.IH by blast
  with e probabilities_bounded [OF assms t] show ?case by auto
qed

lemma ensemble_draws:
  assumes "\<forall>i. d \<le> i \<and> i < d + 1038 * k \<longrightarrow> rnd i = rnd' i"
  shows "ensemble eigh rnd mass t_step PMin PMax momentum k d c = ensemble eigh rnd' mass t_step PMin PMax momentum k d c"
  using assms
proof (induction k arbitrary: d c)
  case 0
  then show ?case by simp
next
  case (Suc k)
  have p: "propagate eigh rnd mass t_step PMin PMax (init_traj eigh momentum mass d) =
      propagate eigh rnd' mass t_step PMin PMax (init_traj eigh momentum mass d)"
    using Suc.prems by (intro propagate_draws) auto
  obtain s where s: "propagate eigh rnd' mass t_step PMin PMax (init_traj eigh momentum mass d) = Some s"
    and b: "tr_n s \<le> 1038" "tr_draw s = d + tr_n s"
    using propagate_init by blast
  have "ensemble eigh rnd mass t_step PMin PMax momentum k (tr_draw s) (classify s c) =
      ensemble eigh rnd' mass t_step PMin PMax momentum k (tr_draw s) (classify s c)"
    using Suc.prems b by (intro Suc.IH) auto
  with p s show ?case by simp
qed

lemma ensemble_draw_range:
  assumes "ensemble eigh rnd mass t_step PMin PMax momentum k d c = Some (c', d')"
  shows "d \<le> d' \<and> d' \<le> d + 1038 * k"
  using assms
proof (induction k arbitrary: d c)
  case 0
  then show ?case by simp
next
  case (Suc k)
  obtain s where s: "propagate eigh rnd mass t_step PMin PMax (init_traj eigh momentum mass d) = Some s"
    and b: "tr_n s \<le> 1038" "tr_draw s = d + tr_n s"
    using propagate_init by blast
  have "ensemble eigh rnd mass t_step PMin PMax momentum k (tr_draw s) (classify s c) = Some (c', d')"
    using Suc.prems s by simp
  then have "tr_draw s \<le> d' \<and> d' \<le> tr_draw s + 1038 * k" by (rule Suc.IH)
  with b show ?case by simp
qed

lemma sweep_draws:
  assumes "\<forall>i. d \<le> i \<and> i < d + 1038 * ntraj * length ms \<longrightarrow> rnd i = rnd' i"
  shows "sweep eigh rnd ntraj ms d = sweep eigh rnd' ntraj ms d"
  using assms
proof (induction ms arbitrary: d)
  case Nil
  then show ?case by simp
next
  case (Cons m ms)
  have e: "ensemble eigh rnd 2000 1 (-10) 10 m ntraj d ((0, 0), (0, 0)) =
      ensemble eigh rnd' 2000 1 (-10) 10 m ntraj d ((0, 0), (0, 0))"
    using Cons.prems by (intro ensemble_draws) auto
  obtain c d' where r: "ensemble eigh rnd' 2000 1 (-10) 10 m ntraj d ((0, 0), (0, 0)) = Some (c, d')"
    using ensemble_returns by blast
  have "d \<le> d' \<and> d' \<le> d + 1038 * ntraj" by (rule ensemble_draw_range [OF r])
  then have "sweep eigh rnd ntraj ms d' = sweep eigh rnd' ntraj ms d'"
    using Cons.prems by (intro Cons.IH) (auto simp: algebra_simps)
  with e r show ?case by simp
qed

lemma ensemble_outcomes:
  "\<exists>ss d'. outcomes eigh rnd mass t_step PMin PMax momentum k d = Some (ss, d') \<and> length ss = k \<and>
     list_all (halted PMin PMax) ss \<and>
     ensemble eigh rnd mass t_step PMin PMax momentum k d c = Some (fold classify ss c, d') \<and>
     count_total (fold classify ss c) = count_total c + length (filter (\<lambda>s. tr_p s \<noteq> 0) ss)"
proof (induction k arbitrary: d c)
  case 0
  then show ?case by simp
next
  case (Suc k)
  obtain s where s: "propagate eigh rnd mass t_step PMin PMax (init_traj eigh momentum mass d) = Some s"
    and h: "tr_n s = 1038 \<or> \<not> (PMin < tr_p s \<and> tr_p s < PMax)"
    using propagate_init by blast
  obtain ss d' where o: "outcomes eigh rnd mass t_step PMin PMax momentum k (tr_draw s) = Some (ss, d')"
    and l: "length ss = k" "list_all (halted PMin PMax) ss"
    and e: "ensemble eigh rnd mass t_step PMin PMax momentum k (tr_draw s) (classify s c) =
              Some (fold classify ss (classify s c), d')"
    and t: "count_total (fold classify ss (classify s c)) =
              count_total (classify s c) + length (filter (\<lambda>s. tr_p s \<noteq> 0) ss)"
    using Suc.IH [of "tr_draw s" "classify s c"] by blast
  have "count_total (classify s c) = count_total c + (if tr_p s = 0 then 0 else 1)"
    by (cases c) (auto simp: classify_def count_total_def)
  moreover have "halted PMin PMax s" using h by (auto simp: halted_def)
  ultimately show ?case using s o l e t by simp
qed

subsection \<open>Properties of the outcome statistics\<close>

text \<open>C28: the ensemble is the fold of \<open>classify\<close> over the list \<open>outcomes\<close> of its
  \<open>ntraj\<close> independent trajectories, each run from the draw index the previous one left,
  every one of them halted; its bucket counts add up to exactly the number of trajectories
  that did not end at \<open>p = 0\<close>, those stopped by the step ceiling included.\<close>

theorem ensemble_is_fold_of_outcomes:
  "\<exists>ss d'. outcomes eigh rnd mass t_step PMin PMax momentum ntraj d = Some (ss, d') \<and>
     length ss = ntraj \<and> list_all (halted PMin PMax) ss \<and>
     ensemble eigh rnd mass t_step PMin PMax momentum ntraj d ((0, 0), (0, 0)) =
       Some (fold classify ss ((0, 0), (0, 0)), d') \<and>
     count_total (fold classify ss ((0, 0), (0, 0))) = length (filter (\<lambda>s. tr_p s \<noteq> 0) ss)"
  using ensemble_outcomes [of eigh rnd mass t_step PMin PMax momentum ntraj d "((0, 0), (0, 0))"]
  by (simp add: count_total_def)

text \<open>C29: \<open>classify\<close> adds one to exactly one bucket, except for a trajectory that ends
  exactly at \<open>p = 0\<close>, which is dropped without being reported (neither \<open>p < 0\<close> nor
  \<open>p > 0\<close> holds).\<close>

theorem classify_counts_one:
  "count_total (classify s c) = count_total c + (if tr_p s = 0 then 0 else 1)"
  by (cases c) (auto simp: classify_def count_total_def)

text \<open>C30: a trajectory stopped by the step ceiling while still inside the domain is counted
  like one that left it: in state 1 on the left it is counted as reflected on the lower
  surface, not reported as inconclusive.\<close>

theorem classify_step_limit:
  assumes "tr_n s = 1038" and "PMin < tr_p s" and "tr_p s < PMax" and "tr_nstate s = 1" and "tr_p s < 0"
  shows "classify s ((j0, j1), k) = ((j0 + 1, j1), k)"
  using assms by (simp add: classify_def)

theorem classify_step_limit_witness:
  "let s = (init_traj eigh_reflect 20 2000 0)\<lparr>tr_n := 1038\<rparr>
   in tr_n s = 1038 \<and> (-10::real) < tr_p s \<and> tr_p s < 10 \<and> tr_nstate s = 1 \<and> tr_p s < 0 \<and>
      classify s ((0, 0), (0, 0)) = ((1, 0), (0, 0))"
proof -
  define s where "s = (init_traj eigh_reflect 20 2000 0)\<lparr>tr_n := 1038\<rparr>"
  have h: "tr_n s = 1038" "(-10::real) < tr_p s" "tr_p s < 10" "tr_nstate s = 1" "tr_p s < 0"
    by (simp_all add: s_def init_traj_def Let_def split_def)
  show ?thesis
    using classify_step_limit [OF h, of 0 0 "(0, 0)"] h unfolding s_def [symmetric] Let_def by simp
qed

text \<open>C20: for a positive number of trajectories, the sweep over momenta returns one entry
  per momentum, in order, and each entry's three probabilities (transmission and reflection
  on the lower surface, transmission on the upper one) lie in \<open>[0, 1]\<close> and add up to at
  most 1.\<close>

theorem sweep_probabilities_bounded:
  assumes "0 < ntraj"
  shows "\<exists>r. sweep eigh rnd ntraj ms d = Some r \<and> map fst r = ms \<and>
     list_all (\<lambda>(m, pr). \<exists>a b k. pr = Inr (a, b, k) \<and> 0 \<le> a \<and> 0 \<le> b \<and> 0 \<le> k \<and> a + b + k \<le> 1) r"
  using assms by (rule sweep_bounded)

theorem sweep_probabilities_bounded_witness:
  "\<exists>r. sweep eigh_reflect (\<lambda>_. 0) 1 [20] 0 = Some r \<and> map fst r = [20] \<and>
     list_all (\<lambda>(m, pr). \<exists>a b k. pr = Inr (a, b, k) \<and> 0 \<le> a \<and> 0 \<le> b \<and> 0 \<le> k \<and> a + b + k \<le> 1) r"
  using sweep_probabilities_bounded [of 1 eigh_reflect "\<lambda>_. 0" "[20]" 0] by simp

text \<open>C21: reproducibility. A trajectory reads the random stream only at the indices it
  draws, one per step and at most 1038 from its start index, so the whole run of \<open>main\<close>
  (one trajectory at momentum 20) depends only on the first 1038 values of the stream: two
  generators seeded alike up to there give identical results.\<close>

theorem fssh_main_reproducible:
  assumes "\<forall>i < 1038. rnd i = rnd' i"
  shows "fssh_main eigh rnd = fssh_main eigh rnd'"
  unfolding fssh_main_def using assms by (intro sweep_draws) simp

theorem fssh_main_reproducible_witness:
  "fssh_main eigh_reflect (\<lambda>_. 0) = fssh_main eigh_reflect (\<lambda>i. if i < 1038 then 0 else 1)"
  using fssh_main_reproducible [of "\<lambda>_. 0" "\<lambda>i. if i < 1038 then 0 else 1" eigh_reflect] by simp

end
