(* ===== verification/Drivers.thy ===== *)
theory Drivers
  imports Trajectory
begin

text \<open>
  The demonstration drivers, the \<open>main\<close> functions of \<open>PotEig.py\<close>, \<open>NACsForce.py\<close>,
  \<open>run/Fourth_RungeKutta.py\<close> and \<open>hopping_probability.py\<close>, without their printing and
  plotting. \<open>np.linspace\<close> is \<open>linspace\<close> (numpy's definition, exact arithmetic). A
  Python call with keyword arguments is checked by \<open>py_call\<close> against the parameter list of
  the callee, as CPython binds arguments: an unexpected keyword or a missing parameter
  raises \<open>TypeError\<close> before the body runs. The drivers only run the components on fixed
  inputs, so their behaviour is that of the components' properties; the lemmas here give
  the grid \<open>linspace\<close> builds and the \<open>TypeError\<close> the hopping demo raises (its keyword
  \<open>x\<close> is not a parameter of \<open>HoppingProbability\<close>).
\<close>

definition linspace :: "real \<Rightarrow> real \<Rightarrow> nat \<Rightarrow> real list" where
  "linspace start stop num =
     (if num = 1 then [start]
      else map (\<lambda>i. start + real i * ((stop - start) / real (num - 1))) [0..<num])"

definition py_call :: "string list \<Rightarrow> string list \<Rightarrow> py_error option" where
  "py_call params kws =
     (if \<not> set kws \<subseteq> set params then Some TypeError
      else if \<not> set params \<subseteq> set kws then Some TypeError else None)"

definition Calc_dij_force_params :: "string list" where
  "Calc_dij_force_params = [''V'', ''V_der'']"

definition HoppingProbability_params :: "string list" where
  "HoppingProbability_params = [''R_dot'', ''nstate'', ''cstate'', ''mass'', ''Eig'', ''dij'', ''t_step'']"

definition PotEig_main :: "(rmat \<Rightarrow> rvec \<times> rmat) \<Rightarrow> rvec list" where
  "PotEig_main eigh =
     (let npoints = 200; PMin = -10; PMax = 10;
          plist = linspace PMin PMax npoints
      in map (\<lambda>p. fst (eigh (fst (Potenial_ECR p)))) plist)"

definition NACsForce_main :: "(rmat \<Rightarrow> rvec \<times> rmat) \<Rightarrow> py_error + (rvec \<times> rmat \<times> rvec) list \<times> nat" where
  "NACsForce_main eigh =
     (let npoints = 200; PMin = -10; PMax = 10;
          plist = linspace PMin PMax npoints;
          type_name = ''SAC''
      in Plot_data eigh type_name plist)"

definition hopping_main :: "(rmat \<Rightarrow> rvec \<times> rmat) \<Rightarrow> real \<Rightarrow> py_error + nat \<times> real" where
  "hopping_main eigh rnd =
     (let momentum = 1; mass = 2000; R_dot = momentum / mass;
          cstate = \<lparr>v0 = 1, v1 = 0\<rparr>; p = -9.9999;
          (V, V_der) = Potenial_ECR p
      in case py_call Calc_dij_force_params [''V'', ''V_der''] of
           Some e \<Rightarrow> Inl e
         | None \<Rightarrow>
             (let (Eig, dij, force) = Calc_dij_force eigh V V_der; t_step = 1
              in case py_call HoppingProbability_params
                        [''R_dot'', ''cstate'', ''mass'', ''nstate'', ''Eig'', ''t_step'', ''x'', ''dij''] of
                   Some e \<Rightarrow> Inl e
                 | None \<Rightarrow> Inr (HoppingProbability R_dot 1 cstate mass Eig dij t_step rnd)))"

definition RK4_main :: "(rmat \<Rightarrow> rvec \<times> rmat) \<Rightarrow> cvec" where
  "RK4_main eigh =
     (let momentum = 1; mass = 2000; R_dot = momentum / mass;
          npoints = 200; PMin = -10; PMax = 10;
          plist = linspace PMin PMax npoints;
          cstate = \<lparr>v0 = 1, v1 = 0\<rparr>;
          (V, V_der) = Potenial_SAC (-9.9999);
          (Eig, dij, force) = Calc_dij_force eigh V V_der;
          t_step = 1
      in Fourth_RungeKutta R_dot cstate Eig dij t_step)"

lemma linspace_length [simp]: "length (linspace a b n) = n"
  by (simp add: linspace_def)

lemma linspace_nth:
  assumes "i < n" and "n \<noteq> 1"
  shows "linspace a b n ! i = a + real i * ((b - a) / real (n - 1))"
  using assms by (simp add: linspace_def)

lemma linspace_ends:
  assumes "2 \<le> n"
  shows "hd (linspace a b n) = a" "last (linspace a b n) = b"
proof -
  have ne: "linspace a b n \<noteq> []" using assms by (metis linspace_length list.size(3) not_numeral_le_zero)
  have "linspace a b n ! 0 = a" using assms by (simp add: linspace_nth)
  then show "hd (linspace a b n) = a" using ne by (simp add: hd_conv_nth)
  have "real (n - 1) \<noteq> 0" using assms by simp
  then have "linspace a b n ! (n - 1) = b" using assms by (simp add: linspace_nth)
  then show "last (linspace a b n) = b" using ne by (simp add: last_conv_nth)
qed

subsection \<open>The hopping demo\<close>

lemma hopping_main_TypeError:
  "hopping_main eigh rnd = Inl TypeError \<and>
   py_call HoppingProbability_params
     (removeAll ''x'' [''R_dot'', ''cstate'', ''mass'', ''nstate'', ''Eig'', ''t_step'', ''x'', ''dij'']) = None"
  by (simp add: hopping_main_def py_call_def HoppingProbability_params_def Calc_dij_force_params_def
      Let_def split_def)

end
