(* ===== verification/Spec2Isabelle.thy ===== *)
theory Spec2Isabelle
  imports Ensemble Drivers
begin

text \<open>
  \<^bold>\<open>A verification library for the FSSH simulator of \<open>src/FSSH.py/\<close>.\<close>
  The program simulates one particle of mass 2000 on two electronic states with Tully's
  fewest-switches surface hopping: every step integrates the complex amplitudes with a
  frozen electronic Hamiltonian (RK4), decides stochastically whether the active state
  switches (rescaling the velocity to conserve energy, or refusing a frustrated hop), and
  moves the nucleus by velocity-Verlet on the active surface; the loop runs until the
  particle leaves \<open>(-10, 10)\<close> or 1038 steps have run, and the final (state, side) is
  counted. All numbers are modelled as \<open>real\<close> and \<open>complex\<close> (exact arithmetic in place
  of float64): the theorems are about the algorithm the code computes. The Python
  exceptions the code can raise are the constructors of \<open>py_error\<close>.

  \<^bold>\<open>Parts, theories and definitions.\<close>
  \<^item> \<open>FSSH_Prelude\<close>: numpy (2,) and (2,2) arrays as the records \<open>'a vec2\<close>
    (\<open>v0\<close>, \<open>v1\<close>) and \<open>'a mat2\<close> (\<open>m00\<close> \<dots> \<open>m11\<close>); \<open>np.dot\<close> as \<open>vmul\<close>
    (row vector times matrix) and \<open>mmul\<close>; \<open>x[nstate-1]\<close> as \<open>sel\<close>; the error type
    \<open>py_error\<close>; the collection \<open>mat2_defs\<close>; linearity lemmas, the derivative rule
    \<open>DERIV_if_sign\<close> for functions defined by cases on the sign of the position, and
    elementary bounds on \<open>exp\<close> and on products.
  \<^item> \<open>PotEig\<close> (\<open>PotEig.py\<close>): \<open>Potenial_SAC\<close>, \<open>Potenial_DAC\<close>,
    \<open>Potenial_ECR\<close>, position \<open>\<mapsto>\<close> \<open>(V, V_der)\<close>. Lemmas: symmetry of both matrices; \<open>V_der\<close> is
    the exact derivative of \<open>V\<close> at every position, including the junctions at 0 (C6, C25,
    C26); both \<open>V\<close> and \<open>V_der\<close> are continuous everywhere, the junctions included
    (C27); the coupling is positive; bounds on the SAC cells in the incoming region
    \<open>p \<le> -1\<close>.
  \<^item> \<open>NACsForce\<close> (\<open>NACsForce.py\<close>): \<open>Calc_dij_force\<close>, parameterised by the eigensolver.
    \<open>np.linalg.eigh\<close> is a library; it is represented by its contract \<open>eigh_spec\<close>
    (ascending eigenvalues, orthonormal eigenvector columns, sign of each column free) and
    by one closed-form solver meeting it, \<open>eigh_reflect\<close>, used by the witnesses.
    \<open>adiabatic_derivative\<close> is the textbook \<open>U\<^sup>T V' U\<close> and \<open>adiabatic_transform\<close> the
    spec's transform built on it. \<open>Plot_data\<close> is \<open>Plot\<close>'s choice of potential by name
    (an unknown name raises \<open>NameError\<close> at the first grid point) and its per-point
    evaluation, \<open>Plot_series\<close> the five curves it draws and their legend (\<open>IndexError\<close>
    for an empty grid; \<open>decimal\<close> is Python's \<open>%d\<close>), \<open>Plot\<close> the two composed.
    Lemmas: antisymmetric coupling (C8); nonzero gap for the model potentials (C24); the
    code forms \<open>U V' U\<close>, and it agrees with the spec's transform for every derivative
    exactly when the eigenbasis is symmetric, which numpy's contract does not guarantee
    (C19); for a symmetric eigenbasis the forces are exactly minus the derivatives of the
    adiabatic energies (Hellmann-Feynman, C7).
  \<^item> \<open>Fourth_RungeKutta\<close> (\<open>run/Fourth_RungeKutta.py\<close>): \<open>Coefficient_DiffEqu\<close> and
    \<open>Fourth_RungeKutta\<close>. Lemmas: the right-hand side is the docstring's equation (C17);
    a step is the fourth-order Taylor polynomial \<open>taylor4\<close> of the linear flow (C4); its
    local error against the exact flow \<open>exact_flow\<close> (the exponential series of the
    frozen equation, which \<open>exact_flow_solves\<close> shows to be its solution) is of order
    five in the step (C5); the exact change of \<open>|c|\<^sup>2\<close> in one step, of order six in the
    step size (C13); the drift over \<open>n\<close> steps is bounded in terms of \<open>coeff_bound\<close>
    and vanishes with the step (C14), while the exact flow conserves \<open>|c|\<^sup>2\<close> for an
    antisymmetric coupling (C12), so the drift is the integrator's alone.
  \<^item> \<open>Hopping_Probability\<close> (\<open>hopping_probability.py\<close>): \<open>density\<close> (the array
    \<open>a\<close>), \<open>bmat\<close> (the array \<open>b\<close>), \<open>HoppingProbability\<close> with the draw of
    \<open>random.random()\<close> as its argument \<open>rnd\<close>, and \<open>VelocityVerlet\<close> (which calls
    \<open>Potenial_SAC\<close> and \<open>Calc_dij_force\<close> at the new position). Lemmas: frustrated hop
    (C3), energy conservation with a real rescaled velocity (C2), no hop from an empty
    state (C23), time-reversibility of the integrator (C22), and
    area preservation: the Jacobian of a Verlet step in \<open>(x, R_dot)\<close> has determinant
    1 wherever the acceleration is differentiable (C10).
  \<^item> \<open>Trajectory\<close> (\<open>run/FSSH.py\<close>, the body of the trajectory loop): the
    trajectory record \<open>traj\<close>, \<open>init_traj\<close>, the loop body \<open>fssh_step\<close> (propagator,
    hop, integrator, in the source's order, each stage reading the adiabatic data the
    previous integrator call stored), the loop \<open>propagate\<close> as
    \<open>partial_function (option)\<close>, the inductive step relation \<open>reach\<close> with its halted
    states \<open>halted\<close>; \<open>hop_stage\<close> and \<open>verlet_stage\<close> are the two halves of the
    body and \<open>traj_energy\<close> the total energy \<open>\<onehalf> mass R_dot\<^sup>2 + Eig[nstate-1]\<close>.
    Lemmas: every trajectory returns within the step ceiling with a
    consistent final state (C1); invariant of all reachable states by rule induction (C9);
    every reachable state leads to a halted one (\<open>Trajectory.reach_halts\<close>); in the
    incoming region each step keeps the amplitude norm within
    \<open>1 \<plusminus> 10\<^sup>-\<^sup>7\<close> (C15); a particle in state 1 below the stored gap stays in state 1
    through a pass of the loop (C16); a pass is the hop stage followed by the integrator
    stage, and the hop stage conserves the total energy in every reachable state (C11).
  \<^item> \<open>Ensemble\<close> (\<open>run/FSSH.py\<close>, the outcome statistics): the counting
    \<open>classify\<close>, the ensemble loop \<open>ensemble\<close> (threading the index of the global random
    stream \<open>rnd :: nat \<Rightarrow> real\<close>), \<open>probabilities\<close>, \<open>sweep\<close> over the momenta and
    \<open>fssh_main\<close>; \<open>outcomes\<close> lists the halted trajectories of an ensemble. Lemmas:
    the probabilities lie in \<open>[0, 1]\<close> and add up to at most 1 (C20); the run depends
    only on the first 1038 random draws of each trajectory, so a fixed seed reproduces it
    (C21); the ensemble is the fold of the classification over \<open>outcomes\<close>, its counts
    adding up to the trajectories not ending at \<open>p = 0\<close> (C28); exact effect of one
    classification and the silent drop at \<open>p = 0\<close> (C29); step-ceiling trajectories
    counted as ordinary outcomes (C30). With \<open>ntraj = 0\<close> the division raises
    \<open>ZeroDivisionError\<close> (\<open>Ensemble.probabilities_bounded\<close> needs \<open>ntraj > 0\<close>).
  \<^item> \<open>Drivers\<close>: the computing part of the demo \<open>main\<close> functions. \<open>linspace\<close> is
    \<open>np.linspace\<close>; \<open>py_call\<close> is CPython's binding of keyword arguments to a parameter
    list (\<open>Calc_dij_force_params\<close>, \<open>HoppingProbability_params\<close> are the signatures);
    \<open>PotEig_main\<close>, \<open>NACsForce_main\<close>, \<open>RK4_main\<close>, \<open>hopping_main\<close> are the four
    \<open>main\<close> functions without printing and plotting. They run the components on fixed
    inputs and carry no properties of their own; \<open>Drivers.hopping_main_TypeError\<close> records
    that the hopping demo raises \<open>TypeError\<close> (a finding).
  \<^item> This theory: properties spanning components. The hop rate \<open>b\<close> is the population
    flux of the propagated equation (C18).

  \<^bold>\<open>Bounds and fuel.\<close> No fuel is used: the loop is a \<open>partial_function\<close>, and its
  termination is proved from the source's own \<open>break\<close> at \<open>n == 1038\<close> (started at
  \<open>n = 0\<close>, at most 1038 iterations, \<open>Trajectory.propagate_returns\<close>). The ensemble and
  momentum loops are structural recursion. The norm bounds use \<open>coeff_bound\<close>, the sum of
  the squared entries of the coefficient matrix of the amplitude equation; in the
  incoming region \<open>p \<le> -1\<close> of the SAC model with \<open>|R_dot| \<le> 1/100\<close> it is at most
  \<open>1/100\<close> for every eigensolver meeting the contract (\<open>Trajectory.SAC_left_coeff_bound\<close>),
  which covers the start of every trajectory of \<open>main\<close> (momentum 20, mass 2000).

  \<^bold>\<open>Not modelled.\<close> The drawing of figures (matplotlib), printing, timing and the
  commented-out file output: pure output, no logic (the data handed to \<open>plt.plot\<close> by
  \<open>Plot\<close> is modelled, \<open>Plot_series\<close>); the imports and the
  \<open>if __name__ == "__main__"\<close> guards; the internals of numpy's eigensolver (contract only) and of
  \<open>np.linspace\<close> beyond its exact-arithmetic value; floating-point rounding, hence also
  the values only float arithmetic produces: a division by zero is \<open>0\<close> in HOL where
  numpy gives \<open>inf\<close> or \<open>NaN\<close> or Python raises (the degenerate gap in
  \<open>Calc_dij_force\<close>, \<open>momentum/mass\<close> and \<open>force/mass\<close> with \<open>mass = 0\<close>, the hop
  probability from an empty state). None of these is reached with the program's fixed
  parameters (\<open>mass = 2000\<close>, the model potentials' nonzero gap, C24), and the one at a
  zero population gives the same decision as NaN (C23).

  \<^bold>\<open>Further work.\<close> A bound on the energy error of velocity-Verlet over many steps
  (the single-step area preservation is C10); a trace-level relation with the hop count.
\<close>

text \<open>C18: the rate \<open>b[1,0]\<close> (\<open>b[0,1]\<close>) that \<open>HoppingProbability\<close> divides by \<open>a[0,0]\<close>
  (\<open>a[1,1]\<close>) is exactly the time derivative \<open>2 Re(c\<^sub>k\<^sup>* c\<^sup>._k)\<close> of the population of the
  other state under the equation \<open>Coefficient_DiffEqu\<close> propagates: the hop probability is
  the population flux of the electronic propagator, for any coupling.\<close>

theorem hop_rate_is_population_flux:
  "m10 (bmat R_dot (density c) Eig dij) = 2 * Re (cnj (v1 c) * v1 (Coefficient_DiffEqu R_dot c Eig dij)) \<and>
   m01 (bmat R_dot (density c) Eig dij) = 2 * Re (cnj (v0 c) * v0 (Coefficient_DiffEqu R_dot c Eig dij))"
  by (simp add: bmat_cells Coefficient_DiffEqu_cells algebra_simps)

end
